theory Spec2Isabelle
  imports Complex_Main
begin

section \<open>Permagit backend: the payment-gated authorization engine\<close>

text \<open>
  A shallow embedding of the backend's request handlers (\<^verbatim>\<open>index.ts\<close>) over the
  relational schema of \<^verbatim>\<open>db.ts\<close>.  A table is the list of its rows in insertion
  order, a nullable column is an \<open>option\<close>, a \<^verbatim>\<open>TIMESTAMPTZ\<close> is a natural number,
  and every SQL statement is a function on the database value.  Random values
  (\<^verbatim>\<open>randomUUID\<close>, \<^verbatim>\<open>randomBytes\<close>) and the clock (\<^verbatim>\<open>NOW()\<close>, \<^verbatim>\<open>Date.now()\<close>) are
  arguments of the handler that draws them.
\<close>

subsection \<open>Values thrown and HTTP error replies\<close>

text \<open>
  \<^verbatim>\<open>throw new Error(msg)\<close> is \<open>Error msg\<close>; an error raised by the store is
  \<open>PgError code msg\<close> with the SQLSTATE code that \<^verbatim>\<open>err.code\<close> reads.
\<close>

datatype exn = Error string | PgError string string

fun exn_message :: "exn \<Rightarrow> string" where
  "exn_message (Error m) = m"
| "exn_message (PgError c m) = m"

fun exn_code :: "exn \<Rightarrow> string option" where
  "exn_code (Error m) = None"
| "exn_code (PgError c m) = Some c"

text \<open>\<^verbatim>\<open>res.status(s).json({ error: e, message: m })\<close>\<close>

datatype http_error = HttpError nat string "string option"

type_synonym timestamp = nat

subsection \<open>Configuration read from the environment\<close>

record config =
  PAYMENT_DESTINATION :: string
  PAYMENT_TOKEN_MINT :: string
  PAYMENT_TOKEN_DECIMALS :: nat
  PAYMENT_MIN_TOKENS :: string
  MIN_PAYMENT_ATOMIC :: int

subsection \<open>Signer lists and thresholds\<close>

text \<open>
  A string is the list of the bytes of its UTF-8 encoding.  \<open>white_space\<close> lists the
  encodings of the code points that \<^verbatim>\<open>String.prototype.trim\<close> removes (white space and
  line terminators): U+0009 to U+000D, U+0020, U+00A0, U+1680, U+2000 to U+200A, U+2028,
  U+2029, U+202F, U+205F, U+3000 and U+FEFF.
\<close>

definition white_space :: "string list" where
  "white_space =
     [CHR 0x09] # [CHR 0x0A] # [CHR 0x0B] # [CHR 0x0C] # [CHR 0x0D] # [CHR 0x20] #
     [CHR 0xC2, CHR 0xA0] # [CHR 0xE1, CHR 0x9A, CHR 0x80] #
     [CHR 0xE2, CHR 0x80, CHR 0x80] # [CHR 0xE2, CHR 0x80, CHR 0x81] #
     [CHR 0xE2, CHR 0x80, CHR 0x82] # [CHR 0xE2, CHR 0x80, CHR 0x83] #
     [CHR 0xE2, CHR 0x80, CHR 0x84] # [CHR 0xE2, CHR 0x80, CHR 0x85] #
     [CHR 0xE2, CHR 0x80, CHR 0x86] # [CHR 0xE2, CHR 0x80, CHR 0x87] #
     [CHR 0xE2, CHR 0x80, CHR 0x88] # [CHR 0xE2, CHR 0x80, CHR 0x89] #
     [CHR 0xE2, CHR 0x80, CHR 0x8A] # [CHR 0xE2, CHR 0x80, CHR 0xA8] #
     [CHR 0xE2, CHR 0x80, CHR 0xA9] # [CHR 0xE2, CHR 0x80, CHR 0xAF] #
     [CHR 0xE2, CHR 0x81, CHR 0x9F] # [CHR 0xE3, CHR 0x80, CHR 0x80] #
     [CHR 0xEF, CHR 0xBB, CHR 0xBF] # []"

text \<open>\<open>strip ws s\<close> removes from the front of \<open>s\<close> every leading occurrence of a string of \<open>ws\<close>.\<close>

function strip :: "string list \<Rightarrow> string \<Rightarrow> string" where
  "strip ws s =
     (case find (\<lambda>w. w \<noteq> [] \<and> take (length w) s = w) ws of
        None \<Rightarrow> s
      | Some w \<Rightarrow> strip ws (drop (length w) s))"
  by pat_completeness auto
termination
proof (relation "measure (\<lambda>(ws, s). length s)")
  show "wf (measure (\<lambda>(ws, s). length s))" by simp
next
  fix ws :: "string list" and s w :: string
  assume "find (\<lambda>w. w \<noteq> [] \<and> take (length w) s = w) ws = Some w"
  then have "w \<noteq> []" "take (length w) s = w"
    by (auto simp: find_Some_iff)
  then have "s \<noteq> []" by auto
  with \<open>w \<noteq> []\<close> show "((ws, drop (length w) s), (ws, s)) \<in> measure (\<lambda>(ws, s). length s)"
    by simp
qed

definition trim :: "string \<Rightarrow> string" where
  "trim s = rev (strip (map rev white_space) (rev (strip white_space s)))"

text \<open>\<^verbatim>\<open>s.split(",")\<close>: the pieces between commas, at least one piece.\<close>

fun split_comma :: "string \<Rightarrow> string list" where
  "split_comma [] = [] # []"
| "split_comma (c # cs) =
     (if c = CHR '','' then [] # split_comma cs
      else (case split_comma cs of
              [] \<Rightarrow> (c # []) # []
            | p # ps \<Rightarrow> (c # p) # ps))"

text \<open>
  The \<^verbatim>\<open>unknown\<close> value given as \<^verbatim>\<open>signers\<close>: a falsy value, an array (an element
  that is not a string is \<open>None\<close>), a non-empty string, or anything else.
\<close>

datatype signers_input =
    SignersFalsy
  | SignersArray "string option list"
  | SignersString string
  | SignersOther

fun parseSigners :: "signers_input \<Rightarrow> string list" where
  "parseSigners SignersFalsy = []"
| "parseSigners (SignersArray vs) =
     filter (\<lambda>v. length v > 0)
       (map (\<lambda>v. case v of Some s \<Rightarrow> trim s | None \<Rightarrow> []) vs)"
| "parseSigners (SignersString s) =
     (if s = [] then []
      else filter (\<lambda>v. length v > 0) (map trim (split_comma s)))"
| "parseSigners SignersOther = []"

text \<open>
  A JavaScript \<^verbatim>\<open>number\<close>: a finite value (a rational; \<open>-0\<close> is \<open>0\<close>), an infinity or
  \<^verbatim>\<open>NaN\<close>, with the tests the handlers make on it: truthiness, \<^verbatim>\<open>x > 0\<close>, and \<^verbatim>\<open>x <= n\<close>
  for a length \<open>n\<close>.
\<close>

datatype number = Num rat | PosInfinity | NegInfinity | NaN

fun truthy :: "number \<Rightarrow> bool" where
  "truthy (Num r) = (r \<noteq> 0)"
| "truthy PosInfinity = True"
| "truthy NegInfinity = True"
| "truthy NaN = False"

fun gt_zero :: "number \<Rightarrow> bool" where
  "gt_zero (Num r) = (r > 0)"
| "gt_zero PosInfinity = True"
| "gt_zero NegInfinity = False"
| "gt_zero NaN = False"

fun le_length :: "number \<Rightarrow> nat \<Rightarrow> bool" where
  "le_length (Num r) n = (r \<le> of_nat n)"
| "le_length PosInfinity n = False"
| "le_length NegInfinity n = True"
| "le_length NaN n = False"

text \<open>
  \<^verbatim>\<open>calcThreshold(signers, maybeThreshold)\<close>; \<open>None\<close> is \<^verbatim>\<open>undefined\<close> or \<^verbatim>\<open>null\<close>.  The
  function makes no test that the number is an integer.
\<close>

definition calcThreshold :: "string list \<Rightarrow> number option \<Rightarrow> number option" where
  "calcThreshold signers maybeThreshold =
     (if length signers = 0 then None
      else if (case maybeThreshold of
                 None \<Rightarrow> False
               | Some t \<Rightarrow> truthy t \<and> gt_zero t \<and> le_length t (length signers))
           then maybeThreshold
      else Some (Num (of_int \<lceil>(of_nat (length signers) :: rat) / 2\<rceil>)))"

text \<open>
  \<^verbatim>\<open>Number.isNaN(thresholdNumber) ? undefined : thresholdNumber\<close>, the argument that both
  callers pass.
\<close>

definition unless_NaN :: "number \<Rightarrow> number option" where
  "unless_NaN x = (if x = NaN then None else Some x)"

subsection \<open>The ledger verifier\<close>

text \<open>
  What \<^verbatim>\<open>conn.getTransaction\<close> returns: \<open>None\<close> for \<^verbatim>\<open>null\<close>, and a transaction
  whose \<open>meta\<close> may be missing.  \<open>uta_amount\<close> is the integer that \<^verbatim>\<open>BigInt\<close> reads
  from the decimal string \<^verbatim>\<open>uiTokenAmount.amount\<close>; \<open>uta_decimals\<close> is \<open>None\<close> when the
  field is not a number.
\<close>

record ui_token_amount =
  uta_amount :: int
  uta_decimals :: "nat option"

record token_balance =
  tb_accountIndex :: nat
  tb_mint :: string
  tb_owner :: "string option"
  tb_uiTokenAmount :: "ui_token_amount option"

record tx_meta =
  meta_err :: bool
  meta_postTokenBalances :: "token_balance list option"
  meta_preTokenBalances :: "token_balance list option"

record chain_tx =
  tx_meta :: "tx_meta option"

record chain_info =
  amountAtomic :: int
  decimals :: nat

definition or_empty :: "'a list option \<Rightarrow> 'a list" where
  "or_empty xs = (case xs of None \<Rightarrow> [] | Some ys \<Rightarrow> ys)"

definition amount_of :: "token_balance option \<Rightarrow> int" where
  "amount_of e =
     (case e of
        None \<Rightarrow> 0
      | Some b \<Rightarrow> (case tb_uiTokenAmount b of None \<Rightarrow> 0 | Some u \<Rightarrow> uta_amount u))"

definition dest_decimals :: "config \<Rightarrow> token_balance \<Rightarrow> nat" where
  "dest_decimals cfg dest =
     (case tb_uiTokenAmount dest of
        None \<Rightarrow> PAYMENT_TOKEN_DECIMALS cfg
      | Some u \<Rightarrow> (case uta_decimals u of None \<Rightarrow> PAYMENT_TOKEN_DECIMALS cfg | Some d \<Rightarrow> d))"

definition verifyTokenPayment ::
  "config \<Rightarrow> (string \<Rightarrow> chain_tx option) \<Rightarrow> string \<Rightarrow> exn + chain_info" where
  "verifyTokenPayment cfg getTransaction txSig =
     (if PAYMENT_DESTINATION cfg = [] \<or> PAYMENT_TOKEN_MINT cfg = []
      then Inl (Error ''payment_env_not_configured'')
      else case getTransaction txSig of
        None \<Rightarrow> Inl (Error ''transaction_not_found'')
      | Some tx \<Rightarrow>
        (case tx_meta tx of
           None \<Rightarrow> Inl (Error ''transaction_not_found'')
         | Some meta \<Rightarrow>
           (if meta_err meta then Inl (Error ''transaction_failed'')
            else
              (let postBalances = or_empty (meta_postTokenBalances meta);
                   preBalances = or_empty (meta_preTokenBalances meta)
               in (case find (\<lambda>entry. tb_owner entry = Some (PAYMENT_DESTINATION cfg)
                                    \<and> tb_mint entry = PAYMENT_TOKEN_MINT cfg) postBalances of
                     None \<Rightarrow> Inl (Error ''destination_not_involved'')
                   | Some dest \<Rightarrow>
                      (let preMatch = find (\<lambda>entry. tb_mint entry = PAYMENT_TOKEN_MINT cfg
                                             \<and> tb_owner entry = Some (PAYMENT_DESTINATION cfg)
                                             \<and> tb_accountIndex entry = tb_accountIndex dest) preBalances;
                           postAmount = amount_of (Some dest);
                           preAmount = amount_of preMatch;
                           delta = postAmount - preAmount
                       in (if delta \<le> 0 then Inl (Error ''no_deposit_detected'')
                           else Inr \<lparr> amountAtomic = delta, decimals = dest_decimals cfg dest \<rparr>)))))))"

subsection \<open>The schema\<close>

text \<open>
  One record per table of \<^verbatim>\<open>initSchema\<close>, one field per column that a handler reads or
  writes.  \<^verbatim>\<open>payments.usd_value\<close> and the table \<^verbatim>\<open>pushes\<close> are not touched by the
  payment, ticket and approval handlers and are left out.
\<close>

record payment_metadata =
  md_decimals :: nat
  md_minTokens :: string
  md_destination :: string
  md_mint :: string

record payment_row =
  pay_id :: string
  pay_tx_sig :: string
  pay_payer :: string
  pay_purpose :: string
  pay_token_amount_atomic :: int
  pay_status :: string
  pay_repo_name :: "string option"
  pay_consumed_at :: "timestamp option"
  pay_metadata :: "payment_metadata option"
  pay_created_at :: timestamp

record repo_row =
  repo_id :: string
  repo_name :: string
  repo_owner :: string
  repo_is_private :: bool
  repo_is_multisig :: bool
  repo_threshold :: "int option"
  repo_signers :: "string list"
  repo_payment_tx :: "string option"
  repo_created_at :: timestamp

record otp_row =
  otp_id :: string
  otp_repo_id :: string
  otp_payment_tx :: string
  otp_plain :: string
  otp_decrypt_key :: string
  otp_bundle_tx :: string
  otp_expires_at :: "timestamp option"
  otp_used_at :: "timestamp option"
  otp_created_at :: timestamp

record push_row =
  mp_id :: string
  mp_repo_id :: string
  mp_push_tx :: string
  mp_branch :: "string option"
  mp_status :: string
  mp_approvals_required :: int
  mp_approvals_count :: int
  mp_created_at :: timestamp
  mp_approved_at :: "timestamp option"

record sig_row =
  ms_id :: string
  ms_multisig_push_id :: string
  ms_signer :: string
  ms_signature_b64 :: string
  ms_created_at :: timestamp

record db =
  payments :: "payment_row list"
  repos :: "repo_row list"
  otp_tokens :: "otp_row list"
  multisig_pushes :: "push_row list"
  multisig_signatures :: "sig_row list"

subsection \<open>SQL statements\<close>

text \<open>
  A \<^verbatim>\<open>SELECT\<close> on columns that a unique constraint covers is \<open>find\<close>: it has at most
  one row to return.  The ticket lookup by \<^verbatim>\<open>otp_plain\<close>, a column with no such constraint,
  returns any one of the matching rows (\<open>select_otp_by_plain\<close>).  An \<^verbatim>\<open>INSERT\<close> checks \<^verbatim>\<open>NOT NULL\<close>, then the primary key, then the other
  unique constraints, and raises SQLSTATE 23502 or 23505; with \<^verbatim>\<open>ON CONFLICT (cols) DO
  NOTHING\<close> a conflict on \<open>cols\<close> inserts nothing and returns no row.  An \<^verbatim>\<open>UPDATE\<close>
  rewrites every row its \<^verbatim>\<open>WHERE\<close> selects.
\<close>

definition unique_violation :: "string \<Rightarrow> exn" where
  "unique_violation c = PgError ''23505'' (''duplicate key value violates unique constraint '' @ c)"

definition not_null_violation :: "string \<Rightarrow> exn" where
  "not_null_violation c = PgError ''23502'' (''null value violates not-null constraint in column '' @ c)"

text \<open>
  A number bound to an \<^verbatim>\<open>INTEGER\<close> column travels as its decimal text, which the store
  parses when it binds the parameters, before it runs the statement: a value that is not
  an integer, or that JavaScript prints with an exponent (\<open>10^21\<close> and beyond), raises
  SQLSTATE 22P02, an integer outside 32 bits raises 22003.
\<close>

definition int4_value :: "number \<Rightarrow> exn + int" where
  "int4_value x =
     (case x of
        Num r \<Rightarrow>
          if of_int \<lfloor>r\<rfloor> \<noteq> r \<or> \<bar>r\<bar> \<ge> 10 ^ 21
          then Inl (PgError ''22P02'' ''invalid input syntax for type integer'')
          else if \<lfloor>r\<rfloor> < - 2147483648 \<or> 2147483647 < \<lfloor>r\<rfloor>
          then Inl (PgError ''22003'' ''value out of range for type integer'')
          else Inr \<lfloor>r\<rfloor>
      | _ \<Rightarrow> Inl (PgError ''22P02'' ''invalid input syntax for type integer''))"

definition int4_param :: "number option \<Rightarrow> exn + int option" where
  "int4_param v =
     (case v of
        None \<Rightarrow> Inr None
      | Some x \<Rightarrow> (case int4_value x of Inl e \<Rightarrow> Inl e | Inr i \<Rightarrow> Inr (Some i)))"

definition select_payment_by_tx_sig :: "db \<Rightarrow> string \<Rightarrow> payment_row option" where
  "select_payment_by_tx_sig d txSig = find (\<lambda>r. pay_tx_sig r = txSig) (payments d)"

definition update_payment_confirmed :: "db \<Rightarrow> string \<Rightarrow> db" where
  "update_payment_confirmed d pid =
     d\<lparr> payments := map (\<lambda>r. if pay_id r = pid then r\<lparr> pay_status := ''confirmed'' \<rparr> else r)
                          (payments d) \<rparr>"

definition update_payment_consumed :: "db \<Rightarrow> string \<Rightarrow> timestamp \<Rightarrow> db" where
  "update_payment_consumed d pid now =
     d\<lparr> payments := map (\<lambda>r. if pay_id r = pid then r\<lparr> pay_consumed_at := Some now \<rparr> else r)
                          (payments d) \<rparr>"

definition insert_payment ::
  "db \<Rightarrow> string \<Rightarrow> string \<Rightarrow> string option \<Rightarrow> string \<Rightarrow> int \<Rightarrow> string option
     \<Rightarrow> payment_metadata \<Rightarrow> timestamp \<Rightarrow> exn + (payment_row \<times> db)" where
  "insert_payment d pid txSig payer purpose amount repoName metadata now =
     (case payer of
        None \<Rightarrow> Inl (not_null_violation ''payer'')
      | Some p \<Rightarrow>
          if pid \<in> set (map pay_id (payments d)) then Inl (unique_violation ''payments_pkey'')
          else if txSig \<in> set (map pay_tx_sig (payments d))
          then Inl (unique_violation ''payments_tx_sig_key'')
          else
            (let row = \<lparr> pay_id = pid, pay_tx_sig = txSig, pay_payer = p, pay_purpose = purpose,
                         pay_token_amount_atomic = amount, pay_status = ''confirmed'',
                         pay_repo_name = repoName, pay_consumed_at = None,
                         pay_metadata = Some metadata, pay_created_at = now \<rparr>
             in Inr (row, d\<lparr> payments := payments d @ [row] \<rparr>)))"

definition select_repo_by_id :: "db \<Rightarrow> string \<Rightarrow> repo_row option" where
  "select_repo_by_id d rid = find (\<lambda>r. repo_id r = rid) (repos d)"

text \<open>\<^verbatim>\<open>getRepoByOwnerAndName\<close>: no query when either argument is missing or empty.\<close>

definition getRepoByOwnerAndName :: "db \<Rightarrow> string option \<Rightarrow> string option \<Rightarrow> repo_row option" where
  "getRepoByOwnerAndName d owner name =
     (case (owner, name) of
        (Some ow, Some nm) \<Rightarrow>
          if ow = [] \<or> nm = [] then None
          else find (\<lambda>r. repo_owner r = ow \<and> repo_name r = nm) (repos d)
      | _ \<Rightarrow> None)"

text \<open>\<^verbatim>\<open>INSERT INTO repos ... ON CONFLICT (owner, name) DO NOTHING RETURNING *\<close>\<close>

definition insert_repo_on_conflict_do_nothing :: "db \<Rightarrow> repo_row \<Rightarrow> exn + (repo_row option \<times> db)" where
  "insert_repo_on_conflict_do_nothing d row =
     (if \<exists>r \<in> set (repos d). repo_owner r = repo_owner row \<and> repo_name r = repo_name row
      then Inr (None, d)
      else if repo_id row \<in> set (map repo_id (repos d)) then Inl (unique_violation ''repos_pkey'')
      else Inr (Some row, d\<lparr> repos := repos d @ [row] \<rparr>))"

text \<open>\<^verbatim>\<open>INSERT INTO repos ... RETURNING *\<close> (no conflict clause)\<close>

definition insert_repo :: "db \<Rightarrow> repo_row \<Rightarrow> exn + (repo_row \<times> db)" where
  "insert_repo d row =
     (if repo_id row \<in> set (map repo_id (repos d)) then Inl (unique_violation ''repos_pkey'')
      else if \<exists>r \<in> set (repos d). repo_owner r = repo_owner row \<and> repo_name r = repo_name row
      then Inl (unique_violation ''repos_owner_name_key'')
      else Inr (row, d\<lparr> repos := repos d @ [row] \<rparr>))"

text \<open>
  \<^verbatim>\<open>UPDATE repos SET is_multisig = true, threshold = $1, signers = $2,
  payment_tx = COALESCE(payment_tx, $3) WHERE id = $4\<close>
\<close>

definition update_repo_multisig :: "db \<Rightarrow> int option \<Rightarrow> string list \<Rightarrow> string \<Rightarrow> string \<Rightarrow> db" where
  "update_repo_multisig d threshold signers paymentTx rid =
     d\<lparr> repos := map (\<lambda>r. if repo_id r = rid
                           then r\<lparr> repo_is_multisig := True, repo_threshold := threshold,
                                   repo_signers := signers,
                                   repo_payment_tx := (case repo_payment_tx r of
                                                         None \<Rightarrow> Some paymentTx
                                                       | Some t \<Rightarrow> Some t) \<rparr>
                           else r) (repos d) \<rparr>"

definition insert_otp_token :: "db \<Rightarrow> otp_row \<Rightarrow> exn + db" where
  "insert_otp_token d row =
     (if otp_id row \<in> set (map otp_id (otp_tokens d)) then Inl (unique_violation ''otp_tokens_pkey'')
      else Inr (d\<lparr> otp_tokens := otp_tokens d @ [row] \<rparr>))"

text \<open>
  \<^verbatim>\<open>SELECT * FROM otp_tokens WHERE otp_plain = $1 LIMIT 1\<close>.  The column has no unique
  constraint and the query no \<^verbatim>\<open>ORDER BY\<close>, so the store is free to return any row that
  matches.  \<open>pick\<close> stands for the store's choice: given the matching rows it names the
  position (modulo their number) of the one returned.
\<close>

definition select_otp_by_plain :: "(otp_row list \<Rightarrow> nat) \<Rightarrow> db \<Rightarrow> string \<Rightarrow> otp_row option" where
  "select_otp_by_plain pick d otp =
     (case filter (\<lambda>r. otp_plain r = otp) (otp_tokens d) of
        [] \<Rightarrow> None
      | r # rs \<Rightarrow> Some ((r # rs) ! (pick (r # rs) mod length (r # rs))))"

text \<open>
  \<^verbatim>\<open>UPDATE otp_tokens SET used_at = NOW() WHERE id = $1 AND used_at IS NULL\<close>, with
  its \<^verbatim>\<open>rowCount\<close>.
\<close>

definition update_otp_used_if_null :: "db \<Rightarrow> string \<Rightarrow> timestamp \<Rightarrow> nat \<times> db" where
  "update_otp_used_if_null d oid now =
     (length (filter (\<lambda>r. otp_id r = oid \<and> otp_used_at r = None) (otp_tokens d)),
      d\<lparr> otp_tokens := map (\<lambda>r. if otp_id r = oid \<and> otp_used_at r = None
                                 then r\<lparr> otp_used_at := Some now \<rparr> else r) (otp_tokens d) \<rparr>)"

definition select_push :: "db \<Rightarrow> string \<Rightarrow> string \<Rightarrow> push_row option" where
  "select_push d rid pushTx =
     find (\<lambda>r. mp_repo_id r = rid \<and> mp_push_tx r = pushTx) (multisig_pushes d)"

text \<open>
  \<^verbatim>\<open>INSERT INTO multisig_pushes (id, repo_id, push_tx, branch, approvals_required)
  ... ON CONFLICT (repo_id, push_tx) DO NOTHING\<close>; \<^verbatim>\<open>status\<close> and \<^verbatim>\<open>approvals_count\<close>
  take their defaults.
\<close>

definition insert_push_on_conflict_do_nothing ::
  "db \<Rightarrow> string \<Rightarrow> string \<Rightarrow> string \<Rightarrow> string option \<Rightarrow> int \<Rightarrow> timestamp \<Rightarrow> exn + db" where
  "insert_push_on_conflict_do_nothing d pid rid pushTx branch required now =
     (if \<exists>r \<in> set (multisig_pushes d). mp_repo_id r = rid \<and> mp_push_tx r = pushTx
      then Inr d
      else if pid \<in> set (map mp_id (multisig_pushes d))
      then Inl (unique_violation ''multisig_pushes_pkey'')
      else Inr (d\<lparr> multisig_pushes := multisig_pushes d @
                      [\<lparr> mp_id = pid, mp_repo_id = rid, mp_push_tx = pushTx, mp_branch = branch,
                         mp_status = ''pending'', mp_approvals_required = required,
                         mp_approvals_count = 0, mp_created_at = now,
                         mp_approved_at = None \<rparr>] \<rparr>))"

definition insert_signature :: "db \<Rightarrow> sig_row \<Rightarrow> exn + db" where
  "insert_signature d row =
     (if ms_id row \<in> set (map ms_id (multisig_signatures d))
      then Inl (unique_violation ''multisig_signatures_pkey'')
      else if \<exists>r \<in> set (multisig_signatures d).
                 ms_multisig_push_id r = ms_multisig_push_id row \<and> ms_signer r = ms_signer row
      then Inl (unique_violation ''multisig_signatures_multisig_push_id_signer_key'')
      else Inr (d\<lparr> multisig_signatures := multisig_signatures d @ [row] \<rparr>))"

text \<open>\<^verbatim>\<open>SELECT COUNT(*)::int FROM multisig_signatures WHERE multisig_push_id = $1\<close>\<close>

definition count_signatures :: "db \<Rightarrow> string \<Rightarrow> int" where
  "count_signatures d pid =
     int (length (filter (\<lambda>r. ms_multisig_push_id r = pid) (multisig_signatures d)))"

definition update_push_approved :: "db \<Rightarrow> int \<Rightarrow> string \<Rightarrow> timestamp \<Rightarrow> db" where
  "update_push_approved d cnt pid now =
     d\<lparr> multisig_pushes :=
          map (\<lambda>r. if mp_id r = pid
                   then r\<lparr> mp_status := ''approved'', mp_approvals_count := cnt,
                           mp_approved_at := Some now \<rparr>
                   else r) (multisig_pushes d) \<rparr>"

definition update_push_count :: "db \<Rightarrow> int \<Rightarrow> string \<Rightarrow> db" where
  "update_push_count d cnt pid =
     d\<lparr> multisig_pushes :=
          map (\<lambda>r. if mp_id r = pid then r\<lparr> mp_approvals_count := cnt \<rparr> else r)
              (multisig_pushes d) \<rparr>"

subsection \<open>Request bodies\<close>

text \<open>
  A body field that must be a non-empty string is a \<open>string option\<close>: \<open>None\<close> when it is
  missing or not a string.  \<open>nonempty\<close> is JavaScript's \<^verbatim>\<open>v || null\<close> on such a field.
\<close>

definition nonempty :: "string option \<Rightarrow> string option" where
  "nonempty v = (case v of None \<Rightarrow> None | Some s \<Rightarrow> if s = [] then None else Some s)"

subsection \<open>\<^verbatim>\<open>POST /payments/verify\<close>\<close>

record verify_body =
  vb_txSig :: "string option"
  vb_payer :: "string option"
  vb_purpose :: "string option"
  vb_repoName :: "string option"

record verify_ok =
  vo_payment :: payment_row
  vo_reused :: bool

text \<open>
  The handler runs its statements on the pool, one by one, and awaits the ledger between
  the \<^verbatim>\<open>SELECT\<close> and the \<^verbatim>\<open>INSERT\<close>.  \<open>others\<close> is what other requests commit in
  between (\<open>id\<close> when the handler runs alone).  \<open>vb_purpose = None\<close> is an undefined
  \<^verbatim>\<open>purpose\<close>, which takes the default \<^verbatim>\<open>"repo_init"\<close>.
\<close>

definition post_payments_verify ::
  "config \<Rightarrow> (string \<Rightarrow> chain_tx option) \<Rightarrow> (db \<Rightarrow> db) \<Rightarrow> db \<Rightarrow> verify_body \<Rightarrow> string
     \<Rightarrow> timestamp \<Rightarrow> (http_error + verify_ok) \<times> db" where
  "post_payments_verify cfg getTransaction others d body paymentId now =
     (case nonempty (vb_txSig body) of
        None \<Rightarrow> (Inl (HttpError 400 ''txSig_required'' None), d)
      | Some txSig \<Rightarrow>
        (let purpose = (case vb_purpose body of None \<Rightarrow> ''repo_init'' | Some p \<Rightarrow> p) in
         if purpose = [] then (Inl (HttpError 400 ''purpose_required'' None), d)
         else if PAYMENT_DESTINATION cfg = [] \<or> PAYMENT_TOKEN_MINT cfg = []
         then (Inl (HttpError 500 ''payment_env_not_configured'' None), d)
         else
           (case select_payment_by_tx_sig d txSig of
              Some row \<Rightarrow>
                (if pay_purpose row \<noteq> purpose
                 then (Inl (HttpError 400 ''purpose_mismatch'' None), d)
                 else if pay_status row \<noteq> ''confirmed''
                 then (Inr \<lparr> vo_payment = row\<lparr> pay_status := ''confirmed'' \<rparr>, vo_reused = True \<rparr>,
                       update_payment_confirmed d (pay_id row))
                 else (Inr \<lparr> vo_payment = row, vo_reused = True \<rparr>, d))
            | None \<Rightarrow>
                (let d1 = others d in
                 case verifyTokenPayment cfg getTransaction txSig of
                   Inl e \<Rightarrow>
                     (Inl (HttpError 400 ''payment_verification_failed'' (Some (exn_message e))), d1)
                 | Inr chainInfo \<Rightarrow>
                     (if amountAtomic chainInfo < MIN_PAYMENT_ATOMIC cfg
                      then (Inl (HttpError 400 ''insufficient_amount'' None), d1)
                      else
                        (case insert_payment d1 paymentId txSig (nonempty (vb_payer body)) purpose
                                (amountAtomic chainInfo) (nonempty (vb_repoName body))
                                \<lparr> md_decimals = decimals chainInfo,
                                  md_minTokens = PAYMENT_MIN_TOKENS cfg,
                                  md_destination = PAYMENT_DESTINATION cfg,
                                  md_mint = PAYMENT_TOKEN_MINT cfg \<rparr> now of
                           Inl e \<Rightarrow>
                             (Inl (HttpError 400 ''payment_verification_failed''
                                     (Some (exn_message e))), d1)
                         | Inr (row, d2) \<Rightarrow>
                             (Inr \<lparr> vo_payment = row, vo_reused = False \<rparr>, d2)))))))"

subsection \<open>Consuming a payment\<close>

text \<open>
  The checks that \<^verbatim>\<open>POST /repos\<close> and \<^verbatim>\<open>POST /otp/request\<close> make on the row they lock
  with \<^verbatim>\<open>SELECT ... FOR UPDATE\<close>, in the order of the code.
\<close>

definition lock_payment :: "db \<Rightarrow> string \<Rightarrow> string \<Rightarrow> exn + payment_row" where
  "lock_payment d txSig purpose =
     (case select_payment_by_tx_sig d txSig of
        None \<Rightarrow> Inl (Error ''payment_not_found'')
      | Some payment \<Rightarrow>
          if pay_purpose payment \<noteq> purpose then Inl (Error ''payment_wrong_purpose'')
          else if pay_status payment \<noteq> ''confirmed'' then Inl (Error ''payment_not_confirmed'')
          else if pay_consumed_at payment \<noteq> None then Inl (Error ''payment_already_consumed'')
          else Inr payment)"

subsection \<open>\<^verbatim>\<open>POST /repos\<close>\<close>

text \<open>
  \<open>rb_threshold\<close> is \<^verbatim>\<open>thresholdNumber\<close>, the body's \<^verbatim>\<open>threshold\<close> as a number
  (\<^verbatim>\<open>NaN\<close> when it is missing or does not read as one); \<open>rb_isPrivate\<close> is
  \<^verbatim>\<open>Boolean(isPrivate)\<close>.
\<close>

record repos_body =
  rb_name :: "string option"
  rb_owner :: "string option"
  rb_isPrivate :: bool
  rb_signers :: signers_input
  rb_threshold :: number
  rb_paymentTxSig :: "string option"

text \<open>The statements between \<^verbatim>\<open>BEGIN\<close> and \<^verbatim>\<open>COMMIT\<close>.\<close>

definition repos_transaction ::
  "db \<Rightarrow> string \<Rightarrow> string \<Rightarrow> bool \<Rightarrow> string list \<Rightarrow> number option \<Rightarrow> string \<Rightarrow> string
     \<Rightarrow> timestamp \<Rightarrow> exn + (repo_row \<times> db)" where
  "repos_transaction d name owner isPrivate signerList computedThreshold paymentTxSig repoId now =
     (case lock_payment d paymentTxSig ''repo_init'' of
        Inl e \<Rightarrow> Inl e
      | Inr payment \<Rightarrow>
          (case int4_param computedThreshold of
             Inl e \<Rightarrow> Inl e
           | Inr threshold \<Rightarrow>
               (case insert_repo_on_conflict_do_nothing d
                       \<lparr> repo_id = repoId, repo_name = trim name, repo_owner = trim owner,
                         repo_is_private = isPrivate, repo_is_multisig = (length signerList > 0),
                         repo_threshold = threshold, repo_signers = signerList,
                         repo_payment_tx = Some paymentTxSig, repo_created_at = now \<rparr> of
                  Inl e \<Rightarrow> Inl e
                | Inr (None, d1) \<Rightarrow> Inl (Error ''repo_exists'')
                | Inr (Some row, d1) \<Rightarrow>
                    Inr (row, update_payment_consumed d1 (pay_id payment) now))))"

text \<open>
  The handler: a thrown value reaches the \<^verbatim>\<open>catch\<close>, which issues \<^verbatim>\<open>ROLLBACK\<close>, so
  the database is the one the transaction began with.
\<close>

definition post_repos :: "db \<Rightarrow> repos_body \<Rightarrow> string \<Rightarrow> timestamp \<Rightarrow> (http_error + repo_row) \<times> db" where
  "post_repos d body repoId now =
     (case nonempty (rb_name body) of
        None \<Rightarrow> (Inl (HttpError 400 ''name_required'' None), d)
      | Some name \<Rightarrow>
        (case nonempty (rb_owner body) of
           None \<Rightarrow> (Inl (HttpError 400 ''owner_required'' None), d)
         | Some owner \<Rightarrow>
           (case nonempty (rb_paymentTxSig body) of
              None \<Rightarrow> (Inl (HttpError 400 ''payment_required'' None), d)
            | Some paymentTxSig \<Rightarrow>
              (let signerList = parseSigners (rb_signers body);
                   computedThreshold = calcThreshold signerList (unless_NaN (rb_threshold body))
               in case repos_transaction d name owner (rb_isPrivate body) signerList
                         computedThreshold paymentTxSig repoId now of
                    Inl e \<Rightarrow> (Inl (HttpError 400 ''repo_create_failed'' (Some (exn_message e))), d)
                  | Inr (row, d') \<Rightarrow> (Inr row, d')))))"

subsection \<open>\<^verbatim>\<open>POST /otp/request\<close> and \<^verbatim>\<open>POST /otp/redeem\<close>\<close>

definition find_repo :: "db \<Rightarrow> string option \<Rightarrow> string option \<Rightarrow> string option \<Rightarrow> repo_row option" where
  "find_repo d repoId owner name =
     (case nonempty repoId of
        Some rid \<Rightarrow> select_repo_by_id d rid
      | None \<Rightarrow> getRepoByOwnerAndName d owner name)"

record otp_request_body =
  ob_repoId :: "string option"
  ob_owner :: "string option"
  ob_name :: "string option"
  ob_bundleTx :: "string option"
  ob_paymentTxSig :: "string option"
  ob_decryptKey :: "string option"
  ob_expiresInMinutes :: "number option"

text \<open>The random draws of one request: the token, the generated key and the row id.\<close>

record otp_random =
  rnd_otp :: string
  rnd_key :: string
  rnd_otpId :: string

record otp_issued =
  oi_otp :: string
  oi_decryptKey :: string
  oi_bundleTx :: string
  oi_expiresAt :: timestamp

text \<open>
  \<open>ob_expiresInMinutes\<close> is \<open>None\<close> when the field is not of type \<^verbatim>\<open>number\<close>.
  \<open>expiry now ttlMinutes\<close> is \<^verbatim>\<open>new Date(Date.now() + ttlMinutes * 60 * 1000)\<close>: the time
  value cut to whole milliseconds, or \<open>None\<close> for an invalid date (a time value that is not
  finite or lies beyond 8.64e15 ms), on which \<^verbatim>\<open>toISOString\<close> throws a \<^verbatim>\<open>RangeError\<close>.
  The sum is taken exactly.
\<close>

definition expiry :: "timestamp \<Rightarrow> number \<Rightarrow> timestamp option" where
  "expiry now ttlMinutes =
     (case ttlMinutes of
        Num m \<Rightarrow>
          (let ms = of_nat now + m * 60 * 1000
           in if ms < 0 \<or> 8640000000000000 < ms then None else Some (nat \<lfloor>ms\<rfloor>))
      | _ \<Rightarrow> None)"

definition otp_transaction ::
  "db \<Rightarrow> repo_row \<Rightarrow> string \<Rightarrow> string \<Rightarrow> string option \<Rightarrow> number option \<Rightarrow> otp_random
     \<Rightarrow> timestamp \<Rightarrow> exn + (otp_issued \<times> db)" where
  "otp_transaction d repo bundleTx paymentTxSig decryptKey expiresInMinutes rnd now =
     (case lock_payment d paymentTxSig ''otp_share'' of
        Inl e \<Rightarrow> Inl e
      | Inr payment \<Rightarrow>
          (let otp = rnd_otp rnd;
               key = (case nonempty decryptKey of Some k \<Rightarrow> k | None \<Rightarrow> rnd_key rnd);
               ttlMinutes = (case expiresInMinutes of
                               Some m \<Rightarrow> if gt_zero m then m else Num (60 * 24)
                             | None \<Rightarrow> Num (60 * 24))
           in case expiry now ttlMinutes of
                None \<Rightarrow> Inl (Error ''Invalid time value'')
              | Some expiresAt \<Rightarrow>
                  (case insert_otp_token d
                          \<lparr> otp_id = rnd_otpId rnd, otp_repo_id = repo_id repo,
                            otp_payment_tx = paymentTxSig, otp_plain = otp, otp_decrypt_key = key,
                            otp_bundle_tx = bundleTx, otp_expires_at = Some expiresAt,
                            otp_used_at = None, otp_created_at = now \<rparr> of
                     Inl e \<Rightarrow> Inl e
                   | Inr d1 \<Rightarrow>
                       Inr (\<lparr> oi_otp = otp, oi_decryptKey = key, oi_bundleTx = bundleTx,
                              oi_expiresAt = expiresAt \<rparr>,
                            update_payment_consumed d1 (pay_id payment) now))))"

definition post_otp_request ::
  "db \<Rightarrow> otp_request_body \<Rightarrow> otp_random \<Rightarrow> timestamp \<Rightarrow> (http_error + otp_issued) \<times> db" where
  "post_otp_request d body rnd now =
     (case nonempty (ob_bundleTx body) of
        None \<Rightarrow> (Inl (HttpError 400 ''bundle_tx_required'' None), d)
      | Some bundleTx \<Rightarrow>
        (case nonempty (ob_paymentTxSig body) of
           None \<Rightarrow> (Inl (HttpError 400 ''payment_required'' None), d)
         | Some paymentTxSig \<Rightarrow>
           (case find_repo d (ob_repoId body) (ob_owner body) (ob_name body) of
              None \<Rightarrow> (Inl (HttpError 404 ''repo_not_found'' None), d)
            | Some repo \<Rightarrow>
              (case otp_transaction d repo bundleTx paymentTxSig (ob_decryptKey body)
                      (ob_expiresInMinutes body) rnd now of
                 Inl e \<Rightarrow> (Inl (HttpError 400 ''otp_create_failed'' (Some (exn_message e))), d)
               | Inr (issued, d') \<Rightarrow> (Inr issued, d')))))"

record otp_redeemed =
  or_repoId :: string
  or_bundleTx :: string
  or_decryptKey :: string

text \<open>
  The redemption reads a ticket and then issues the conditional \<^verbatim>\<open>UPDATE\<close> as a second
  statement on the pool; \<open>pick\<close> is the store's choice among the tickets that carry the
  token, \<open>others\<close> is what other requests commit between the two statements.
\<close>

definition post_otp_redeem ::
  "(otp_row list \<Rightarrow> nat) \<Rightarrow> (db \<Rightarrow> db) \<Rightarrow> db \<Rightarrow> string option \<Rightarrow> timestamp
     \<Rightarrow> (http_error + otp_redeemed) \<times> db" where
  "post_otp_redeem pick others d otp now =
     (case nonempty otp of
        None \<Rightarrow> (Inl (HttpError 400 ''otp_required'' None), d)
      | Some token \<Rightarrow>
        (case select_otp_by_plain pick d token of
           None \<Rightarrow> (Inl (HttpError 404 ''otp_not_found'' None), d)
         | Some row \<Rightarrow>
             if otp_used_at row \<noteq> None then (Inl (HttpError 410 ''otp_already_used'' None), d)
             else if (case otp_expires_at row of None \<Rightarrow> False | Some expiresAt \<Rightarrow> expiresAt < now)
             then (Inl (HttpError 410 ''otp_expired'' None), d)
             else
               (case update_otp_used_if_null (others d) (otp_id row) now of
                  (rowCount, d') \<Rightarrow>
                    if rowCount = 0 then (Inl (HttpError 410 ''otp_already_used'' None), d')
                    else (Inr \<lparr> or_repoId = otp_repo_id row, or_bundleTx = otp_bundle_tx row,
                               or_decryptKey = otp_decrypt_key row \<rparr>, d'))))"

subsection \<open>\<^verbatim>\<open>POST /multisig/approve\<close>\<close>

text \<open>
  The signature primitives are parameters: \<open>pubkey_ok signer\<close> says that
  \<^verbatim>\<open>new PublicKey(signer)\<close> does not throw, \<open>detached_verify message signature signer\<close> is
  \<^verbatim>\<open>nacl.sign.detached.verify\<close> on the decoded bytes.  \<open>verifyApprovalSignature\<close> returns the
  value thrown, or \<open>None\<close> when the check passes.
\<close>

record crypto =
  pubkey_ok :: "string \<Rightarrow> bool"
  detached_verify :: "string \<Rightarrow> string \<Rightarrow> string \<Rightarrow> bool"

definition verifyApprovalSignature :: "crypto \<Rightarrow> string \<Rightarrow> string \<Rightarrow> string \<Rightarrow> exn option" where
  "verifyApprovalSignature cr txId signer signatureB64 =
     (if txId = [] \<or> signer = [] \<or> signatureB64 = [] then Some (Error ''missing_signature_fields'')
      else if \<not> pubkey_ok cr signer then Some (Error ''invalid_signer'')
      else if \<not> detached_verify cr (''Permagit Push Approval:'' @ txId) signatureB64 signer
      then Some (Error ''signature_verification_failed'')
      else None)"

record approve_body =
  ab_repoId :: "string option"
  ab_owner :: "string option"
  ab_name :: "string option"
  ab_txId :: "string option"
  ab_signer :: "string option"
  ab_signatureB64 :: "string option"

record approve_ok =
  ao_status :: string
  ao_approvalsCount :: int
  ao_approvalsRequired :: int

text \<open>The inner \<^verbatim>\<open>try\<close> around the signature insert: SQLSTATE 23505 is renamed.\<close>

definition insert_signature_translated :: "db \<Rightarrow> sig_row \<Rightarrow> exn + db" where
  "insert_signature_translated d row =
     (case insert_signature d row of
        Inl err \<Rightarrow>
          if exn_code err = Some ''23505'' then Inl (Error ''signature_already_submitted'')
          else Inl err
      | Inr d1 \<Rightarrow> Inr d1)"

definition approve_transaction ::
  "db \<Rightarrow> repo_row \<Rightarrow> string \<Rightarrow> string \<Rightarrow> string \<Rightarrow> string \<Rightarrow> timestamp \<Rightarrow> exn + (approve_ok \<times> db)" where
  "approve_transaction d repo txId signer signatureB64 sigId now =
     (case select_push d (repo_id repo) txId of
        None \<Rightarrow> Inl (Error ''push_not_tracked'')
      | Some push \<Rightarrow>
          (case insert_signature_translated d
                  \<lparr> ms_id = sigId, ms_multisig_push_id = mp_id push, ms_signer = signer,
                    ms_signature_b64 = signatureB64, ms_created_at = now \<rparr> of
             Inl e \<Rightarrow> Inl e
           | Inr d1 \<Rightarrow>
               (let approvalsCount = count_signatures d1 (mp_id push) in
                if approvalsCount \<ge> mp_approvals_required push \<and> mp_status push \<noteq> ''approved''
                then Inr (\<lparr> ao_status = ''approved'', ao_approvalsCount = approvalsCount,
                            ao_approvalsRequired = mp_approvals_required push \<rparr>,
                          update_push_approved d1 approvalsCount (mp_id push) now)
                else Inr (\<lparr> ao_status = mp_status push, ao_approvalsCount = approvalsCount,
                            ao_approvalsRequired = mp_approvals_required push \<rparr>,
                          update_push_count d1 approvalsCount (mp_id push)))))"

definition post_multisig_approve ::
  "crypto \<Rightarrow> db \<Rightarrow> approve_body \<Rightarrow> string \<Rightarrow> timestamp \<Rightarrow> (http_error + approve_ok) \<times> db" where
  "post_multisig_approve cr d body sigId now =
     (case nonempty (ab_txId body) of
        None \<Rightarrow> (Inl (HttpError 400 ''txId_required'' None), d)
      | Some txId \<Rightarrow>
        (case nonempty (ab_signer body) of
           None \<Rightarrow> (Inl (HttpError 400 ''signer_required'' None), d)
         | Some signer \<Rightarrow>
           (case nonempty (ab_signatureB64 body) of
              None \<Rightarrow> (Inl (HttpError 400 ''signature_required'' None), d)
            | Some signatureB64 \<Rightarrow>
              (case find_repo d (ab_repoId body) (ab_owner body) (ab_name body) of
                 None \<Rightarrow> (Inl (HttpError 404 ''repo_not_multisig'' None), d)
               | Some repo \<Rightarrow>
                   if \<not> repo_is_multisig repo
                   then (Inl (HttpError 404 ''repo_not_multisig'' None), d)
                   else if signer \<notin> set (repo_signers repo)
                   then (Inl (HttpError 403 ''signer_not_authorized'' None), d)
                   else
                     (case verifyApprovalSignature cr txId signer signatureB64 of
                        Some e \<Rightarrow>
                          (Inl (HttpError 400 ''signature_invalid'' (Some (exn_message e))), d)
                      | None \<Rightarrow>
                          (case approve_transaction d repo txId signer signatureB64 sigId now of
                             Inl e \<Rightarrow>
                               (Inl (HttpError 400 ''multisig_approval_failed''
                                       (Some (exn_message e))), d)
                           | Inr (ok, d') \<Rightarrow> (Inr ok, d')))))))"

subsection \<open>\<^verbatim>\<open>ensureMultisigEntry\<close> and \<^verbatim>\<open>POST /multisig/setup\<close>\<close>

text \<open>
  \<open>repo.threshold\<close> comes back from its \<^verbatim>\<open>INTEGER\<close> column as a number; the threshold
  computed from it is bound to the \<^verbatim>\<open>INTEGER\<close> column \<^verbatim>\<open>approvals_required\<close>.
\<close>

definition ensureMultisigEntry ::
  "db \<Rightarrow> repo_row option \<Rightarrow> string \<Rightarrow> string option \<Rightarrow> string \<Rightarrow> timestamp
     \<Rightarrow> exn + (push_row option \<times> db)" where
  "ensureMultisigEntry d repo pushTx branch pid now =
     (case repo of
        None \<Rightarrow> Inr (None, d)
      | Some r \<Rightarrow>
          if \<not> repo_is_multisig r then Inr (None, d)
          else
            (case calcThreshold (repo_signers r)
                    (map_option (\<lambda>t. Num (of_int t)) (repo_threshold r)) of
               None \<Rightarrow> Inr (None, d)
             | Some threshold \<Rightarrow>
                 if \<not> truthy threshold then Inr (None, d)
                 else
                   (case int4_value threshold of
                      Inl e \<Rightarrow> Inl e
                    | Inr required \<Rightarrow>
                        (case insert_push_on_conflict_do_nothing d pid (repo_id r) pushTx
                                (nonempty branch) required now of
                           Inl e \<Rightarrow> Inl e
                         | Inr d1 \<Rightarrow> Inr (select_push d1 (repo_id r) pushTx, d1)))))"

record setup_body =
  sb_repoId :: "string option"
  sb_owner :: "string option"
  sb_name :: "string option"
  sb_pushTx :: "string option"
  sb_signers :: signers_input
  sb_threshold :: number
  sb_paymentTxSig :: "string option"

record multisig_view =
  mv_status :: string
  mv_approvalsRequired :: int
  mv_approvalsCount :: int

record setup_ok =
  so_repo :: "repo_row option"
  so_multisig :: "multisig_view option"

definition setup_reply :: "repo_row option \<Rightarrow> push_row option \<Rightarrow> setup_ok" where
  "setup_reply repo multisigEntry =
     \<lparr> so_repo = repo,
       so_multisig = (case multisigEntry of
                        None \<Rightarrow> None
                      | Some e \<Rightarrow> Some \<lparr> mv_status = mp_status e,
                                         mv_approvalsRequired = mp_approvals_required e,
                                         mv_approvalsCount = mp_approvals_count e \<rparr>) \<rparr>"

text \<open>
  The handler issues every statement on the pool, outside any transaction: a statement
  that has run stays in the database when a later one throws.  \<open>newId\<close> and \<open>pushId\<close>
  are the two \<^verbatim>\<open>randomUUID\<close> draws.
\<close>

definition setup_finish ::
  "db \<Rightarrow> repo_row option \<Rightarrow> string \<Rightarrow> string \<Rightarrow> timestamp \<Rightarrow> (http_error + setup_ok) \<times> db" where
  "setup_finish d repo pushTx pushId now =
     (case ensureMultisigEntry d repo pushTx None pushId now of
        Inl e \<Rightarrow> (Inl (HttpError 400 ''multisig_setup_failed'' (Some (exn_message e))), d)
      | Inr (multisigEntry, d') \<Rightarrow> (Inr (setup_reply repo multisigEntry), d'))"

definition post_multisig_setup ::
  "db \<Rightarrow> setup_body \<Rightarrow> string \<Rightarrow> string \<Rightarrow> timestamp \<Rightarrow> (http_error + setup_ok) \<times> db" where
  "post_multisig_setup d body newId pushId now =
     (case nonempty (sb_pushTx body) of
        None \<Rightarrow> (Inl (HttpError 400 ''push_tx_required'' None), d)
      | Some pushTx \<Rightarrow>
        (case nonempty (sb_paymentTxSig body) of
           None \<Rightarrow> (Inl (HttpError 400 ''payment_required'' None), d)
         | Some paymentTxSig \<Rightarrow>
           (let signerList = parseSigners (sb_signers body) in
            if length signerList = 0 then (Inl (HttpError 400 ''signers_required'' None), d)
            else
              (let computedThreshold = calcThreshold signerList (unless_NaN (sb_threshold body)) in
               if (case computedThreshold of None \<Rightarrow> True | Some t \<Rightarrow> \<not> truthy t)
               then (Inl (HttpError 400 ''invalid_threshold'' None), d)
               else
                 (case select_payment_by_tx_sig d paymentTxSig of
                    None \<Rightarrow> (Inl (HttpError 400 ''payment_not_found'' None), d)
                  | Some payment \<Rightarrow>
                      if pay_purpose payment \<noteq> ''multisig_setup''
                      then (Inl (HttpError 400 ''payment_wrong_purpose'' None), d)
                      else if pay_status payment \<noteq> ''confirmed''
                      then (Inl (HttpError 400 ''payment_not_confirmed'' None), d)
                      else
                        (let byId = (case nonempty (sb_repoId body) of
                                       None \<Rightarrow> None
                                     | Some rid \<Rightarrow> select_repo_by_id d rid);
                             repo = (case byId of
                                       Some r \<Rightarrow> Some r
                                     | None \<Rightarrow> getRepoByOwnerAndName d (sb_owner body) (sb_name body))
                         in case repo of
                              None \<Rightarrow>
                                (case (nonempty (sb_owner body), nonempty (sb_name body)) of
                                   (Some owner, Some name) \<Rightarrow>
                                     (case int4_param computedThreshold of
                                        Inl e \<Rightarrow>
                                          (Inl (HttpError 400 ''multisig_setup_failed''
                                                  (Some (exn_message e))), d)
                                      | Inr threshold \<Rightarrow>
                                          (case insert_repo d
                                                  \<lparr> repo_id = newId, repo_name = name,
                                                    repo_owner = owner, repo_is_private = False,
                                                    repo_is_multisig = True,
                                                    repo_threshold = threshold,
                                                    repo_signers = signerList,
                                                    repo_payment_tx = Some paymentTxSig,
                                                    repo_created_at = now \<rparr> of
                                             Inl e \<Rightarrow>
                                               (Inl (HttpError 400 ''multisig_setup_failed''
                                                       (Some (exn_message e))), d)
                                           | Inr (row, d1) \<Rightarrow>
                                               setup_finish d1 (Some row) pushTx pushId now))
                                 | _ \<Rightarrow> (Inl (HttpError 400 ''repo_identification_required'' None), d))
                            | Some r \<Rightarrow>
                                (case int4_param computedThreshold of
                                   Inl e \<Rightarrow>
                                     (Inl (HttpError 400 ''multisig_setup_failed''
                                             (Some (exn_message e))), d)
                                 | Inr threshold \<Rightarrow>
                                     (let d1 = update_repo_multisig d threshold signerList
                                                 paymentTxSig (repo_id r)
                                      in setup_finish d1 (select_repo_by_id d1 (repo_id r))
                                           pushTx pushId now))))))))"

subsection \<open>Example data\<close>

text \<open>
  The scenario of the specification: payment \<open>tx1\<close> for a repository registration, and a
  registration request for the repository \<open>acme\<close> of \<open>alice\<close> with three signers.
\<close>

definition ex_payment :: payment_row where
  "ex_payment =
     \<lparr> pay_id = ''p1'', pay_tx_sig = ''tx1'', pay_payer = ''alice'', pay_purpose = ''repo_init'',
       pay_token_amount_atomic = 10, pay_status = ''confirmed'', pay_repo_name = None,
       pay_consumed_at = None, pay_metadata = None, pay_created_at = 0 \<rparr>"

definition ex_db :: db where
  "ex_db = \<lparr> payments = [ex_payment], repos = [], otp_tokens = [], multisig_pushes = [],
             multisig_signatures = [] \<rparr>"

definition ex_repos_body :: repos_body where
  "ex_repos_body =
     \<lparr> rb_name = Some ''acme'', rb_owner = Some ''alice'', rb_isPrivate = False,
       rb_signers = SignersArray [Some ''A'', Some ''B'', Some ''C''], rb_threshold = Num 2,
       rb_paymentTxSig = Some ''tx1'' \<rparr>"

definition ex_repo :: repo_row where
  "ex_repo =
     \<lparr> repo_id = ''r1'', repo_name = ''acme'', repo_owner = ''alice'', repo_is_private = False,
       repo_is_multisig = True, repo_threshold = Some 2, repo_signers = [''A'', ''B'', ''C''],
       repo_payment_tx = Some ''tx1'', repo_created_at = 5 \<rparr>"

definition ex_db_registered :: db where
  "ex_db_registered =
     \<lparr> payments = [ex_payment\<lparr> pay_consumed_at := Some 5 \<rparr>], repos = [ex_repo],
       otp_tokens = [], multisig_pushes = [], multisig_signatures = [] \<rparr>"

text \<open>
  The ledger of the scenario: \<open>tx1\<close> delivers 10 units of asset \<open>X\<close> to the recipient
  \<open>R\<close>, into an account (index 2) that has no entry among the pre-transfer balances; the
  recipient's other account (index 1) has one.
\<close>

definition ex_cfg :: config where
  "ex_cfg = \<lparr> PAYMENT_DESTINATION = ''R'', PAYMENT_TOKEN_MINT = ''X'', PAYMENT_TOKEN_DECIMALS = 6,
              PAYMENT_MIN_TOKENS = ''10'', MIN_PAYMENT_ATOMIC = 10 \<rparr>"

definition ex_post_entry :: token_balance where
  "ex_post_entry = \<lparr> tb_accountIndex = 2, tb_mint = ''X'', tb_owner = Some ''R'',
       tb_uiTokenAmount = Some \<lparr> uta_amount = 10, uta_decimals = Some 6 \<rparr> \<rparr>"

definition ex_pre_entry :: token_balance where
  "ex_pre_entry = \<lparr> tb_accountIndex = 1, tb_mint = ''X'', tb_owner = Some ''R'',
       tb_uiTokenAmount = Some \<lparr> uta_amount = 25, uta_decimals = Some 6 \<rparr> \<rparr>"

definition ex_meta :: tx_meta where
  "ex_meta = \<lparr> meta_err = False, meta_postTokenBalances = Some [ex_post_entry],
               meta_preTokenBalances = Some [ex_pre_entry] \<rparr>"

definition ex_ledger :: "string \<Rightarrow> chain_tx option" where
  "ex_ledger txSig = (if txSig = ''tx1'' then Some \<lparr> tx_meta = Some ex_meta \<rparr> else None)"

text \<open>
  A verification request for \<open>tx1\<close> with the default purpose, the row it records, and the
  databases before and after it (and with the row still pending).
\<close>

definition ex_verify_body :: verify_body where
  "ex_verify_body = \<lparr> vb_txSig = Some ''tx1'', vb_payer = Some ''alice'', vb_purpose = None,
                      vb_repoName = Some ''acme'' \<rparr>"

definition ex_db_empty :: db where
  "ex_db_empty = \<lparr> payments = [], repos = [], otp_tokens = [], multisig_pushes = [],
                   multisig_signatures = [] \<rparr>"

definition ex_recorded :: payment_row where
  "ex_recorded =
     \<lparr> pay_id = ''p1'', pay_tx_sig = ''tx1'', pay_payer = ''alice'', pay_purpose = ''repo_init'',
       pay_token_amount_atomic = 10, pay_status = ''confirmed'', pay_repo_name = Some ''acme'',
       pay_consumed_at = None,
       pay_metadata = Some \<lparr> md_decimals = 6, md_minTokens = ''10'', md_destination = ''R'',
                              md_mint = ''X'' \<rparr>,
       pay_created_at = 100 \<rparr>"

definition ex_db_pending :: db where
  "ex_db_pending = ex_db_empty\<lparr> payments := [ex_recorded\<lparr> pay_status := ''pending'' \<rparr>] \<rparr>"

definition ex_db_recorded :: db where
  "ex_db_recorded = ex_db_empty\<lparr> payments := [ex_recorded] \<rparr>"

subsection \<open>Requests served one after another\<close>

text \<open>
  A request with everything its handler draws (ids, random strings, the clock, the store's
  choice of a ticket), and the database after the handler has served it with no other
  request in between.
\<close>

datatype request =
    ReqVerify config "string \<Rightarrow> chain_tx option" verify_body string timestamp
  | ReqRepos repos_body string timestamp
  | ReqOtpRequest otp_request_body otp_random timestamp
  | ReqOtpRedeem "otp_row list \<Rightarrow> nat" "string option" timestamp
  | ReqApprove crypto approve_body string timestamp
  | ReqSetup setup_body string string timestamp

fun serve :: "db \<Rightarrow> request \<Rightarrow> db" where
  "serve d (ReqVerify cfg getTransaction body paymentId now) =
     snd (post_payments_verify cfg getTransaction id d body paymentId now)"
| "serve d (ReqRepos body repoId now) = snd (post_repos d body repoId now)"
| "serve d (ReqOtpRequest body rnd now) = snd (post_otp_request d body rnd now)"
| "serve d (ReqOtpRedeem pick otp now) = snd (post_otp_redeem pick id d otp now)"
| "serve d (ReqApprove cr body sigId now) = snd (post_multisig_approve cr d body sigId now)"
| "serve d (ReqSetup body newId pushId now) = snd (post_multisig_setup d body newId pushId now)"

text \<open>
  The scenario continued: two more confirmed payments (\<open>tx2\<close> for a ticket, \<open>tx3\<close> for
  another registration), a ticket request on \<open>tx2\<close> and the database after it, and a second
  registration of \<open>acme\<close> paid with \<open>tx3\<close>.
\<close>

definition ex_otp_payment :: payment_row where
  "ex_otp_payment =
     \<lparr> pay_id = ''p2'', pay_tx_sig = ''tx2'', pay_payer = ''alice'', pay_purpose = ''otp_share'',
       pay_token_amount_atomic = 10, pay_status = ''confirmed'', pay_repo_name = None,
       pay_consumed_at = None, pay_metadata = None, pay_created_at = 6 \<rparr>"

definition ex_retry_payment :: payment_row where
  "ex_retry_payment =
     \<lparr> pay_id = ''p3'', pay_tx_sig = ''tx3'', pay_payer = ''alice'', pay_purpose = ''repo_init'',
       pay_token_amount_atomic = 10, pay_status = ''confirmed'', pay_repo_name = None,
       pay_consumed_at = None, pay_metadata = None, pay_created_at = 7 \<rparr>"

definition ex_db_paid :: db where
  "ex_db_paid = ex_db_registered\<lparr> payments := payments ex_db_registered
                                               @ [ex_otp_payment, ex_retry_payment] \<rparr>"

definition ex_otp_body :: otp_request_body where
  "ex_otp_body =
     \<lparr> ob_repoId = Some ''r1'', ob_owner = None, ob_name = None, ob_bundleTx = Some ''bundle1'',
       ob_paymentTxSig = Some ''tx2'', ob_decryptKey = None, ob_expiresInMinutes = Some (Num 2) \<rparr>"

definition ex_otp_random :: otp_random where
  "ex_otp_random = \<lparr> rnd_otp = ''0f'', rnd_key = ''k1'', rnd_otpId = ''o1'' \<rparr>"

definition ex_issued :: otp_issued where
  "ex_issued = \<lparr> oi_otp = ''0f'', oi_decryptKey = ''k1'', oi_bundleTx = ''bundle1'',
                 oi_expiresAt = 120008 \<rparr>"

definition ex_ticket :: otp_row where
  "ex_ticket =
     \<lparr> otp_id = ''o1'', otp_repo_id = ''r1'', otp_payment_tx = ''tx2'', otp_plain = ''0f'',
       otp_decrypt_key = ''k1'', otp_bundle_tx = ''bundle1'', otp_expires_at = Some 120008,
       otp_used_at = None, otp_created_at = 8 \<rparr>"

definition ex_db_issued :: db where
  "ex_db_issued =
     ex_db_paid\<lparr> payments := [ex_payment\<lparr> pay_consumed_at := Some 5 \<rparr>,
                               ex_otp_payment\<lparr> pay_consumed_at := Some 8 \<rparr>, ex_retry_payment],
                 otp_tokens := [ex_ticket] \<rparr>"

definition ex_retry_body :: repos_body where
  "ex_retry_body = ex_repos_body\<lparr> rb_paymentTxSig := Some ''tx3'' \<rparr>"

text \<open>
  A confirmed payment \<open>tx5\<close> for a multisig setup, and two setup requests that name it, for
  the pushes \<open>push1\<close> and \<open>push2\<close>.
\<close>

definition ex_setup_payment :: payment_row where
  "ex_setup_payment =
     \<lparr> pay_id = ''p5'', pay_tx_sig = ''tx5'', pay_payer = ''alice'', pay_purpose = ''multisig_setup'',
       pay_token_amount_atomic = 10, pay_status = ''confirmed'', pay_repo_name = None,
       pay_consumed_at = None, pay_metadata = None, pay_created_at = 10 \<rparr>"

definition ex_db_setup :: db where
  "ex_db_setup = ex_db_empty\<lparr> payments := [ex_setup_payment] \<rparr>"

definition ex_setup_body :: setup_body where
  "ex_setup_body =
     \<lparr> sb_repoId = None, sb_owner = Some ''alice'', sb_name = Some ''acme'',
       sb_pushTx = Some ''push1'', sb_signers = SignersArray [Some ''A'', Some ''B'', Some ''C''],
       sb_threshold = Num 2, sb_paymentTxSig = Some ''tx5'' \<rparr>"

definition ex_setup_body2 :: setup_body where
  "ex_setup_body2 = ex_setup_body\<lparr> sb_pushTx := Some ''push2'' \<rparr>"


definition ex_setup_repo :: repo_row where
  "ex_setup_repo =
     \<lparr> repo_id = ''r1'', repo_name = ''acme'', repo_owner = ''alice'', repo_is_private = False,
       repo_is_multisig = True, repo_threshold = Some 2, repo_signers = [''A'', ''B'', ''C''],
       repo_payment_tx = Some ''tx5'', repo_created_at = 11 \<rparr>"

definition ex_push :: "string \<Rightarrow> string \<Rightarrow> timestamp \<Rightarrow> push_row" where
  "ex_push pid pushTx now =
     \<lparr> mp_id = pid, mp_repo_id = ''r1'', mp_push_tx = pushTx, mp_branch = None,
       mp_status = ''pending'', mp_approvals_required = 2, mp_approvals_count = 0,
       mp_created_at = now, mp_approved_at = None \<rparr>"

definition ex_db_setup1 :: db where
  "ex_db_setup1 = ex_db_setup\<lparr> repos := [ex_setup_repo],
                               multisig_pushes := [ex_push ''m1'' ''push1'' 11] \<rparr>"

definition ex_db_setup2 :: db where
  "ex_db_setup2 = ex_db_setup1\<lparr> multisig_pushes := [ex_push ''m1'' ''push1'' 11,
                                                      ex_push ''m2'' ''push2'' 12] \<rparr>"

definition ex_setup_reply :: setup_ok where
  "ex_setup_reply =
     \<lparr> so_repo = Some ex_setup_repo,
       so_multisig = Some \<lparr> mv_status = ''pending'', mv_approvalsRequired = 2,
                             mv_approvalsCount = 0 \<rparr> \<rparr>"

text \<open>The ticket of the scenario after its redemption at time 60000.\<close>

definition ex_redeemed :: otp_redeemed where
  "ex_redeemed = \<lparr> or_repoId = ''r1'', or_bundleTx = ''bundle1'', or_decryptKey = ''k1'' \<rparr>"

definition ex_db_redeemed :: db where
  "ex_db_redeemed = ex_db_issued\<lparr> otp_tokens := [ex_ticket\<lparr> otp_used_at := Some 60000 \<rparr>] \<rparr>"

text \<open>
  Two unused tickets with the same token \<open>dup\<close>, which the table admits: its column
  \<open>otp_plain\<close> carries no uniqueness constraint.  The databases after the first and after
  the second of them is redeemed.
\<close>

definition ex_dup_ticket1 :: otp_row where
  "ex_dup_ticket1 =
     \<lparr> otp_id = ''o1'', otp_repo_id = ''r1'', otp_payment_tx = ''tx2'', otp_plain = ''dup'',
       otp_decrypt_key = ''k1'', otp_bundle_tx = ''bundle1'', otp_expires_at = Some 120008,
       otp_used_at = None, otp_created_at = 8 \<rparr>"

definition ex_dup_ticket2 :: otp_row where
  "ex_dup_ticket2 =
     \<lparr> otp_id = ''o2'', otp_repo_id = ''r1'', otp_payment_tx = ''tx4'', otp_plain = ''dup'',
       otp_decrypt_key = ''k2'', otp_bundle_tx = ''bundle2'', otp_expires_at = Some 120009,
       otp_used_at = None, otp_created_at = 9 \<rparr>"

definition ex_db_dup :: db where
  "ex_db_dup = ex_db_issued\<lparr> otp_tokens := [ex_dup_ticket1, ex_dup_ticket2] \<rparr>"

definition ex_db_dup1 :: db where
  "ex_db_dup1 = ex_db_issued\<lparr> otp_tokens := [ex_dup_ticket1\<lparr> otp_used_at := Some 60000 \<rparr>,
                                             ex_dup_ticket2] \<rparr>"

definition ex_db_dup2 :: db where
  "ex_db_dup2 = ex_db_issued\<lparr> otp_tokens := [ex_dup_ticket1\<lparr> otp_used_at := Some 60000 \<rparr>,
                                             ex_dup_ticket2\<lparr> otp_used_at := Some 60001 \<rparr>] \<rparr>"

definition ex_dup_redeemed1 :: otp_redeemed where
  "ex_dup_redeemed1 = \<lparr> or_repoId = ''r1'', or_bundleTx = ''bundle1'', or_decryptKey = ''k1'' \<rparr>"

definition ex_dup_redeemed2 :: otp_redeemed where
  "ex_dup_redeemed2 = \<lparr> or_repoId = ''r1'', or_bundleTx = ''bundle2'', or_decryptKey = ''k2'' \<rparr>"

subsection \<open>Runs of approvals\<close>

text \<open>
  One signer's submission for a push: the signer, the signature, and the row id and time that
  the handler draws for it.  \<open>approval\<close> is the request that submits it for the push \<open>txId\<close>
  of the repository named by \<open>repoId\<close> or by \<open>owner\<close> and \<open>name\<close>.
\<close>

record submission =
  sub_signer :: string
  sub_signature :: string
  sub_id :: string
  sub_time :: timestamp

definition approval ::
  "crypto \<Rightarrow> string option \<Rightarrow> string option \<Rightarrow> string option \<Rightarrow> string \<Rightarrow> submission \<Rightarrow> request" where
  "approval cr repoId owner name txId sub =
     ReqApprove cr
       \<lparr> ab_repoId = repoId, ab_owner = owner, ab_name = name, ab_txId = Some txId,
         ab_signer = Some (sub_signer sub), ab_signatureB64 = Some (sub_signature sub) \<rparr>
       (sub_id sub) (sub_time sub)"

text \<open>
  The approval scenario: a toy signature scheme in which the signature of signer \<open>s\<close> is
  \<open>sig\<close> followed by \<open>s\<close>, and submissions for the push \<open>push1\<close> of repository \<open>r1\<close>.
\<close>

definition ex_crypto :: crypto where
  "ex_crypto = \<lparr> pubkey_ok = (\<lambda>signer. True),
                 detached_verify = (\<lambda>message signature signer. signature = ''sig'' @ signer) \<rparr>"

definition ex_sub :: "string \<Rightarrow> string \<Rightarrow> timestamp \<Rightarrow> submission" where
  "ex_sub signer sigId now =
     \<lparr> sub_signer = signer, sub_signature = ''sig'' @ signer, sub_id = sigId, sub_time = now \<rparr>"

definition ex_approve_body :: "string \<Rightarrow> approve_body" where
  "ex_approve_body signer =
     \<lparr> ab_repoId = Some ''r1'', ab_owner = None, ab_name = None, ab_txId = Some ''push1'',
       ab_signer = Some signer, ab_signatureB64 = Some (''sig'' @ signer) \<rparr>"

definition ex_db_approved1 :: db where
  "ex_db_approved1 =
     ex_db_setup1\<lparr> multisig_pushes := [(ex_push ''m1'' ''push1'' 11)\<lparr> mp_approvals_count := 1 \<rparr>],
                   multisig_signatures :=
                     [\<lparr> ms_id = ''s1'', ms_multisig_push_id = ''m1'', ms_signer = ''A'',
                        ms_signature_b64 = ''sigA'', ms_created_at = 20 \<rparr>] \<rparr>"

section \<open>Verified properties\<close>

subsection \<open>Evaluating the example\<close>

lemma strip_none:
  assumes "\<forall>w \<in> set ws. w = [] \<or> take (length w) s \<noteq> w"
  shows "strip ws s = s"
proof -
  have "find (\<lambda>w. w \<noteq> [] \<and> take (length w) s = w) ws = None"
    using assms by (auto simp: find_None_iff)
  then show ?thesis by (subst strip.simps) simp
qed

lemma trim_plain [simp]:
  "trim ''acme'' = ''acme''" "trim ''alice'' = ''alice''"
  "trim ''A'' = ''A''" "trim ''B'' = ''B''" "trim ''C'' = ''C''"
  by (simp_all add: trim_def strip_none white_space_def)

lemma ex_parseSigners: "parseSigners (rb_signers ex_repos_body) = [''A'', ''B'', ''C'']"
  by (simp add: ex_repos_body_def)

lemma int4_small [simp]: "int4_param (Some (Num 2)) = Inr (Some 2)" "int4_value (Num 2) = Inr 2"
  by (simp_all add: int4_param_def int4_value_def)

lemma ex_threshold:
  "calcThreshold [''A'', ''B'', ''C''] (unless_NaN (Num 2)) = Some (Num 2)"
  by (simp add: calcThreshold_def unless_NaN_def)

lemma ex_register: "post_repos ex_db ex_repos_body ''r1'' 5 = (Inr ex_repo, ex_db_registered)"
  by (simp add: post_repos_def repos_transaction_def lock_payment_def select_payment_by_tx_sig_def
      insert_repo_on_conflict_do_nothing_def update_payment_consumed_def nonempty_def
      ex_threshold Let_def ex_db_def ex_payment_def ex_repos_body_def ex_repo_def
      ex_db_registered_def)

subsection \<open>Thresholds\<close>

lemma ceil_half: "\<lceil>(of_nat n :: rat) / 2\<rceil> = (int n + 1) div 2"
  by (simp add: ceiling_divide_eq_div[of "int n" 2, where 'a=rat, simplified] del: of_int_numeral)

lemma ceil_half_real: "\<lceil>real n / 2\<rceil> = (int n + 1) div 2"
  by linarith

lemma ceil_half_bounds: "n > 0 \<Longrightarrow> 1 \<le> (int n + 1) div 2 \<and> (int n + 1) div 2 \<le> int n"
  by presburger

lemma calcThreshold_closed:
  "calcThreshold signers req =
     (if signers = [] then None
      else case req of
             Some (Num t) \<Rightarrow> if 0 < t \<and> t \<le> of_nat (length signers) then Some (Num t)
                             else Some (Num (of_int ((int (length signers) + 1) div 2)))
           | _ \<Rightarrow> Some (Num (of_int ((int (length signers) + 1) div 2))))"
  by (auto simp: calcThreshold_def ceil_half split: option.splits number.splits)

lemma int4_param_Inr:
  "int4_param v = Inr t \<Longrightarrow> map_option (\<lambda>i. Num (of_int i)) t = v"
  by (auto simp: int4_param_def int4_value_def split: option.splits number.splits if_splits sum.splits)

lemma post_repos_inserted_row:
  assumes "post_repos d body repoId now = (Inr row, d')"
  shows "repo_is_multisig row = (parseSigners (rb_signers body) \<noteq> [])
       \<and> map_option (\<lambda>i. Num (of_int i)) (repo_threshold row)
           = calcThreshold (parseSigners (rb_signers body)) (unless_NaN (rb_threshold body))
       \<and> repo_signers row = parseSigners (rb_signers body)
       \<and> row \<in> set (repos d')"
  using assms
  by (auto simp: post_repos_def repos_transaction_def insert_repo_on_conflict_do_nothing_def
        update_payment_consumed_def Let_def
      dest!: int4_param_Inr
      split: option.splits sum.splits if_splits prod.splits)

text \<open>
  C8, as the code has it.  For a non-empty signer list of length \<open>n\<close> the effective
  threshold is the requested number exactly when \<open>0 < requested \<le> n\<close>, and \<open>ceil(n/2)\<close>
  otherwise and when none is requested (also for an infinity).  The function makes no test
  that the request is an integer; for an integer request the condition is
  \<open>1 \<le> requested \<le> n\<close>.  Signer lists of length 1, 2, 3, 4, 5 with no requested threshold
  give 1, 1, 2, 2, 3; an empty signer list gives no threshold; and the repository row that
  \<^verbatim>\<open>POST /repos\<close> inserts carries the computed threshold and has its multisig flag set iff
  the parsed signer list is non-empty.
\<close>

theorem calcThreshold_effective:
  "(signers \<noteq> [] \<longrightarrow>
      calcThreshold signers (Some (Num t)) =
        Some (Num (if 0 < t \<and> t \<le> of_nat (length signers) then t
                   else of_int \<lceil>real (length signers) / 2\<rceil>))
      \<and> (calcThreshold signers (Some (Num t)) = Some (Num t)
           \<longleftrightarrow> 0 < t \<and> t \<le> of_nat (length signers))
      \<and> calcThreshold signers (Some (Num (of_int i))) =
        Some (Num (of_int (if 1 \<le> i \<and> i \<le> int (length signers) then i
                           else \<lceil>real (length signers) / 2\<rceil>)))
      \<and> calcThreshold signers (Some PosInfinity) = Some (Num (of_int \<lceil>real (length signers) / 2\<rceil>))
      \<and> calcThreshold signers (Some NegInfinity) = Some (Num (of_int \<lceil>real (length signers) / 2\<rceil>))
      \<and> calcThreshold signers (Some NaN) = Some (Num (of_int \<lceil>real (length signers) / 2\<rceil>))
      \<and> calcThreshold signers None = Some (Num (of_int \<lceil>real (length signers) / 2\<rceil>)))
   \<and> (length signers = 1 \<longrightarrow> calcThreshold signers None = Some (Num 1))
   \<and> (length signers = 2 \<longrightarrow> calcThreshold signers None = Some (Num 1))
   \<and> (length signers = 3 \<longrightarrow> calcThreshold signers None = Some (Num 2))
   \<and> (length signers = 4 \<longrightarrow> calcThreshold signers None = Some (Num 2))
   \<and> (length signers = 5 \<longrightarrow> calcThreshold signers None = Some (Num 3))
   \<and> calcThreshold [] req = None
   \<and> (post_repos d body repoId now = (Inr row, d') \<longrightarrow>
        repo_is_multisig row = (parseSigners (rb_signers body) \<noteq> [])
        \<and> map_option (\<lambda>i. Num (of_int i)) (repo_threshold row)
            = calcThreshold (parseSigners (rb_signers body)) (unless_NaN (rb_threshold body)))"
proof -
  let ?h = "(int (length signers) + 1) div 2"
  have h: "signers \<noteq> [] \<Longrightarrow> 1 \<le> ?h \<and> ?h \<le> int (length signers)"
    using ceil_half_bounds[of "length signers"] by simp
  have a1: "signers \<noteq> [] \<longrightarrow> calcThreshold signers (Some (Num t)) =
        Some (Num (if 0 < t \<and> t \<le> of_nat (length signers) then t
                   else of_int \<lceil>real (length signers) / 2\<rceil>))"
    unfolding calcThreshold_closed ceil_half_real by simp
  have a2: "signers \<noteq> [] \<longrightarrow> (calcThreshold signers (Some (Num t)) = Some (Num t)
           \<longleftrightarrow> 0 < t \<and> t \<le> of_nat (length signers))"
  proof (intro impI)
    assume ne: "signers \<noteq> []"
    have "rat_of_int ?h \<le> rat_of_int (int (length signers))"
      using h[OF ne] by (simp only: of_int_le_iff)
    then have "rat_of_int ?h \<le> of_nat (length signers)"
      by (simp only: of_int_of_nat_eq)
    moreover have "0 < ?h" using h[OF ne] by linarith
    then have "0 < rat_of_int ?h" by (simp only: of_int_0_less_iff)
    ultimately show "calcThreshold signers (Some (Num t)) = Some (Num t)
           \<longleftrightarrow> 0 < t \<and> t \<le> of_nat (length signers)"
      unfolding calcThreshold_closed using ne by auto
  qed
  have a3: "signers \<noteq> [] \<longrightarrow> calcThreshold signers (Some (Num (of_int i))) =
        Some (Num (of_int (if 1 \<le> i \<and> i \<le> int (length signers) then i
                           else \<lceil>real (length signers) / 2\<rceil>)))"
  proof -
    have "rat_of_int i \<le> rat_of_int (int (length signers)) \<longleftrightarrow> i \<le> int (length signers)"
      by (simp only: of_int_le_iff)
    then have "rat_of_int i \<le> of_nat (length signers) \<longleftrightarrow> i \<le> int (length signers)"
      by (simp only: of_int_of_nat_eq)
    moreover have "0 < rat_of_int i \<longleftrightarrow> 1 \<le> i"
      by (simp only: of_int_0_less_iff) linarith
    ultimately have "(0 < rat_of_int i \<and> rat_of_int i \<le> of_nat (length signers))
            \<longleftrightarrow> (1 \<le> i \<and> i \<le> int (length signers))"
      by simp
    then show ?thesis
      unfolding calcThreshold_closed ceil_half_real by simp
  qed
  have a4: "signers \<noteq> [] \<longrightarrow>
      calcThreshold signers (Some PosInfinity) = Some (Num (of_int \<lceil>real (length signers) / 2\<rceil>))
      \<and> calcThreshold signers (Some NegInfinity) = Some (Num (of_int \<lceil>real (length signers) / 2\<rceil>))
      \<and> calcThreshold signers (Some NaN) = Some (Num (of_int \<lceil>real (length signers) / 2\<rceil>))
      \<and> calcThreshold signers None = Some (Num (of_int \<lceil>real (length signers) / 2\<rceil>))"
    unfolding calcThreshold_closed ceil_half_real by simp
  have b: "length signers = n \<longrightarrow> n > 0 \<longrightarrow>
             calcThreshold signers None = Some (Num (of_int ((int n + 1) div 2)))" for n
    by (auto simp: calcThreshold_closed)
  have b1: "length signers = 1 \<longrightarrow> calcThreshold signers None = Some (Num 1)" using b[of 1] by simp
  have b2: "length signers = 2 \<longrightarrow> calcThreshold signers None = Some (Num 1)" using b[of 2] by simp
  have b3: "length signers = 3 \<longrightarrow> calcThreshold signers None = Some (Num 2)" using b[of 3] by simp
  have b4: "length signers = 4 \<longrightarrow> calcThreshold signers None = Some (Num 2)" using b[of 4] by simp
  have b5: "length signers = 5 \<longrightarrow> calcThreshold signers None = Some (Num 3)" using b[of 5] by simp
  have c: "calcThreshold [] req = None" by (simp add: calcThreshold_def)
  have e: "post_repos d body repoId now = (Inr row, d') \<longrightarrow>
        repo_is_multisig row = (parseSigners (rb_signers body) \<noteq> [])
        \<and> map_option (\<lambda>i. Num (of_int i)) (repo_threshold row)
            = calcThreshold (parseSigners (rb_signers body)) (unless_NaN (rb_threshold body))"
    using post_repos_inserted_row[of d body repoId now row d'] by blast
  show ?thesis using a1 a2 a3 a4 b1 b2 b3 b4 b5 c e by blast
qed

theorem calcThreshold_effective_witness:
  "[''A'', ''B'', ''C''] \<noteq> ([] :: string list)
   \<and> length [''A'', ''B'', ''C''] = 3
   \<and> post_repos ex_db ex_repos_body ''r1'' 5 = (Inr ex_repo, ex_db_registered)
   \<and> calcThreshold [''A'', ''B'', ''C''] (Some (Num 7)) = Some (Num 2)
   \<and> calcThreshold [''A'', ''B'', ''C''] (Some (Num (5 / 2))) = Some (Num (5 / 2))
   \<and> calcThreshold [''A'', ''B'', ''C''] None = Some (Num 2)
   \<and> repo_is_multisig ex_repo
   \<and> map_option (\<lambda>i. Num (of_int i)) (repo_threshold ex_repo)
       = calcThreshold [''A'', ''B'', ''C''] (unless_NaN (Num 2))"
proof -
  have c: "\<lceil>real (length [''A'', ''B'', ''C'']) / 2\<rceil> = 2" by simp
  have f: "rb_threshold ex_repos_body = Num 2" by (simp add: ex_repos_body_def)
  show ?thesis
    using calcThreshold_effective[of "[''A'', ''B'', ''C'']" 7 0 None ex_db ex_repos_body "''r1''" 5
            ex_repo ex_db_registered]
          calcThreshold_effective[of "[''A'', ''B'', ''C'']" "5 / 2" 0 None ex_db ex_repos_body
            "''r1''" 5 ex_repo ex_db_registered]
          ex_register ex_parseSigners c f
    by simp
qed

text \<open>
  C8 as stated fails for a request that is not an integer: with one signer a requested
  threshold of \<open>1/2\<close> passes the guard \<^verbatim>\<open>maybeThreshold > 0 && maybeThreshold <= 1\<close> and is
  returned, although \<open>1 \<le> 1/2\<close> is false and \<open>ceil(1/2) = 1\<close>.
\<close>

theorem calcThreshold_fraction_counterexample:
  "[''A''] \<noteq> ([] :: string list)
   \<and> calcThreshold [''A''] (Some (Num (1 / 2))) = Some (Num (1 / 2))
   \<and> \<not> (1 \<le> (1 / 2 :: rat) \<and> (1 / 2 :: rat) \<le> of_nat (length [''A'']))
   \<and> Some (Num (1 / 2)) \<noteq> Some (Num (of_int \<lceil>real (length [''A'']) / 2\<rceil>))"
proof -
  have c: "\<lceil>(1 :: real) / 2\<rceil> = 1" by linarith
  show ?thesis by (simp add: calcThreshold_def c)
qed

subsection \<open>Ledger verification\<close>

text \<open>
  C10.  When the transaction exists and succeeded, a post-transfer balance entry for the
  recipient and the asset exists, and no pre-transfer entry matches it on asset, recipient
  and account index, the pre-transfer amount counts as zero: the net amount is the whole
  post-transfer balance, an exact integer, and a net amount of zero or less fails with
  \<open>no_deposit_detected\<close>.
\<close>

theorem verifyTokenPayment_missing_pre_balance:
  assumes cfg: "PAYMENT_DESTINATION cfg \<noteq> []" "PAYMENT_TOKEN_MINT cfg \<noteq> []"
    and tx: "getTransaction txSig = Some tx" "tx_meta tx = Some meta" "\<not> meta_err meta"
    and post: "find (\<lambda>entry. tb_owner entry = Some (PAYMENT_DESTINATION cfg)
                          \<and> tb_mint entry = PAYMENT_TOKEN_MINT cfg)
                 (or_empty (meta_postTokenBalances meta)) = Some dest"
    and amt: "tb_uiTokenAmount dest = Some post_amount"
    and nopre: "\<forall>entry \<in> set (or_empty (meta_preTokenBalances meta)).
                  \<not> (tb_mint entry = PAYMENT_TOKEN_MINT cfg
                     \<and> tb_owner entry = Some (PAYMENT_DESTINATION cfg)
                     \<and> tb_accountIndex entry = tb_accountIndex dest)"
  shows "verifyTokenPayment cfg getTransaction txSig =
           (if uta_amount post_amount \<le> 0 then Inl (Error ''no_deposit_detected'')
            else Inr \<lparr> amountAtomic = uta_amount post_amount,
                       decimals = dest_decimals cfg dest \<rparr>)"
proof -
  have pre: "find (\<lambda>entry. tb_mint entry = PAYMENT_TOKEN_MINT cfg
                     \<and> tb_owner entry = Some (PAYMENT_DESTINATION cfg)
                     \<and> tb_accountIndex entry = tb_accountIndex dest)
               (or_empty (meta_preTokenBalances meta)) = None"
    using nopre by (simp add: find_None_iff)
  show ?thesis
    using cfg tx post amt pre
    by (simp add: verifyTokenPayment_def Let_def amount_of_def)
qed

theorem verifyTokenPayment_missing_pre_balance_witness:
  "PAYMENT_DESTINATION ex_cfg \<noteq> [] \<and> PAYMENT_TOKEN_MINT ex_cfg \<noteq> []
   \<and> ex_ledger ''tx1'' = Some \<lparr> tx_meta = Some ex_meta \<rparr>
   \<and> \<not> meta_err ex_meta
   \<and> find (\<lambda>entry. tb_owner entry = Some (PAYMENT_DESTINATION ex_cfg)
                  \<and> tb_mint entry = PAYMENT_TOKEN_MINT ex_cfg)
        (or_empty (meta_postTokenBalances ex_meta)) = Some ex_post_entry
   \<and> tb_uiTokenAmount ex_post_entry = Some \<lparr> uta_amount = 10, uta_decimals = Some 6 \<rparr>
   \<and> or_empty (meta_preTokenBalances ex_meta) = [ex_pre_entry]
   \<and> tb_accountIndex ex_pre_entry \<noteq> tb_accountIndex ex_post_entry
   \<and> verifyTokenPayment ex_cfg ex_ledger ''tx1'' = Inr \<lparr> amountAtomic = 10, decimals = 6 \<rparr>"
proof -
  have c: "PAYMENT_DESTINATION ex_cfg \<noteq> []" "PAYMENT_TOKEN_MINT ex_cfg \<noteq> []"
    by (simp_all add: ex_cfg_def)
  have t: "ex_ledger ''tx1'' = Some \<lparr> tx_meta = Some ex_meta \<rparr>"
          "tx_meta \<lparr> tx_meta = Some ex_meta \<rparr> = Some ex_meta" "\<not> meta_err ex_meta"
    by (simp_all add: ex_ledger_def ex_meta_def)
  have p: "find (\<lambda>entry. tb_owner entry = Some (PAYMENT_DESTINATION ex_cfg)
                  \<and> tb_mint entry = PAYMENT_TOKEN_MINT ex_cfg)
        (or_empty (meta_postTokenBalances ex_meta)) = Some ex_post_entry"
    by (simp add: ex_meta_def or_empty_def ex_post_entry_def ex_cfg_def)
  have a: "tb_uiTokenAmount ex_post_entry = Some \<lparr> uta_amount = 10, uta_decimals = Some 6 \<rparr>"
    by (simp add: ex_post_entry_def)
  have l: "or_empty (meta_preTokenBalances ex_meta) = [ex_pre_entry]"
    by (simp add: ex_meta_def or_empty_def)
  have o: "tb_accountIndex ex_pre_entry \<noteq> tb_accountIndex ex_post_entry"
    by (simp add: ex_pre_entry_def ex_post_entry_def)
  have n: "\<forall>entry \<in> set (or_empty (meta_preTokenBalances ex_meta)).
                  \<not> (tb_mint entry = PAYMENT_TOKEN_MINT ex_cfg
                     \<and> tb_owner entry = Some (PAYMENT_DESTINATION ex_cfg)
                     \<and> tb_accountIndex entry = tb_accountIndex ex_post_entry)"
    using l o by simp
  have d: "dest_decimals ex_cfg ex_post_entry = 6"
    by (simp add: dest_decimals_def ex_post_entry_def)
  show ?thesis
    using verifyTokenPayment_missing_pre_balance[where getTransaction=ex_ledger and txSig="''tx1''", OF c t p a n] c t(1,3) p a l o d
    by simp
qed

subsection \<open>Recording a payment\<close>

lemma update_payment_confirmed_select:
  "select_payment_by_tx_sig d txSig = Some row \<Longrightarrow>
   select_payment_by_tx_sig (update_payment_confirmed d (pay_id row)) txSig
     = Some (row\<lparr> pay_status := ''confirmed'' \<rparr>)"
  unfolding select_payment_by_tx_sig_def update_payment_confirmed_def
  by (induction "payments d" arbitrary: d) (auto simp: find_Some_iff split: if_splits)


lemma verify_ledger_example:
  "verifyTokenPayment ex_cfg ex_ledger ''tx1'' = Inr \<lparr> amountAtomic = 10, decimals = 6 \<rparr>"
  by (simp add: verifyTokenPayment_def ex_cfg_def ex_ledger_def ex_meta_def or_empty_def
      ex_post_entry_def ex_pre_entry_def amount_of_def dest_decimals_def Let_def)

lemma ex_verify_first:
  "post_payments_verify ex_cfg ex_ledger id ex_db_empty ex_verify_body ''p1'' 100
     = (Inr \<lparr> vo_payment = ex_recorded, vo_reused = False \<rparr>, ex_db_recorded)"
  by (simp add: post_payments_verify_def verify_ledger_example select_payment_by_tx_sig_def
      insert_payment_def nonempty_def Let_def ex_verify_body_def ex_db_empty_def ex_recorded_def
      ex_db_recorded_def ex_cfg_def[THEN arg_cong[of _ _ PAYMENT_DESTINATION]]
      ex_cfg_def[THEN arg_cong[of _ _ PAYMENT_TOKEN_MINT]]
      ex_cfg_def[THEN arg_cong[of _ _ PAYMENT_MIN_TOKENS]]
      ex_cfg_def[THEN arg_cong[of _ _ MIN_PAYMENT_ATOMIC]])

text \<open>
  C9.  When a payment row for the transaction hash exists, \<^verbatim>\<open>POST /payments/verify\<close> first
  compares the stored purpose with the requested one and answers \<open>purpose_mismatch\<close> when
  they differ; otherwise it sets the stored status to \<open>confirmed\<close> if it was not, and
  returns the existing row, marked as reused.  The answer does not depend on the ledger, on
  the fresh id or on the clock, and no row is inserted: the transaction hashes of the table
  are the same list as before.
\<close>

theorem verify_replay:
  assumes tx: "nonempty (vb_txSig body) = Some txSig"
    and purpose: "purpose = (case vb_purpose body of None \<Rightarrow> ''repo_init'' | Some p \<Rightarrow> p)"
                 "purpose \<noteq> []"
    and cfg: "PAYMENT_DESTINATION cfg \<noteq> []" "PAYMENT_TOKEN_MINT cfg \<noteq> []"
    and existing: "select_payment_by_tx_sig d txSig = Some row"
  shows "post_payments_verify cfg getTransaction others d body paymentId now =
           (if pay_purpose row \<noteq> purpose
            then (Inl (HttpError 400 ''purpose_mismatch'' None), d)
            else (Inr \<lparr> vo_payment = row\<lparr> pay_status := ''confirmed'' \<rparr>, vo_reused = True \<rparr>,
                  if pay_status row = ''confirmed'' then d
                  else update_payment_confirmed d (pay_id row)))
         \<and> post_payments_verify cfg getTransaction' others' d body paymentId' now'
             = post_payments_verify cfg getTransaction others d body paymentId now
         \<and> map pay_tx_sig (payments (snd (post_payments_verify cfg getTransaction others d body
                                              paymentId now)))
             = map pay_tx_sig (payments d)
         \<and> (pay_purpose row = purpose \<longrightarrow>
              select_payment_by_tx_sig
                (snd (post_payments_verify cfg getTransaction others d body paymentId now)) txSig
              = Some (row\<lparr> pay_status := ''confirmed'' \<rparr>))"
proof -
  have eq: "post_payments_verify cfg g ot d body pid nw =
           (if pay_purpose row \<noteq> purpose
            then (Inl (HttpError 400 ''purpose_mismatch'' None), d)
            else (Inr \<lparr> vo_payment = row\<lparr> pay_status := ''confirmed'' \<rparr>, vo_reused = True \<rparr>,
                  if pay_status row = ''confirmed'' then d
                  else update_payment_confirmed d (pay_id row)))" for g ot pid nw
  proof (cases "pay_status row = ''confirmed''")
    case True
    then have "row\<lparr> pay_status := ''confirmed'' \<rparr> = row" by simp
    with True show ?thesis
      using tx purpose cfg existing by (simp add: post_payments_verify_def Let_def)
  next
    case False
    then show ?thesis
      using tx purpose cfg existing by (simp add: post_payments_verify_def Let_def)
  qed
  have sigs: "map pay_tx_sig (payments (update_payment_confirmed d (pay_id row)))
                = map pay_tx_sig (payments d)"
    by (simp add: update_payment_confirmed_def)
  have sel: "pay_status row = ''confirmed'' \<Longrightarrow>
               select_payment_by_tx_sig d txSig = Some (row\<lparr> pay_status := ''confirmed'' \<rparr>)"
    using existing by simp
  show ?thesis
    unfolding eq using sigs sel update_payment_confirmed_select[OF existing] by simp
qed

theorem verify_replay_witness:
  "nonempty (vb_txSig ex_verify_body) = Some ''tx1''
   \<and> (case vb_purpose ex_verify_body of None \<Rightarrow> ''repo_init'' | Some p \<Rightarrow> p) = pay_purpose ex_recorded
   \<and> PAYMENT_DESTINATION ex_cfg \<noteq> [] \<and> PAYMENT_TOKEN_MINT ex_cfg \<noteq> []
   \<and> select_payment_by_tx_sig ex_db_pending ''tx1'' = Some (ex_recorded\<lparr> pay_status := ''pending'' \<rparr>)
   \<and> post_payments_verify ex_cfg (\<lambda>t. None) id ex_db_pending ex_verify_body ''p2'' 200
        = (Inr \<lparr> vo_payment = ex_recorded, vo_reused = True \<rparr>, ex_db_recorded)"
proof -
  have t: "nonempty (vb_txSig ex_verify_body) = Some ''tx1''"
    by (simp add: ex_verify_body_def nonempty_def)
  have p: "''repo_init'' = (case vb_purpose ex_verify_body of None \<Rightarrow> ''repo_init'' | Some p \<Rightarrow> p)"
          "''repo_init'' \<noteq> []"
    by (simp_all add: ex_verify_body_def)
  have c: "PAYMENT_DESTINATION ex_cfg \<noteq> []" "PAYMENT_TOKEN_MINT ex_cfg \<noteq> []"
    by (simp_all add: ex_cfg_def)
  have e: "select_payment_by_tx_sig ex_db_pending ''tx1'' = Some (ex_recorded\<lparr> pay_status := ''pending'' \<rparr>)"
    by (simp add: select_payment_by_tx_sig_def ex_db_pending_def ex_recorded_def ex_db_empty_def)
  have u: "update_payment_confirmed ex_db_pending ''p1'' = ex_db_recorded"
    by (simp add: update_payment_confirmed_def ex_db_pending_def ex_db_recorded_def
        ex_db_empty_def ex_recorded_def)
  have r: "pay_purpose ex_recorded = ''repo_init''" "pay_id ex_recorded = ''p1''"
          "ex_recorded\<lparr> pay_status := ''confirmed'' \<rparr> = ex_recorded"
    by (simp_all add: ex_recorded_def)
  show ?thesis
    using verify_replay[where getTransaction="\<lambda>t. None" and others=id and paymentId="''p2''"
            and now=200, OF t p c e] t p(1) c e u r
    by simp
qed

lemma verify_insert_path:
  assumes tx: "nonempty (vb_txSig body) = Some txSig"
    and purpose: "purpose = (case vb_purpose body of None \<Rightarrow> ''repo_init'' | Some p \<Rightarrow> p)"
                 "purpose \<noteq> []"
    and cfg: "PAYMENT_DESTINATION cfg \<noteq> []" "PAYMENT_TOKEN_MINT cfg \<noteq> []"
    and absent: "select_payment_by_tx_sig d txSig = None"
    and ledger: "verifyTokenPayment cfg getTransaction txSig = Inr chainInfo"
    and enough: "\<not> amountAtomic chainInfo < MIN_PAYMENT_ATOMIC cfg"
  shows "post_payments_verify cfg getTransaction others d body paymentId now =
           (case insert_payment (others d) paymentId txSig (nonempty (vb_payer body)) purpose
                   (amountAtomic chainInfo) (nonempty (vb_repoName body))
                   \<lparr> md_decimals = decimals chainInfo, md_minTokens = PAYMENT_MIN_TOKENS cfg,
                     md_destination = PAYMENT_DESTINATION cfg,
                     md_mint = PAYMENT_TOKEN_MINT cfg \<rparr> now of
              Inl e \<Rightarrow> (Inl (HttpError 400 ''payment_verification_failed''
                               (Some (exn_message e))), others d)
            | Inr (row, d2) \<Rightarrow> (Inr \<lparr> vo_payment = row, vo_reused = False \<rparr>, d2))"
  using assms by (simp add: post_payments_verify_def Let_def)

text \<open>
  C4, evaluated where it fails.  Two requests verify \<open>tx1\<close> over an empty table and both read
  the table before either inserts.  The first inserts the row; the insert of the second
  violates the unique constraint on the transaction hash, and the handler's \<^verbatim>\<open>catch\<close>
  answers 400 \<open>payment_verification_failed\<close> with the store's message.  The handler does not
  read the table again.
\<close>

theorem verify_concurrent_loser:
  "select_payment_by_tx_sig ex_db_empty ''tx1'' = None
   \<and> post_payments_verify ex_cfg ex_ledger
        (\<lambda>d. snd (post_payments_verify ex_cfg ex_ledger id d ex_verify_body ''p1'' 100))
        ex_db_empty ex_verify_body ''p2'' 200
       = (Inl (HttpError 400 ''payment_verification_failed''
                 (Some ''duplicate key value violates unique constraint payments_tx_sig_key'')),
          ex_db_recorded)"
proof -
  have t: "nonempty (vb_txSig ex_verify_body) = Some ''tx1''"
    by (simp add: ex_verify_body_def nonempty_def)
  have p: "''repo_init'' = (case vb_purpose ex_verify_body of None \<Rightarrow> ''repo_init'' | Some p \<Rightarrow> p)"
          "''repo_init'' \<noteq> []"
    by (simp_all add: ex_verify_body_def)
  have c: "PAYMENT_DESTINATION ex_cfg \<noteq> []" "PAYMENT_TOKEN_MINT ex_cfg \<noteq> []"
    by (simp_all add: ex_cfg_def)
  have s: "select_payment_by_tx_sig ex_db_empty ''tx1'' = None"
    by (simp add: select_payment_by_tx_sig_def ex_db_empty_def)
  have m: "\<not> amountAtomic \<lparr> amountAtomic = 10, decimals = 6 \<rparr> < MIN_PAYMENT_ATOMIC ex_cfg"
    by (simp add: ex_cfg_def)
  have i: "insert_payment ex_db_recorded ''p2'' ''tx1'' (nonempty (vb_payer ex_verify_body))
             ''repo_init'' 10 (nonempty (vb_repoName ex_verify_body))
             \<lparr> md_decimals = 6, md_minTokens = PAYMENT_MIN_TOKENS ex_cfg,
               md_destination = PAYMENT_DESTINATION ex_cfg, md_mint = PAYMENT_TOKEN_MINT ex_cfg \<rparr> 200
           = Inl (unique_violation ''payments_tx_sig_key'')"
    by (simp add: insert_payment_def ex_db_recorded_def ex_db_empty_def ex_recorded_def
        ex_verify_body_def nonempty_def)
  let ?winner = "\<lambda>d. snd (post_payments_verify ex_cfg ex_ledger id d ex_verify_body ''p1'' 100)"
  have w: "?winner ex_db_empty = ex_db_recorded"
    by (simp add: ex_verify_first)
  have "post_payments_verify ex_cfg ex_ledger ?winner ex_db_empty ex_verify_body ''p2'' 200
          = (Inl (HttpError 400 ''payment_verification_failed''
                    (Some (exn_message (unique_violation ''payments_tx_sig_key'')))),
             ex_db_recorded)"
    unfolding verify_insert_path[where others="?winner", OF t p c s verify_ledger_example m] w
    by (simp add: i)
  then show ?thesis
    using s by (simp add: unique_violation_def)
qed

subsection \<open>Consuming a payment exactly once\<close>

lemma lock_payment_Inr:
  "lock_payment d txSig purpose = Inr p \<longleftrightarrow>
     select_payment_by_tx_sig d txSig = Some p \<and> pay_purpose p = purpose
     \<and> pay_status p = ''confirmed'' \<and> pay_consumed_at p = None"
  by (auto simp: lock_payment_def split: option.splits)

lemma lock_payment_consumed:
  "select_payment_by_tx_sig d txSig = Some p \<Longrightarrow> pay_purpose p = purpose \<Longrightarrow>
   pay_status p = ''confirmed'' \<Longrightarrow> pay_consumed_at p = Some t \<Longrightarrow>
   lock_payment d txSig purpose = Inl (Error ''payment_already_consumed'')"
  by (simp add: lock_payment_def)

lemma find_map_same_key:
  assumes "find (\<lambda>r. key r = k) xs = Some p" and "\<And>r. key (f r) = key r"
  shows "find (\<lambda>r. key r = k) (map f xs) = Some (f p)"
  using assms by (induction xs) (auto split: if_splits)

lemma update_payment_consumed_select:
  assumes "select_payment_by_tx_sig d txSig = Some p"
  shows "select_payment_by_tx_sig (update_payment_consumed d (pay_id p) now) txSig
           = Some (p\<lparr> pay_consumed_at := Some now \<rparr>)"
proof -
  let ?f = "\<lambda>r. if pay_id r = pay_id p then r\<lparr> pay_consumed_at := Some now \<rparr> else r"
  have "find (\<lambda>r. pay_tx_sig r = txSig) (map ?f (payments d)) = Some (?f p)"
    by (rule find_map_same_key) (use assms in \<open>simp_all add: select_payment_by_tx_sig_def\<close>)
  then show ?thesis
    by (simp add: select_payment_by_tx_sig_def update_payment_consumed_def)
qed

lemma select_payment_cong:
  "payments d' = payments d \<Longrightarrow> select_payment_by_tx_sig d' txSig = select_payment_by_tx_sig d txSig"
  by (simp add: select_payment_by_tx_sig_def)

lemma repos_transaction_Inr:
  assumes "repos_transaction d name owner priv signerList thr txSig rid now = Inr (row, d')"
  shows "\<exists>p. select_payment_by_tx_sig d txSig = Some p \<and> pay_purpose p = ''repo_init''
            \<and> pay_status p = ''confirmed'' \<and> pay_consumed_at p = None
            \<and> select_payment_by_tx_sig d' txSig = Some (p\<lparr> pay_consumed_at := Some now \<rparr>)
            \<and> payments d' = payments (update_payment_consumed d (pay_id p) now)
            \<and> repos d' = repos d @ [row] \<and> repo_payment_tx row = Some txSig
            \<and> otp_tokens d' = otp_tokens d \<and> multisig_pushes d' = multisig_pushes d
            \<and> multisig_signatures d' = multisig_signatures d"
proof -
  from assms obtain p where l: "lock_payment d txSig ''repo_init'' = Inr p"
    by (auto simp: repos_transaction_def split: sum.splits)
  then have s: "select_payment_by_tx_sig d txSig = Some p" "pay_purpose p = ''repo_init''"
    "pay_status p = ''confirmed''" "pay_consumed_at p = None"
    by (simp_all add: lock_payment_Inr)
  from assms l obtain d1 t where
    i: "insert_repo_on_conflict_do_nothing d
          \<lparr> repo_id = rid, repo_name = trim name, repo_owner = trim owner,
            repo_is_private = priv, repo_is_multisig = (length signerList > 0),
            repo_threshold = t, repo_signers = signerList,
            repo_payment_tx = Some txSig, repo_created_at = now \<rparr> = Inr (Some row, d1)"
    and d': "d' = update_payment_consumed d1 (pay_id p) now"
    by (auto simp: repos_transaction_def split: sum.splits option.splits)
  from i have d1: "d1 = d\<lparr> repos := repos d @ [row] \<rparr>" and r: "repo_payment_tx row = Some txSig"
    by (auto simp: insert_repo_on_conflict_do_nothing_def split: if_splits)
  have s1: "select_payment_by_tx_sig d1 txSig = Some p"
    using s(1) d1 by (simp add: select_payment_by_tx_sig_def)
  show ?thesis
    using s update_payment_consumed_select[OF s1, of now] d' d1 r
    by (auto simp: update_payment_consumed_def)
qed

lemma post_repos_Inr:
  assumes "post_repos d body rid now = (Inr row, d')"
  shows "\<exists>name owner txSig. nonempty (rb_name body) = Some name \<and> nonempty (rb_owner body) = Some owner
          \<and> nonempty (rb_paymentTxSig body) = Some txSig
          \<and> repos_transaction d name owner (rb_isPrivate body) (parseSigners (rb_signers body))
               (calcThreshold (parseSigners (rb_signers body)) (unless_NaN (rb_threshold body))) txSig rid now
             = Inr (row, d')"
  using assms
  by (auto simp: post_repos_def Let_def split: option.splits sum.splits)

lemma post_repos_Inl:
  assumes "post_repos d body rid now = (Inl e, d')"
  shows "d' = d"
  using assms
  by (auto simp: post_repos_def Let_def split: option.splits sum.splits)

lemma post_repos_already_consumed:
  assumes "nonempty (rb_name body) \<noteq> None" "nonempty (rb_owner body) \<noteq> None"
    and "nonempty (rb_paymentTxSig body) = Some txSig"
    and "select_payment_by_tx_sig d txSig = Some p" "pay_purpose p = ''repo_init''"
        "pay_status p = ''confirmed''" "pay_consumed_at p = Some t"
  shows "post_repos d body rid now =
           (Inl (HttpError 400 ''repo_create_failed'' (Some ''payment_already_consumed'')), d)"
  using assms
  by (auto simp: post_repos_def repos_transaction_def lock_payment_consumed Let_def)


lemma otp_transaction_Inr:
  assumes "otp_transaction d repo bundleTx txSig key ttl rnd now = Inr (issued, d')"
  shows "\<exists>p. select_payment_by_tx_sig d txSig = Some p \<and> pay_purpose p = ''otp_share''
            \<and> pay_status p = ''confirmed'' \<and> pay_consumed_at p = None
            \<and> select_payment_by_tx_sig d' txSig = Some (p\<lparr> pay_consumed_at := Some now \<rparr>)
            \<and> payments d' = payments (update_payment_consumed d (pay_id p) now)
            \<and> (\<exists>row. otp_tokens d' = otp_tokens d @ [row] \<and> otp_payment_tx row = txSig
                       \<and> otp_plain row = oi_otp issued)"
proof -
  from assms obtain p where l: "lock_payment d txSig ''otp_share'' = Inr p"
    by (auto simp: otp_transaction_def split: sum.splits)
  then have s: "select_payment_by_tx_sig d txSig = Some p" "pay_purpose p = ''otp_share''"
    "pay_status p = ''confirmed''" "pay_consumed_at p = None"
    by (simp_all add: lock_payment_Inr)
  from assms l obtain d1 row where
    i: "insert_otp_token d row = Inr d1" "otp_payment_tx row = txSig" "otp_plain row = oi_otp issued"
    and d': "d' = update_payment_consumed d1 (pay_id p) now"
    by (auto simp: otp_transaction_def Let_def split: sum.splits option.splits)
  from i have d1: "d1 = d\<lparr> otp_tokens := otp_tokens d @ [row] \<rparr>"
    by (auto simp: insert_otp_token_def split: if_splits)
  have s1: "select_payment_by_tx_sig d1 txSig = Some p"
    using s(1) d1 by (simp add: select_payment_by_tx_sig_def)
  show ?thesis
    using s update_payment_consumed_select[OF s1, of now] d' d1 i(2,3)
    by (auto simp: update_payment_consumed_def)
qed

lemma post_otp_request_Inr:
  assumes "post_otp_request d body rnd now = (Inr issued, d')"
  shows "\<exists>bundleTx txSig repo. nonempty (ob_bundleTx body) = Some bundleTx
          \<and> nonempty (ob_paymentTxSig body) = Some txSig
          \<and> find_repo d (ob_repoId body) (ob_owner body) (ob_name body) = Some repo
          \<and> otp_transaction d repo bundleTx txSig (ob_decryptKey body) (ob_expiresInMinutes body)
               rnd now = Inr (issued, d')"
  using assms
  by (auto simp: post_otp_request_def split: option.splits sum.splits)

lemma post_otp_request_Inl:
  assumes "post_otp_request d body rnd now = (Inl e, d')"
  shows "d' = d"
  using assms
  by (auto simp: post_otp_request_def split: option.splits sum.splits)

lemma post_otp_request_already_consumed:
  assumes "nonempty (ob_bundleTx body) \<noteq> None"
    and "nonempty (ob_paymentTxSig body) = Some txSig"
    and "find_repo d (ob_repoId body) (ob_owner body) (ob_name body) \<noteq> None"
    and "select_payment_by_tx_sig d txSig = Some p" "pay_purpose p = ''otp_share''"
        "pay_status p = ''confirmed''" "pay_consumed_at p = Some t"
  shows "post_otp_request d body rnd now =
           (Inl (HttpError 400 ''otp_create_failed'' (Some ''payment_already_consumed'')), d)"
  using assms
  by (auto simp: post_otp_request_def otp_transaction_def lock_payment_consumed)

text \<open>How one request changes the payments table.\<close>

lemma verify_payments_shape:
  "payments (snd (post_payments_verify cfg g id d body pid now)) = payments d
   \<or> (\<exists>i. payments (snd (post_payments_verify cfg g id d body pid now))
            = payments (update_payment_confirmed d i))
   \<or> (\<exists>row. pay_id row \<notin> set (map pay_id (payments d))
          \<and> payments (snd (post_payments_verify cfg g id d body pid now)) = payments d @ [row])"
  by (auto simp: post_payments_verify_def Let_def insert_payment_def
      split: option.splits sum.splits if_splits)

lemma repos_payments_shape:
  "payments (snd (post_repos d body rid now)) = payments d
   \<or> (\<exists>q tx. select_payment_by_tx_sig d tx = Some q \<and> pay_consumed_at q = None
          \<and> payments (snd (post_repos d body rid now))
              = payments (update_payment_consumed d (pay_id q) now))"
proof (cases "post_repos d body rid now")
  case (Pair res d')
  show ?thesis
  proof (cases res)
    case (Inl e)
    with Pair show ?thesis using post_repos_Inl[of d body rid now e d'] by simp
  next
    case (Inr row)
    with Pair post_repos_Inr[of d body rid now row d'] repos_transaction_Inr
    show ?thesis by (metis snd_conv)
  qed
qed

lemma otp_request_payments_shape:
  "payments (snd (post_otp_request d body rnd now)) = payments d
   \<or> (\<exists>q tx. select_payment_by_tx_sig d tx = Some q \<and> pay_consumed_at q = None
          \<and> payments (snd (post_otp_request d body rnd now))
              = payments (update_payment_consumed d (pay_id q) now))"
proof (cases "post_otp_request d body rnd now")
  case (Pair res d')
  show ?thesis
  proof (cases res)
    case (Inl e)
    with Pair show ?thesis using post_otp_request_Inl[of d body rnd now e d'] by simp
  next
    case (Inr issued)
    with Pair post_otp_request_Inr[of d body rnd now issued d'] otp_transaction_Inr
    show ?thesis by (metis snd_conv)
  qed
qed

lemma redeem_payments: "payments (snd (post_otp_redeem pick others d otp now)) = payments (others d)
   \<or> payments (snd (post_otp_redeem pick others d otp now)) = payments d"
  by (auto simp: post_otp_redeem_def update_otp_used_if_null_def split: option.splits prod.splits)

lemma approve_payments: "payments (snd (post_multisig_approve cr d body sigId now)) = payments d"
  by (auto simp: post_multisig_approve_def approve_transaction_def insert_signature_translated_def
      insert_signature_def update_push_approved_def update_push_count_def Let_def
      split: option.splits sum.splits)

lemma ensureMultisigEntry_payments:
  "ensureMultisigEntry d repo pushTx branch pid now = Inr (e, d') \<Longrightarrow> payments d' = payments d"
  by (auto simp: ensureMultisigEntry_def insert_push_on_conflict_do_nothing_def
      split: option.splits sum.splits if_splits)

lemma setup_finish_payments: "payments (snd (setup_finish d repo pushTx pushId now)) = payments d"
  by (auto simp: setup_finish_def dest: ensureMultisigEntry_payments split: sum.splits)

lemma setup_payments: "payments (snd (post_multisig_setup d body newId pushId now)) = payments d"
  by (auto simp: post_multisig_setup_def Let_def setup_finish_payments insert_repo_def
      update_repo_multisig_def split: option.splits sum.splits if_splits)


lemma find_in_set: "find P xs = Some x \<Longrightarrow> x \<in> set xs"
  by (auto simp: find_Some_iff)

lemma find_append_Some: "find P xs = Some x \<Longrightarrow> find P (xs @ ys) = Some x"
  by (induction xs) (auto split: if_splits)

lemma distinct_ids_eq:
  "distinct (map pay_id ps) \<Longrightarrow> p \<in> set ps \<Longrightarrow> q \<in> set ps \<Longrightarrow> pay_id p = pay_id q \<Longrightarrow> p = q"
  by (meson distinct_map inj_onD)

lemma keeps_confirmed:
  assumes "payments d' = payments (update_payment_confirmed d i)"
  shows "map pay_id (payments d') = map pay_id (payments d)"
    and "select_payment_by_tx_sig d tx = Some p \<Longrightarrow>
         \<exists>p'. select_payment_by_tx_sig d' tx = Some p' \<and> pay_consumed_at p' = pay_consumed_at p
              \<and> pay_id p' = pay_id p"
proof -
  let ?f = "\<lambda>r. if pay_id r = i then r\<lparr> pay_status := ''confirmed'' \<rparr> else r"
  show "map pay_id (payments d') = map pay_id (payments d)"
    using assms by (simp add: update_payment_confirmed_def)
  assume "select_payment_by_tx_sig d tx = Some p"
  then have "find (\<lambda>r. pay_tx_sig r = tx) (map ?f (payments d)) = Some (?f p)"
    unfolding select_payment_by_tx_sig_def by (intro find_map_same_key) simp_all
  then show "\<exists>p'. select_payment_by_tx_sig d' tx = Some p' \<and> pay_consumed_at p' = pay_consumed_at p
              \<and> pay_id p' = pay_id p"
    using assms by (simp add: select_payment_by_tx_sig_def update_payment_confirmed_def)
qed

lemma keeps_consumed:
  assumes d': "payments d' = payments (update_payment_consumed d (pay_id q) now)"
    and q: "select_payment_by_tx_sig d tx' = Some q" "pay_consumed_at q = None"
  shows "map pay_id (payments d') = map pay_id (payments d)"
    and "distinct (map pay_id (payments d)) \<Longrightarrow> select_payment_by_tx_sig d tx = Some p \<Longrightarrow>
         pay_consumed_at p = Some t \<Longrightarrow> select_payment_by_tx_sig d' tx = Some p"
proof -
  let ?f = "\<lambda>r. if pay_id r = pay_id q then r\<lparr> pay_consumed_at := Some now \<rparr> else r"
  show "map pay_id (payments d') = map pay_id (payments d)"
    using d' by (simp add: update_payment_consumed_def)
  assume wf: "distinct (map pay_id (payments d))"
    and p: "select_payment_by_tx_sig d tx = Some p" "pay_consumed_at p = Some t"
  have "p \<in> set (payments d)" "q \<in> set (payments d)"
    using p(1) q(1) by (auto simp: select_payment_by_tx_sig_def dest: find_in_set)
  with wf p(2) q(2) have "pay_id p \<noteq> pay_id q"
    using distinct_ids_eq[of "payments d" p q] by auto
  then have fp: "?f p = p" by simp
  from p(1) have "find (\<lambda>r. pay_tx_sig r = tx) (map ?f (payments d)) = Some (?f p)"
    unfolding select_payment_by_tx_sig_def by (intro find_map_same_key) simp_all
  then show "select_payment_by_tx_sig d' tx = Some p"
    using d' fp by (simp add: select_payment_by_tx_sig_def update_payment_consumed_def)
qed

lemma serve_payments_shape:
  "payments (serve d r) = payments d
   \<or> (\<exists>i. payments (serve d r) = payments (update_payment_confirmed d i))
   \<or> (\<exists>row. pay_id row \<notin> set (map pay_id (payments d))
          \<and> payments (serve d r) = payments d @ [row])
   \<or> (\<exists>q tx now. select_payment_by_tx_sig d tx = Some q \<and> pay_consumed_at q = None
          \<and> payments (serve d r) = payments (update_payment_consumed d (pay_id q) now))"
proof (cases r)
  case (ReqVerify cfg g body pid now)
  then show ?thesis using verify_payments_shape[of cfg g d body pid now] by auto
next
  case (ReqRepos body rid now)
  then show ?thesis using repos_payments_shape[of d body rid now] by auto
next
  case (ReqOtpRequest body rnd now)
  then show ?thesis using otp_request_payments_shape[of d body rnd now] by auto
next
  case (ReqOtpRedeem pick otp now)
  then show ?thesis using redeem_payments[of pick id d otp now] by auto
next
  case (ReqApprove cr body sigId now)
  then show ?thesis by (simp add: approve_payments)
next
  case (ReqSetup body newId pushId now)
  then show ?thesis by (simp add: setup_payments)
qed

lemma serve_keeps_consumed:
  assumes wf: "distinct (map pay_id (payments d))"
    and p: "select_payment_by_tx_sig d tx = Some p" "pay_consumed_at p = Some t"
  shows "distinct (map pay_id (payments (serve d r)))
       \<and> (\<exists>p'. select_payment_by_tx_sig (serve d r) tx = Some p' \<and> pay_consumed_at p' = Some t)"
proof -
  consider (same) "payments (serve d r) = payments d"
    | (confirmed) i where "payments (serve d r) = payments (update_payment_confirmed d i)"
    | (inserted) row where "pay_id row \<notin> set (map pay_id (payments d))"
        "payments (serve d r) = payments d @ [row]"
    | (consumed) q tx' now where "select_payment_by_tx_sig d tx' = Some q" "pay_consumed_at q = None"
        "payments (serve d r) = payments (update_payment_consumed d (pay_id q) now)"
    using serve_payments_shape[of d r] by blast
  then show ?thesis
  proof cases
    case same
    then show ?thesis using wf p by (simp add: select_payment_by_tx_sig_def)
  next
    case confirmed
    from keeps_confirmed[OF confirmed] wf p show ?thesis by fastforce
  next
    case inserted
    then show ?thesis
      using wf p by (auto simp: select_payment_by_tx_sig_def find_append_Some)
  next
    case consumed
    from keeps_consumed[OF consumed(3) consumed(1,2)] wf p show ?thesis by fastforce
  qed
qed

lemma serve_all_keeps_consumed:
  assumes "distinct (map pay_id (payments d))"
    and "select_payment_by_tx_sig d tx = Some p" "pay_consumed_at p = Some t"
  shows "distinct (map pay_id (payments (foldl serve d rs)))
       \<and> (\<exists>p'. select_payment_by_tx_sig (foldl serve d rs) tx = Some p' \<and> pay_consumed_at p' = Some t)"
  using assms
proof (induction rs arbitrary: d p)
  case Nil
  then show ?case by simp
next
  case (Cons r rs)
  from serve_keeps_consumed[OF Cons.prems, of r] obtain p' where
    "distinct (map pay_id (payments (serve d r)))"
    "select_payment_by_tx_sig (serve d r) tx = Some p'" "pay_consumed_at p' = Some t"
    by blast
  from Cons.IH[OF this] show ?case by simp
qed

lemmas ex_defs = ex_db_def ex_payment_def ex_repos_body_def ex_repo_def ex_db_registered_def
  ex_otp_payment_def ex_retry_payment_def ex_db_paid_def ex_otp_body_def ex_otp_random_def
  ex_issued_def ex_ticket_def ex_db_issued_def ex_retry_body_def

lemma ex_expiry: "expiry 8 (Num 2) = Some 120008"
  by (simp add: expiry_def Let_def)

lemma ex_issue:
  "post_otp_request ex_db_paid ex_otp_body ex_otp_random 8 = (Inr ex_issued, ex_db_issued)"
  by (simp add: post_otp_request_def otp_transaction_def lock_payment_def find_repo_def
      select_repo_by_id_def select_payment_by_tx_sig_def insert_otp_token_def
      update_payment_consumed_def nonempty_def Let_def ex_expiry ex_defs)


text \<open>
  C1.  A payment is consumed at most once.  After a \<^verbatim>\<open>POST /repos\<close> that succeeded, the
  payment row of its transaction hash, whose \<open>consumed_at\<close> was null, carries the time of
  the call, and any further \<^verbatim>\<open>POST /repos\<close> with that hash (and a name and an owner) is
  answered \<open>payment_already_consumed\<close> and leaves the database, hence \<open>consumed_at\<close>, as
  it is; the same holds for \<^verbatim>\<open>POST /otp/request\<close>.  And in a database whose payment ids
  are distinct, a \<open>consumed_at\<close> that is set keeps its value through every sequence of
  requests to the six handlers.
\<close>

theorem payment_consumed_once:
  "(post_repos d body1 rid1 now1 = (Inr repo1, d1)
      \<and> nonempty (rb_paymentTxSig body2) = nonempty (rb_paymentTxSig body1)
      \<and> nonempty (rb_name body2) \<noteq> None \<and> nonempty (rb_owner body2) \<noteq> None
    \<longrightarrow> (\<exists>txSig p. nonempty (rb_paymentTxSig body1) = Some txSig
            \<and> select_payment_by_tx_sig d txSig = Some p \<and> pay_consumed_at p = None
            \<and> select_payment_by_tx_sig d1 txSig = Some (p\<lparr> pay_consumed_at := Some now1 \<rparr>))
        \<and> post_repos d1 body2 rid2 now2
            = (Inl (HttpError 400 ''repo_create_failed'' (Some ''payment_already_consumed'')), d1))
   \<and> (post_otp_request d obody1 rnd1 now1 = (Inr issued1, d1)
      \<and> nonempty (ob_paymentTxSig obody2) = nonempty (ob_paymentTxSig obody1)
      \<and> nonempty (ob_bundleTx obody2) \<noteq> None
      \<and> find_repo d1 (ob_repoId obody2) (ob_owner obody2) (ob_name obody2) \<noteq> None
    \<longrightarrow> (\<exists>txSig p. nonempty (ob_paymentTxSig obody1) = Some txSig
            \<and> select_payment_by_tx_sig d txSig = Some p \<and> pay_consumed_at p = None
            \<and> select_payment_by_tx_sig d1 txSig = Some (p\<lparr> pay_consumed_at := Some now1 \<rparr>))
        \<and> post_otp_request d1 obody2 rnd2 now2
            = (Inl (HttpError 400 ''otp_create_failed'' (Some ''payment_already_consumed'')), d1))
   \<and> (distinct (map pay_id (payments d)) \<and> select_payment_by_tx_sig d tx = Some q
      \<and> pay_consumed_at q = Some t
    \<longrightarrow> (\<exists>q'. select_payment_by_tx_sig (foldl serve d rs) tx = Some q'
              \<and> pay_consumed_at q' = Some t))"
proof (intro conjI impI)
  assume a: "post_repos d body1 rid1 now1 = (Inr repo1, d1)
      \<and> nonempty (rb_paymentTxSig body2) = nonempty (rb_paymentTxSig body1)
      \<and> nonempty (rb_name body2) \<noteq> None \<and> nonempty (rb_owner body2) \<noteq> None"
  then obtain name owner txSig where
    tx: "nonempty (rb_paymentTxSig body1) = Some txSig"
    and tr: "repos_transaction d name owner (rb_isPrivate body1) (parseSigners (rb_signers body1))
               (calcThreshold (parseSigners (rb_signers body1)) (unless_NaN (rb_threshold body1))) txSig rid1 now1
             = Inr (repo1, d1)"
    using post_repos_Inr[of d body1 rid1 now1 repo1 d1] by blast
  from repos_transaction_Inr[OF tr] obtain p where
    p: "select_payment_by_tx_sig d txSig = Some p" "pay_purpose p = ''repo_init''"
       "pay_status p = ''confirmed''" "pay_consumed_at p = None"
       "select_payment_by_tx_sig d1 txSig = Some (p\<lparr> pay_consumed_at := Some now1 \<rparr>)"
    by blast
  show "\<exists>txSig p. nonempty (rb_paymentTxSig body1) = Some txSig
            \<and> select_payment_by_tx_sig d txSig = Some p \<and> pay_consumed_at p = None
            \<and> select_payment_by_tx_sig d1 txSig = Some (p\<lparr> pay_consumed_at := Some now1 \<rparr>)"
    using tx p by blast
  show "post_repos d1 body2 rid2 now2
            = (Inl (HttpError 400 ''repo_create_failed'' (Some ''payment_already_consumed'')), d1)"
    using a tx p by (intro post_repos_already_consumed[where p="p\<lparr> pay_consumed_at := Some now1 \<rparr>"
                        and txSig=txSig and t=now1]) simp_all
next
  assume a: "post_otp_request d obody1 rnd1 now1 = (Inr issued1, d1)
      \<and> nonempty (ob_paymentTxSig obody2) = nonempty (ob_paymentTxSig obody1)
      \<and> nonempty (ob_bundleTx obody2) \<noteq> None
      \<and> find_repo d1 (ob_repoId obody2) (ob_owner obody2) (ob_name obody2) \<noteq> None"
  then obtain bundleTx txSig repo where
    tx: "nonempty (ob_paymentTxSig obody1) = Some txSig"
    and tr: "otp_transaction d repo bundleTx txSig (ob_decryptKey obody1)
               (ob_expiresInMinutes obody1) rnd1 now1 = Inr (issued1, d1)"
    using post_otp_request_Inr[of d obody1 rnd1 now1 issued1 d1] by blast
  from otp_transaction_Inr[OF tr] obtain p where
    p: "select_payment_by_tx_sig d txSig = Some p" "pay_purpose p = ''otp_share''"
       "pay_status p = ''confirmed''" "pay_consumed_at p = None"
       "select_payment_by_tx_sig d1 txSig = Some (p\<lparr> pay_consumed_at := Some now1 \<rparr>)"
    by blast
  show "\<exists>txSig p. nonempty (ob_paymentTxSig obody1) = Some txSig
            \<and> select_payment_by_tx_sig d txSig = Some p \<and> pay_consumed_at p = None
            \<and> select_payment_by_tx_sig d1 txSig = Some (p\<lparr> pay_consumed_at := Some now1 \<rparr>)"
    using tx p by blast
  show "post_otp_request d1 obody2 rnd2 now2
            = (Inl (HttpError 400 ''otp_create_failed'' (Some ''payment_already_consumed'')), d1)"
    using a tx p by (intro post_otp_request_already_consumed[where
                        p="p\<lparr> pay_consumed_at := Some now1 \<rparr>" and txSig=txSig and t=now1]) simp_all
next
  assume "distinct (map pay_id (payments d)) \<and> select_payment_by_tx_sig d tx = Some q
      \<and> pay_consumed_at q = Some t"
  then show "\<exists>q'. select_payment_by_tx_sig (foldl serve d rs) tx = Some q'
              \<and> pay_consumed_at q' = Some t"
    using serve_all_keeps_consumed[of d tx q t rs] by blast
qed


lemma ex_select_tx1:
  "select_payment_by_tx_sig ex_db_issued ''tx1'' = Some (ex_payment\<lparr> pay_consumed_at := Some 5 \<rparr>)"
  by (simp add: select_payment_by_tx_sig_def ex_db_issued_def ex_payment_def)

lemma ex_ids_distinct: "distinct (map pay_id (payments ex_db_issued))"
  by (simp add: ex_db_issued_def ex_payment_def ex_otp_payment_def ex_retry_payment_def)

theorem payment_consumed_once_witness:
  "post_repos ex_db ex_repos_body ''r1'' 5 = (Inr ex_repo, ex_db_registered)
   \<and> nonempty (rb_name ex_repos_body) \<noteq> None \<and> nonempty (rb_owner ex_repos_body) \<noteq> None
   \<and> post_repos ex_db_registered ex_repos_body ''r2'' 9
       = (Inl (HttpError 400 ''repo_create_failed'' (Some ''payment_already_consumed'')),
          ex_db_registered)
   \<and> post_otp_request ex_db_paid ex_otp_body ex_otp_random 8 = (Inr ex_issued, ex_db_issued)
   \<and> nonempty (ob_bundleTx ex_otp_body) \<noteq> None
   \<and> find_repo ex_db_issued (ob_repoId ex_otp_body) (ob_owner ex_otp_body) (ob_name ex_otp_body)
       \<noteq> None
   \<and> post_otp_request ex_db_issued ex_otp_body ex_otp_random 9
       = (Inl (HttpError 400 ''otp_create_failed'' (Some ''payment_already_consumed'')),
          ex_db_issued)
   \<and> distinct (map pay_id (payments ex_db_issued))
   \<and> select_payment_by_tx_sig ex_db_issued ''tx1''
       = Some (ex_payment\<lparr> pay_consumed_at := Some 5 \<rparr>)
   \<and> pay_consumed_at (ex_payment\<lparr> pay_consumed_at := Some 5 \<rparr>) = Some 5
   \<and> (\<exists>q'. select_payment_by_tx_sig
               (foldl serve ex_db_issued
                  [ReqRepos ex_repos_body ''r2'' 9, ReqOtpRequest ex_otp_body ex_otp_random 9,
                   ReqVerify ex_cfg ex_ledger ex_verify_body ''p4'' 9])
               ''tx1'' = Some q'
           \<and> pay_consumed_at q' = Some 5)"
proof -
  have r: "nonempty (rb_name ex_repos_body) \<noteq> None" "nonempty (rb_owner ex_repos_body) \<noteq> None"
    by (simp_all add: ex_repos_body_def nonempty_def)
  have o: "nonempty (ob_bundleTx ex_otp_body) \<noteq> None"
    "find_repo ex_db_issued (ob_repoId ex_otp_body) (ob_owner ex_otp_body) (ob_name ex_otp_body)
       \<noteq> None"
    by (simp_all add: ex_otp_body_def nonempty_def find_repo_def select_repo_by_id_def
        ex_db_issued_def ex_db_paid_def ex_db_registered_def ex_repo_def)
  have c: "pay_consumed_at (ex_payment\<lparr> pay_consumed_at := Some 5 \<rparr>) = Some 5"
    by simp
  note first = payment_consumed_once[where d=ex_db and ?body1.0=ex_repos_body and ?rid1.0="''r1''"
      and ?now1.0=5 and ?repo1.0=ex_repo and ?d1.0=ex_db_registered and ?body2.0=ex_repos_body
      and ?rid2.0="''r2''" and ?now2.0=9, THEN conjunct1]
  note second = payment_consumed_once[where d=ex_db_paid and ?obody1.0=ex_otp_body
      and ?rnd1.0=ex_otp_random and ?now1.0=8 and ?issued1.0=ex_issued and ?d1.0=ex_db_issued
      and ?obody2.0=ex_otp_body and ?rnd2.0=ex_otp_random and ?now2.0=9,
      THEN conjunct2, THEN conjunct1]
  note third = payment_consumed_once[where d=ex_db_issued and tx="''tx1''"
      and q="ex_payment\<lparr> pay_consumed_at := Some 5 \<rparr>" and t=5
      and rs="[ReqRepos ex_repos_body ''r2'' 9, ReqOtpRequest ex_otp_body ex_otp_random 9,
               ReqVerify ex_cfg ex_ledger ex_verify_body ''p4'' 9]",
      THEN conjunct2, THEN conjunct2]
  show ?thesis
    using first second third ex_register ex_issue r o c ex_select_tx1 ex_ids_distinct
    by blast
qed

lemma post_repos_collision:
  assumes "nonempty (rb_name body) = Some name" "nonempty (rb_owner body) = Some owner"
    and "nonempty (rb_paymentTxSig body) = Some txSig"
    and "select_payment_by_tx_sig d txSig = Some p" "pay_purpose p = ''repo_init''"
        "pay_status p = ''confirmed''" "pay_consumed_at p = None"
    and "\<exists>r \<in> set (repos d). repo_owner r = trim owner \<and> repo_name r = trim name"
  shows "post_repos d body rid now =
           (Inl (HttpError 400 ''repo_create_failed''
                  (Some (case int4_param (calcThreshold (parseSigners (rb_signers body))
                                            (unless_NaN (rb_threshold body))) of
                           Inl e \<Rightarrow> exn_message e | Inr t \<Rightarrow> ''repo_exists''))), d)"
proof -
  have l: "lock_payment d txSig ''repo_init'' = Inr p"
    using assms by (simp add: lock_payment_Inr)
  have i: "insert_repo_on_conflict_do_nothing d
             \<lparr> repo_id = rid, repo_name = trim name, repo_owner = trim owner,
               repo_is_private = priv, repo_is_multisig = ms, repo_threshold = thr,
               repo_signers = sl, repo_payment_tx = Some txSig, repo_created_at = now \<rparr>
           = Inr (None, d)" for priv ms thr sl
    using assms(8) by (simp add: insert_repo_on_conflict_do_nothing_def)
  show ?thesis
    using assms(1-3)
    by (simp add: post_repos_def repos_transaction_def l i Let_def split: sum.splits)
qed

text \<open>
  C2.  \<^verbatim>\<open>POST /repos\<close> either fails and leaves the database as it was, or succeeds, and
  then the repository row with the payment's hash is in the table and the payment row, whose
  \<open>consumed_at\<close> was null, carries the time of the call.  In particular, when the payment
  is usable and a repository with the same owner and name exists, the call is answered
  \<open>repo_exists\<close> (or, when the computed threshold is no value of the \<^verbatim>\<open>INTEGER\<close> column, with
  the store's message for that) and the database, with the payment's null \<open>consumed_at\<close>,
  is unchanged.
\<close>

theorem register_rollback:
  "(post_repos d body rid now = (res, d') \<longrightarrow>
       (\<exists>e. res = Inl e \<and> d' = d)
     \<or> (\<exists>row txSig p. res = Inr row \<and> nonempty (rb_paymentTxSig body) = Some txSig
          \<and> repos d' = repos d @ [row] \<and> repo_payment_tx row = Some txSig
          \<and> select_payment_by_tx_sig d txSig = Some p \<and> pay_consumed_at p = None
          \<and> select_payment_by_tx_sig d' txSig = Some (p\<lparr> pay_consumed_at := Some now \<rparr>)))
   \<and> (nonempty (rb_name body) = Some name \<and> nonempty (rb_owner body) = Some owner
      \<and> nonempty (rb_paymentTxSig body) = Some txSig
      \<and> select_payment_by_tx_sig d txSig = Some p \<and> pay_purpose p = ''repo_init''
      \<and> pay_status p = ''confirmed'' \<and> pay_consumed_at p = None
      \<and> (\<exists>r \<in> set (repos d). repo_owner r = trim owner \<and> repo_name r = trim name)
    \<longrightarrow> post_repos d body rid now
          = (Inl (HttpError 400 ''repo_create_failed''
                   (Some (case int4_param (calcThreshold (parseSigners (rb_signers body))
                                             (unless_NaN (rb_threshold body))) of
                            Inl e \<Rightarrow> exn_message e | Inr t \<Rightarrow> ''repo_exists''))), d))"
proof (intro conjI impI)
  assume a: "post_repos d body rid now = (res, d')"
  show "(\<exists>e. res = Inl e \<and> d' = d)
     \<or> (\<exists>row txSig p. res = Inr row \<and> nonempty (rb_paymentTxSig body) = Some txSig
          \<and> repos d' = repos d @ [row] \<and> repo_payment_tx row = Some txSig
          \<and> select_payment_by_tx_sig d txSig = Some p \<and> pay_consumed_at p = None
          \<and> select_payment_by_tx_sig d' txSig = Some (p\<lparr> pay_consumed_at := Some now \<rparr>))"
  proof (cases res)
    case (Inl e)
    with a post_repos_Inl[of d body rid now e d'] show ?thesis by simp
  next
    case (Inr row)
    with a post_repos_Inr[of d body rid now row d'] obtain name owner txSig where
      tx: "nonempty (rb_paymentTxSig body) = Some txSig"
      and tr: "repos_transaction d name owner (rb_isPrivate body) (parseSigners (rb_signers body))
               (calcThreshold (parseSigners (rb_signers body)) (unless_NaN (rb_threshold body))) txSig rid now
             = Inr (row, d')"
      by blast
    from repos_transaction_Inr[OF tr] tx Inr show ?thesis by blast
  qed
next
  assume "nonempty (rb_name body) = Some name \<and> nonempty (rb_owner body) = Some owner
      \<and> nonempty (rb_paymentTxSig body) = Some txSig
      \<and> select_payment_by_tx_sig d txSig = Some p \<and> pay_purpose p = ''repo_init''
      \<and> pay_status p = ''confirmed'' \<and> pay_consumed_at p = None
      \<and> (\<exists>r \<in> set (repos d). repo_owner r = trim owner \<and> repo_name r = trim name)"
  then show "post_repos d body rid now
          = (Inl (HttpError 400 ''repo_create_failed''
                   (Some (case int4_param (calcThreshold (parseSigners (rb_signers body))
                                             (unless_NaN (rb_threshold body))) of
                            Inl e \<Rightarrow> exn_message e | Inr t \<Rightarrow> ''repo_exists''))), d)"
    using post_repos_collision[of body name owner txSig d p rid now] by blast
qed

theorem register_rollback_witness:
  "nonempty (rb_name ex_retry_body) = Some ''acme'' \<and> nonempty (rb_owner ex_retry_body) = Some ''alice''
   \<and> nonempty (rb_paymentTxSig ex_retry_body) = Some ''tx3''
   \<and> select_payment_by_tx_sig ex_db_paid ''tx3'' = Some ex_retry_payment
   \<and> pay_purpose ex_retry_payment = ''repo_init'' \<and> pay_status ex_retry_payment = ''confirmed''
   \<and> pay_consumed_at ex_retry_payment = None
   \<and> ex_repo \<in> set (repos ex_db_paid)
   \<and> repo_owner ex_repo = trim ''alice'' \<and> repo_name ex_repo = trim ''acme''
   \<and> post_repos ex_db_paid ex_retry_body ''r2'' 9
        = (Inl (HttpError 400 ''repo_create_failed'' (Some ''repo_exists'')), ex_db_paid)
   \<and> post_repos ex_db ex_repos_body ''r1'' 5 = (Inr ex_repo, ex_db_registered)
   \<and> (\<exists>txSig p. nonempty (rb_paymentTxSig ex_repos_body) = Some txSig
          \<and> repos ex_db_registered = repos ex_db @ [ex_repo]
          \<and> repo_payment_tx ex_repo = Some txSig
          \<and> select_payment_by_tx_sig ex_db txSig = Some p \<and> pay_consumed_at p = None
          \<and> select_payment_by_tx_sig ex_db_registered txSig
              = Some (p\<lparr> pay_consumed_at := Some 5 \<rparr>))"
proof -
  have b: "nonempty (rb_name ex_retry_body) = Some ''acme''"
    "nonempty (rb_owner ex_retry_body) = Some ''alice''"
    "nonempty (rb_paymentTxSig ex_retry_body) = Some ''tx3''"
    by (simp_all add: ex_retry_body_def ex_repos_body_def nonempty_def)
  have s: "select_payment_by_tx_sig ex_db_paid ''tx3'' = Some ex_retry_payment"
    by (simp add: select_payment_by_tx_sig_def ex_db_paid_def ex_db_registered_def ex_payment_def
        ex_otp_payment_def ex_retry_payment_def)
  have p: "pay_purpose ex_retry_payment = ''repo_init''" "pay_status ex_retry_payment = ''confirmed''"
    "pay_consumed_at ex_retry_payment = None"
    by (simp_all add: ex_retry_payment_def)
  have e: "ex_repo \<in> set (repos ex_db_paid)"
    "repo_owner ex_repo = trim ''alice''" "repo_name ex_repo = trim ''acme''"
    by (simp_all add: ex_db_paid_def ex_db_registered_def ex_repo_def)
  have x: "\<exists>r \<in> set (repos ex_db_paid). repo_owner r = trim ''alice'' \<and> repo_name r = trim ''acme''"
    using e by blast
  have t: "int4_param (calcThreshold (parseSigners (rb_signers ex_retry_body))
                         (unless_NaN (rb_threshold ex_retry_body))) = Inr (Some 2)"
    by (simp add: ex_retry_body_def ex_repos_body_def ex_threshold)
  show ?thesis
    using register_rollback[where d=ex_db_paid and body=ex_retry_body and rid="''r2''" and now=9
        and name="''acme''" and owner="''alice''" and txSig="''tx3''" and p=ex_retry_payment,
        THEN conjunct2, unfolded t sum.case]
      register_rollback[where d=ex_db and body=ex_repos_body and rid="''r1''" and now=5
        and res="Inr ex_repo" and d'=ex_db_registered, THEN conjunct1]
      ex_register b s p e x
    by blast
qed

subsection \<open>Multisig setup and its payment\<close>

lemmas ex_setup_defs = ex_setup_payment_def ex_db_setup_def ex_setup_body_def ex_setup_body2_def
  ex_setup_repo_def ex_push_def ex_db_setup1_def ex_db_setup2_def ex_setup_reply_def ex_db_empty_def

lemma ex_setup_first:
  "post_multisig_setup ex_db_setup ex_setup_body ''r1'' ''m1'' 11 = (Inr ex_setup_reply, ex_db_setup1)"
  by (simp add: post_multisig_setup_def setup_finish_def ensureMultisigEntry_def setup_reply_def
      select_payment_by_tx_sig_def select_repo_by_id_def getRepoByOwnerAndName_def insert_repo_def
      insert_push_on_conflict_do_nothing_def select_push_def calcThreshold_def nonempty_def
      unless_NaN_def int4_param_def int4_value_def Let_def ex_setup_defs)

lemma ex_setup_second:
  "post_multisig_setup ex_db_setup1 ex_setup_body2 ''r2'' ''m2'' 12 = (Inr ex_setup_reply, ex_db_setup2)"
  by (simp add: post_multisig_setup_def setup_finish_def ensureMultisigEntry_def setup_reply_def
      select_payment_by_tx_sig_def select_repo_by_id_def getRepoByOwnerAndName_def
      update_repo_multisig_def
      insert_push_on_conflict_do_nothing_def select_push_def calcThreshold_def nonempty_def
      unless_NaN_def int4_param_def int4_value_def Let_def ex_setup_defs)

text \<open>
  C3, evaluated where it fails.  \<^verbatim>\<open>POST /multisig/setup\<close> checks that the payment exists,
  has the purpose \<open>multisig_setup\<close> and is confirmed; it does not test \<open>consumed_at\<close> and
  never writes the payments table (\<open>setup_payments\<close>).  Two setup calls that name the
  payment \<open>tx5\<close> both succeed, each registers an approval request, and the payment's
  \<open>consumed_at\<close> is still null afterwards.
\<close>

theorem setup_reuses_payment:
  "post_multisig_setup ex_db_setup ex_setup_body ''r1'' ''m1'' 11 = (Inr ex_setup_reply, ex_db_setup1)
   \<and> post_multisig_setup ex_db_setup1 ex_setup_body2 ''r2'' ''m2'' 12
       = (Inr ex_setup_reply, ex_db_setup2)
   \<and> sb_paymentTxSig ex_setup_body2 = sb_paymentTxSig ex_setup_body
   \<and> select_payment_by_tx_sig ex_db_setup2 ''tx5'' = Some ex_setup_payment
   \<and> pay_consumed_at ex_setup_payment = None
   \<and> length (multisig_pushes ex_db_setup2) = 2"
  using ex_setup_first ex_setup_second
  by (simp add: select_payment_by_tx_sig_def ex_setup_defs)

subsection \<open>Redeeming a ticket\<close>

lemma find_map_fixes:
  assumes "find P xs = Some x" and "\<And>r. P (f r) = P r" and "f x = y"
  shows "find P (map f xs) = Some y"
  using assms by (induction xs) (auto split: if_splits)

lemma select_otp_None:
  "select_otp_by_plain pick d token = None \<longleftrightarrow> (\<forall>r \<in> set (otp_tokens d). otp_plain r \<noteq> token)"
proof -
  have "select_otp_by_plain pick d token = None
          \<longleftrightarrow> filter (\<lambda>r. otp_plain r = token) (otp_tokens d) = []"
    by (simp add: select_otp_by_plain_def split: list.splits)
  then show ?thesis by (simp add: filter_empty_conv)
qed

lemma select_otp_Some:
  assumes "select_otp_by_plain pick d token = Some row"
  shows "row \<in> set (otp_tokens d) \<and> otp_plain row = token"
proof -
  let ?ms = "filter (\<lambda>r. otp_plain r = token) (otp_tokens d)"
  from assms have ne: "?ms \<noteq> []" and row: "row = ?ms ! (pick ?ms mod length ?ms)"
    by (auto simp: select_otp_by_plain_def split: list.splits)
  from ne have "pick ?ms mod length ?ms < length ?ms" by simp
  then have "row \<in> set ?ms" unfolding row by (rule nth_mem)
  then show ?thesis by simp
qed

lemma select_otp_single:
  assumes "filter (\<lambda>r. otp_plain r = token) (otp_tokens d) = [row]"
  shows "select_otp_by_plain pick d token = Some row"
  by (simp add: select_otp_by_plain_def assms)

lemma filter_at_most_one:
  assumes "length (filter P xs) \<le> 1" "u \<in> set xs" "P u"
  shows "filter P xs = [u]"
proof -
  from assms(2,3) have "u \<in> set (filter P xs)" by simp
  with assms(1) show ?thesis
    by (cases "filter P xs") (auto simp del: set_filter filter_set)
qed

lemma redeem_rowcount:
  assumes "row \<in> set (otp_tokens d)" "otp_used_at row = None"
  shows "fst (update_otp_used_if_null d (otp_id row) now) \<noteq> 0"
  using assms by (auto simp: update_otp_used_if_null_def filter_empty_conv)

lemma redeem_update_member:
  assumes "row \<in> set (otp_tokens d)" "otp_used_at row = None"
  shows "row\<lparr> otp_used_at := Some now \<rparr>
           \<in> set (otp_tokens (snd (update_otp_used_if_null d (otp_id row) now)))"
  using assms by (force simp: update_otp_used_if_null_def)

lemma redeem_update_keeps:
  assumes "r \<in> set (otp_tokens d)" "otp_used_at r \<noteq> None"
  shows "r \<in> set (otp_tokens (snd (update_otp_used_if_null d i now)))"
  using assms by (force simp: update_otp_used_if_null_def)

lemma redeem_update_plain:
  "map otp_plain (otp_tokens (snd (update_otp_used_if_null d i now))) = map otp_plain (otp_tokens d)"
  by (simp add: update_otp_used_if_null_def comp_def cong: map_cong)

lemma redeem_update_twice:
  "fst (update_otp_used_if_null (snd (update_otp_used_if_null d i now0)) i now) = 0"
  by (auto simp: update_otp_used_if_null_def filter_empty_conv)

lemma redeem_update_idem:
  "snd (update_otp_used_if_null (snd (update_otp_used_if_null d i now0)) i now)
     = snd (update_otp_used_if_null d i now0)"
  by (simp add: update_otp_used_if_null_def comp_def cong: map_cong)

lemma redeem_result:
  assumes "nonempty otp = Some token"
  shows "post_otp_redeem pick id d otp now =
        (case select_otp_by_plain pick d token of
           None \<Rightarrow> (Inl (HttpError 404 ''otp_not_found'' None), d)
         | Some row \<Rightarrow>
             if otp_used_at row \<noteq> None then (Inl (HttpError 410 ''otp_already_used'' None), d)
             else if (\<exists>e. otp_expires_at row = Some e \<and> e < now)
             then (Inl (HttpError 410 ''otp_expired'' None), d)
             else (Inr \<lparr> or_repoId = otp_repo_id row, or_bundleTx = otp_bundle_tx row,
                        or_decryptKey = otp_decrypt_key row \<rparr>,
                   snd (update_otp_used_if_null d (otp_id row) now)))"
proof (cases "select_otp_by_plain pick d token")
  case None
  then show ?thesis using assms by (simp add: post_otp_redeem_def)
next
  case (Some row)
  show ?thesis
  proof (cases "otp_used_at row = None \<and> \<not> (\<exists>e. otp_expires_at row = Some e \<and> e < now)")
    case True
    then have live: "otp_used_at row = None" by simp
    from select_otp_Some[OF Some] have "row \<in> set (otp_tokens d)" by simp
    from redeem_rowcount[OF this live, of now] obtain n d' where
      u: "update_otp_used_if_null d (otp_id row) now = (n, d')" "n \<noteq> 0"
      by (cases "update_otp_used_if_null d (otp_id row) now") auto
    show ?thesis
      using assms Some True u
      by (auto simp: post_otp_redeem_def split: option.splits)
  next
    case False
    then show ?thesis
      using assms Some by (auto simp: post_otp_redeem_def split: option.splits)
  qed
qed

lemma redeem_Inr:
  assumes "post_otp_redeem pick id d otp now = (Inr ok, d')"
  shows "\<exists>token row. nonempty otp = Some token \<and> select_otp_by_plain pick d token = Some row
          \<and> otp_used_at row = None \<and> \<not> (\<exists>e. otp_expires_at row = Some e \<and> e < now)
          \<and> ok = \<lparr> or_repoId = otp_repo_id row, or_bundleTx = otp_bundle_tx row,
                    or_decryptKey = otp_decrypt_key row \<rparr>
          \<and> d' = snd (update_otp_used_if_null d (otp_id row) now)"
proof -
  from assms obtain token where t: "nonempty otp = Some token"
    by (auto simp: post_otp_redeem_def split: option.splits)
  from assms redeem_result[OF t, of pick d now] show ?thesis
    using t by (auto split: option.splits if_splits)
qed

lemma redeem_used:
  assumes "nonempty otp = Some token" "select_otp_by_plain pick d token = Some row"
    "otp_used_at row \<noteq> None"
  shows "post_otp_redeem pick others d otp now = (Inl (HttpError 410 ''otp_already_used'' None), d)"
  using assms by (simp add: post_otp_redeem_def)

text \<open>How one request changes the ticket table.\<close>

lemma redeem_tokens_shape:
  "otp_tokens (snd (post_otp_redeem pick id d otp now)) = otp_tokens d
   \<or> (\<exists>i. otp_tokens (snd (post_otp_redeem pick id d otp now))
            = otp_tokens (snd (update_otp_used_if_null d i now)))"
proof (cases "nonempty otp")
  case None
  then show ?thesis by (simp add: post_otp_redeem_def)
next
  case (Some token)
  show ?thesis
    unfolding redeem_result[OF Some] by (auto split: option.splits)
qed

lemma verify_tokens: "otp_tokens (snd (post_payments_verify cfg g id d body pid now)) = otp_tokens d"
  by (auto simp: post_payments_verify_def Let_def insert_payment_def update_payment_confirmed_def
      split: option.splits sum.splits if_splits)

lemma repos_tokens: "otp_tokens (snd (post_repos d body rid now)) = otp_tokens d"
proof (cases "post_repos d body rid now")
  case (Pair res d')
  show ?thesis
  proof (cases res)
    case (Inl e)
    with Pair show ?thesis using post_repos_Inl[of d body rid now e d'] by simp
  next
    case (Inr row)
    with Pair post_repos_Inr[of d body rid now row d'] repos_transaction_Inr
    show ?thesis by (metis snd_conv)
  qed
qed

lemma otp_request_tokens_shape:
  "otp_tokens (snd (post_otp_request d body rnd now)) = otp_tokens d
   \<or> (\<exists>row. otp_tokens (snd (post_otp_request d body rnd now)) = otp_tokens d @ [row])"
proof (cases "post_otp_request d body rnd now")
  case (Pair res d')
  show ?thesis
  proof (cases res)
    case (Inl e)
    with Pair show ?thesis using post_otp_request_Inl[of d body rnd now e d'] by simp
  next
    case (Inr issued)
    with Pair post_otp_request_Inr[of d body rnd now issued d'] otp_transaction_Inr
    show ?thesis by (metis snd_conv)
  qed
qed

lemma approve_tokens: "otp_tokens (snd (post_multisig_approve cr d body sigId now)) = otp_tokens d"
  by (auto simp: post_multisig_approve_def approve_transaction_def insert_signature_translated_def
      insert_signature_def update_push_approved_def update_push_count_def Let_def
      split: option.splits sum.splits)

lemma ensureMultisigEntry_tokens:
  "ensureMultisigEntry d repo pushTx branch pid now = Inr (e, d') \<Longrightarrow> otp_tokens d' = otp_tokens d"
  by (auto simp: ensureMultisigEntry_def insert_push_on_conflict_do_nothing_def
      split: option.splits sum.splits if_splits)

lemma setup_finish_tokens: "otp_tokens (snd (setup_finish d repo pushTx pushId now)) = otp_tokens d"
  by (auto simp: setup_finish_def dest: ensureMultisigEntry_tokens split: sum.splits)

lemma setup_tokens: "otp_tokens (snd (post_multisig_setup d body newId pushId now)) = otp_tokens d"
  by (auto simp: post_multisig_setup_def Let_def setup_finish_tokens insert_repo_def
      update_repo_multisig_def split: option.splits sum.splits if_splits)

lemma serve_tokens_shape:
  "otp_tokens (serve d r) = otp_tokens d
   \<or> (\<exists>row. otp_tokens (serve d r) = otp_tokens d @ [row])
   \<or> (\<exists>i now. otp_tokens (serve d r) = otp_tokens (snd (update_otp_used_if_null d i now)))"
proof (cases r)
  case (ReqVerify cfg g body pid now)
  then show ?thesis by (simp add: verify_tokens)
next
  case (ReqRepos body rid now)
  then show ?thesis by (simp add: repos_tokens)
next
  case (ReqOtpRequest body rnd now)
  then show ?thesis using otp_request_tokens_shape[of d body rnd now] by auto
next
  case (ReqOtpRedeem pick otp now)
  then show ?thesis using redeem_tokens_shape[of pick d otp now] by auto
next
  case (ReqApprove cr body sigId now)
  then show ?thesis by (simp add: approve_tokens)
next
  case (ReqSetup body newId pushId now)
  then show ?thesis by (simp add: setup_tokens)
qed

lemma serve_keeps_used:
  assumes "r \<in> set (otp_tokens d)" "otp_used_at r \<noteq> None"
  shows "r \<in> set (otp_tokens (serve d req))"
proof -
  consider (same) "otp_tokens (serve d req) = otp_tokens d"
    | (issued) new where "otp_tokens (serve d req) = otp_tokens d @ [new]"
    | (redeemed) i now where
        "otp_tokens (serve d req) = otp_tokens (snd (update_otp_used_if_null d i now))"
    using serve_tokens_shape[of d req] by blast
  then show ?thesis
  proof cases
    case same
    then show ?thesis using assms(1) by simp
  next
    case issued
    then show ?thesis using assms(1) by simp
  next
    case redeemed
    then show ?thesis using redeem_update_keeps[OF assms, of i now] by simp
  qed
qed

lemma serve_all_keeps_used:
  assumes "r \<in> set (otp_tokens d)" "otp_used_at r \<noteq> None"
  shows "r \<in> set (otp_tokens (foldl serve d rs))"
  using assms
proof (induction rs arbitrary: d)
  case Nil
  then show ?case by simp
next
  case (Cons req rs)
  from Cons.IH[OF serve_keeps_used[OF Cons.prems, of req] Cons.prems(2)] show ?case by simp
qed

lemma redeem_later:
  assumes win: "post_otp_redeem pick id d otp now = (Inr ok, d')"
    and tok: "nonempty otp = Some token"
    and one: "length (filter (\<lambda>r. otp_plain r = token) (otp_tokens (foldl serve d' rs))) \<le> 1"
  shows "post_otp_redeem pick' id (foldl serve d' rs) otp now'
           = (Inl (HttpError 410 ''otp_already_used'' None), foldl serve d' rs)"
proof -
  from redeem_Inr[OF win] tok obtain row where
    r: "select_otp_by_plain pick d token = Some row" "otp_used_at row = None"
       "d' = snd (update_otp_used_if_null d (otp_id row) now)"
    by auto
  from select_otp_Some[OF r(1)] have m: "row \<in> set (otp_tokens d)" "otp_plain row = token"
    by simp_all
  let ?u = "row\<lparr> otp_used_at := Some now \<rparr>"
  have u: "otp_used_at ?u \<noteq> None" "otp_plain ?u = token"
    using m(2) by simp_all
  have "?u \<in> set (otp_tokens d')"
    unfolding r(3) by (rule redeem_update_member[OF m(1) r(2)])
  then have "?u \<in> set (otp_tokens (foldl serve d' rs))"
    by (rule serve_all_keeps_used[OF _ u(1)])
  from filter_at_most_one[OF one this u(2)]
  have "select_otp_by_plain pick' (foldl serve d' rs) token = Some ?u"
    by (rule select_otp_single)
  from redeem_used[OF tok this u(1)] show ?thesis .
qed

lemma redeem_race:
  assumes win: "post_otp_redeem pick0 id d otp now0 = (Inr ok, d0)"
    and tok: "nonempty otp = Some token"
    and one: "length (filter (\<lambda>r. otp_plain r = token) (otp_tokens d)) \<le> 1"
    and row: "select_otp_by_plain pick d token = Some row"
    and live: "\<not> (\<exists>e. otp_expires_at row = Some e \<and> e < now)"
  shows "post_otp_redeem pick (\<lambda>x. snd (post_otp_redeem pick0 id x otp now0)) d otp now
           = (Inl (HttpError 410 ''otp_already_used'' None), d0)"
proof -
  from redeem_Inr[OF win] tok obtain row0 where
    w: "select_otp_by_plain pick0 d token = Some row0" "otp_used_at row0 = None"
       "d0 = snd (update_otp_used_if_null d (otp_id row0) now0)"
    by auto
  have "[row0] = [row]"
    using filter_at_most_one[OF one] select_otp_Some[OF w(1)] select_otp_Some[OF row]
    by metis
  then have same: "row0 = row" by simp
  have u: "otp_used_at row = None" and d0: "d0 = snd (update_otp_used_if_null d (otp_id row) now0)"
    using w same by simp_all
  have o: "(\<lambda>x. snd (post_otp_redeem pick0 id x otp now0)) d = d0"
    using win by simp
  have c: "update_otp_used_if_null d0 (otp_id row) now = (0, d0)"
    using redeem_update_twice[of d "otp_id row" now0 now]
      redeem_update_idem[of d "otp_id row" now0 now]
    unfolding d0 by (metis prod.collapse)
  have e: "(case otp_expires_at row of None \<Rightarrow> False | Some expiresAt \<Rightarrow> expiresAt < now) = False"
    using live by (auto split: option.splits)
  show ?thesis
    unfolding post_otp_redeem_def[of pick "\<lambda>x. snd (post_otp_redeem pick0 id x otp now0)"] o
    using tok row u e c by simp
qed

text \<open>
  C7, as the code has it.  \<^verbatim>\<open>POST /otp/redeem\<close> with a token answers 404
  \<open>otp_not_found\<close> exactly when no ticket has the token.  Otherwise the store returns one
  of the tickets that have it, and the handler answers 410 \<open>otp_already_used\<close> when that
  ticket's \<open>used_at\<close> is set, 410 \<open>otp_expired\<close> when its expiry lies before the current
  time, and otherwise returns its repo id, bundle reference and key and sets \<open>used_at\<close> by
  the conditional update.  When at most one ticket has the token (the schema does not
  require it), a redemption that succeeded is the only one: every later redemption of the
  token, after any sequence of requests, is answered \<open>otp_already_used\<close>, and so is a
  redemption whose read precedes, and whose conditional update follows, another
  redemption that succeeds.
\<close>

theorem redeem_once:
  "(nonempty otp = Some token \<longrightarrow>
      post_otp_redeem pick id d otp now =
        (case select_otp_by_plain pick d token of
           None \<Rightarrow> (Inl (HttpError 404 ''otp_not_found'' None), d)
         | Some row \<Rightarrow>
             if otp_used_at row \<noteq> None then (Inl (HttpError 410 ''otp_already_used'' None), d)
             else if (\<exists>e. otp_expires_at row = Some e \<and> e < now)
             then (Inl (HttpError 410 ''otp_expired'' None), d)
             else (Inr \<lparr> or_repoId = otp_repo_id row, or_bundleTx = otp_bundle_tx row,
                        or_decryptKey = otp_decrypt_key row \<rparr>,
                   snd (update_otp_used_if_null d (otp_id row) now)))
      \<and> (select_otp_by_plain pick d token = None
           \<longleftrightarrow> (\<forall>r \<in> set (otp_tokens d). otp_plain r \<noteq> token))
      \<and> (\<forall>row. select_otp_by_plain pick d token = Some row
             \<longrightarrow> row \<in> set (otp_tokens d) \<and> otp_plain row = token))
   \<and> (post_otp_redeem pick id d otp now = (Inr ok, d') \<and> nonempty otp = Some token
        \<and> length (filter (\<lambda>r. otp_plain r = token) (otp_tokens (foldl serve d' rs))) \<le> 1
      \<longrightarrow> post_otp_redeem pick' id (foldl serve d' rs) otp now'
            = (Inl (HttpError 410 ''otp_already_used'' None), foldl serve d' rs))
   \<and> (post_otp_redeem pick0 id d otp now0 = (Inr ok0, d0) \<and> nonempty otp = Some token
        \<and> length (filter (\<lambda>r. otp_plain r = token) (otp_tokens d)) \<le> 1
        \<and> select_otp_by_plain pick d token = Some row0
        \<and> \<not> (\<exists>e. otp_expires_at row0 = Some e \<and> e < now)
      \<longrightarrow> post_otp_redeem pick (\<lambda>x. snd (post_otp_redeem pick0 id x otp now0)) d otp now
            = (Inl (HttpError 410 ''otp_already_used'' None), d0))"
proof (intro conjI impI allI)
  assume "nonempty otp = Some token"
  then show "post_otp_redeem pick id d otp now =
        (case select_otp_by_plain pick d token of
           None \<Rightarrow> (Inl (HttpError 404 ''otp_not_found'' None), d)
         | Some row \<Rightarrow>
             if otp_used_at row \<noteq> None then (Inl (HttpError 410 ''otp_already_used'' None), d)
             else if (\<exists>e. otp_expires_at row = Some e \<and> e < now)
             then (Inl (HttpError 410 ''otp_expired'' None), d)
             else (Inr \<lparr> or_repoId = otp_repo_id row, or_bundleTx = otp_bundle_tx row,
                        or_decryptKey = otp_decrypt_key row \<rparr>,
                   snd (update_otp_used_if_null d (otp_id row) now)))"
    by (rule redeem_result)
next
  show "select_otp_by_plain pick d token = None
           \<longleftrightarrow> (\<forall>r \<in> set (otp_tokens d). otp_plain r \<noteq> token)"
    by (rule select_otp_None)
next
  fix row assume "select_otp_by_plain pick d token = Some row"
  then show "row \<in> set (otp_tokens d)" "otp_plain row = token"
    using select_otp_Some by blast+
next
  assume "post_otp_redeem pick id d otp now = (Inr ok, d') \<and> nonempty otp = Some token
        \<and> length (filter (\<lambda>r. otp_plain r = token) (otp_tokens (foldl serve d' rs))) \<le> 1"
  then show "post_otp_redeem pick' id (foldl serve d' rs) otp now'
            = (Inl (HttpError 410 ''otp_already_used'' None), foldl serve d' rs)"
    using redeem_later[of pick d otp now ok d' token rs pick' now'] by blast
next
  assume "post_otp_redeem pick0 id d otp now0 = (Inr ok0, d0) \<and> nonempty otp = Some token
        \<and> length (filter (\<lambda>r. otp_plain r = token) (otp_tokens d)) \<le> 1
        \<and> select_otp_by_plain pick d token = Some row0
        \<and> \<not> (\<exists>e. otp_expires_at row0 = Some e \<and> e < now)"
  then show "post_otp_redeem pick (\<lambda>x. snd (post_otp_redeem pick0 id x otp now0)) d otp now
            = (Inl (HttpError 410 ''otp_already_used'' None), d0)"
    using redeem_race[of pick0 d otp now0 ok0 d0 token pick row0 now] by blast
qed

lemma ex_select_ticket: "select_otp_by_plain pick ex_db_issued ''0f'' = Some ex_ticket"
  by (rule select_otp_single) (simp add: ex_db_issued_def ex_ticket_def)

lemma ex_select_used:
  "select_otp_by_plain pick ex_db_redeemed ''0f'' = Some (ex_ticket\<lparr> otp_used_at := Some 60000 \<rparr>)"
  by (rule select_otp_single) (simp add: ex_db_redeemed_def ex_ticket_def)

lemma ex_select_no_ticket: "select_otp_by_plain pick ex_db_issued ''zz'' = None"
  by (simp add: select_otp_None ex_db_issued_def ex_ticket_def)

lemma ex_ticket_fields:
  "otp_used_at ex_ticket = None" "otp_expires_at ex_ticket = Some 120008"
  "otp_id ex_ticket = ''o1''" "otp_repo_id ex_ticket = ''r1''"
  "otp_bundle_tx ex_ticket = ''bundle1''" "otp_decrypt_key ex_ticket = ''k1''"
  "otp_plain ex_ticket = ''0f''"
  by (simp_all add: ex_ticket_def)

lemma ex_redeem_update:
  "snd (update_otp_used_if_null ex_db_issued ''o1'' 60000) = ex_db_redeemed"
  by (simp add: update_otp_used_if_null_def ex_db_redeemed_def ex_db_issued_def ex_ticket_def)

theorem redeem_once_witness:
  "nonempty (Some ''0f'') = Some ''0f'' \<and> nonempty (Some ''zz'') = Some ''zz''
   \<and> select_otp_by_plain (\<lambda>rs. 0) ex_db_issued ''0f'' = Some ex_ticket
   \<and> ex_ticket \<in> set (otp_tokens ex_db_issued) \<and> otp_plain ex_ticket = ''0f''
   \<and> post_otp_redeem (\<lambda>rs. 0) id ex_db_issued (Some ''zz'') 60000
       = (Inl (HttpError 404 ''otp_not_found'' None), ex_db_issued)
   \<and> post_otp_redeem (\<lambda>rs. 0) id ex_db_issued (Some ''0f'') 120009
       = (Inl (HttpError 410 ''otp_expired'' None), ex_db_issued)
   \<and> post_otp_redeem (\<lambda>rs. 0) id ex_db_issued (Some ''0f'') 60000 = (Inr ex_redeemed, ex_db_redeemed)
   \<and> length (filter (\<lambda>r. otp_plain r = ''0f'')
        (otp_tokens (foldl serve ex_db_redeemed [ReqOtpRedeem (\<lambda>rs. 0) (Some ''0f'') 60001]))) \<le> 1
   \<and> post_otp_redeem (\<lambda>rs. 0) id
        (foldl serve ex_db_redeemed [ReqOtpRedeem (\<lambda>rs. 0) (Some ''0f'') 60001]) (Some ''0f'') 60002
       = (Inl (HttpError 410 ''otp_already_used'' None),
          foldl serve ex_db_redeemed [ReqOtpRedeem (\<lambda>rs. 0) (Some ''0f'') 60001])
   \<and> length (filter (\<lambda>r. otp_plain r = ''0f'') (otp_tokens ex_db_issued)) \<le> 1
   \<and> \<not> (\<exists>e. otp_expires_at ex_ticket = Some e \<and> e < 60001)
   \<and> post_otp_redeem (\<lambda>rs. 0) (\<lambda>x. snd (post_otp_redeem (\<lambda>rs. 0) id x (Some ''0f'') 60000))
        ex_db_issued (Some ''0f'') 60001
       = (Inl (HttpError 410 ''otp_already_used'' None), ex_db_redeemed)"
proof -
  let ?pick = "\<lambda>rs :: otp_row list. 0 :: nat"
  let ?rs = "[ReqOtpRedeem ?pick (Some ''0f'') 60001]"
  have n: "nonempty (Some ''0f'') = Some ''0f''" "nonempty (Some ''zz'') = Some ''zz''"
    by (simp_all add: nonempty_def)
  note first = redeem_once[where otp="Some ''0f''" and token="''0f''" and pick="?pick"
      and d=ex_db_issued, THEN conjunct1, rule_format, OF n(1)]
  have sel: "select_otp_by_plain ?pick ex_db_issued ''0f'' = Some ex_ticket"
    by (rule ex_select_ticket)
  have mem: "ex_ticket \<in> set (otp_tokens ex_db_issued)" "otp_plain ex_ticket = ''0f''"
    using first[of 60000, THEN conjunct2, THEN conjunct2, rule_format, OF sel] by simp_all
  have missing: "post_otp_redeem ?pick id ex_db_issued (Some ''zz'') 60000
       = (Inl (HttpError 404 ''otp_not_found'' None), ex_db_issued)"
    using redeem_once[where otp="Some ''zz''" and token="''zz''" and pick="?pick"
            and d=ex_db_issued and now=60000, THEN conjunct1] n(2)
    by (simp add: ex_select_no_ticket)
  have expired: "post_otp_redeem ?pick id ex_db_issued (Some ''0f'') 120009
       = (Inl (HttpError 410 ''otp_expired'' None), ex_db_issued)"
    using first[of 120009, THEN conjunct1]
    by (simp add: ex_select_ticket ex_ticket_fields)
  have ok: "post_otp_redeem ?pick id ex_db_issued (Some ''0f'') 60000 = (Inr ex_redeemed, ex_db_redeemed)"
    using first[of 60000, THEN conjunct1]
    by (simp add: ex_select_ticket ex_ticket_fields ex_redeem_update ex_redeemed_def)
  have same: "foldl serve ex_db_redeemed ?rs = ex_db_redeemed"
    using redeem_used[OF n(1) ex_select_used, of ?pick id 60001] by simp
  have one: "length (filter (\<lambda>r. otp_plain r = ''0f'') (otp_tokens (foldl serve ex_db_redeemed ?rs))) \<le> 1"
    unfolding same by (simp add: ex_db_redeemed_def ex_ticket_def)
  have later: "post_otp_redeem ?pick id (foldl serve ex_db_redeemed ?rs) (Some ''0f'') 60002
       = (Inl (HttpError 410 ''otp_already_used'' None), foldl serve ex_db_redeemed ?rs)"
    using redeem_once[where otp="Some ''0f''" and token="''0f''" and pick="?pick"
            and d=ex_db_issued and now=60000 and ok=ex_redeemed and d'=ex_db_redeemed
            and rs="?rs" and pick'="?pick" and now'=60002,
            THEN conjunct2, THEN conjunct1, rule_format] ok n(1) one
    by blast
  have one0: "length (filter (\<lambda>r. otp_plain r = ''0f'') (otp_tokens ex_db_issued)) \<le> 1"
    by (simp add: ex_db_issued_def ex_ticket_def)
  have live: "\<not> (\<exists>e. otp_expires_at ex_ticket = Some e \<and> e < 60001)"
    by (simp add: ex_ticket_fields)
  have race: "post_otp_redeem ?pick (\<lambda>x. snd (post_otp_redeem ?pick id x (Some ''0f'') 60000))
        ex_db_issued (Some ''0f'') 60001
       = (Inl (HttpError 410 ''otp_already_used'' None), ex_db_redeemed)"
    using redeem_once[where otp="Some ''0f''" and token="''0f''" and d=ex_db_issued
            and ?pick0.0="?pick" and ?now0.0=60000 and ?ok0.0=ex_redeemed and ?d0.0=ex_db_redeemed
            and pick="?pick" and ?row0.0=ex_ticket and now=60001,
            THEN conjunct2, THEN conjunct2, rule_format] ok n(1) one0 sel live
    by blast
  show ?thesis
    by (intro conjI) (fact n sel mem missing expired ok one later one0 live race)+
qed

text \<open>
  C7 as stated fails when two tickets carry the same token, which the schema allows.  The
  lookup \<^verbatim>\<open>SELECT ... WHERE otp_plain = $1 LIMIT 1\<close> has no \<^verbatim>\<open>ORDER BY\<close>; when it returns the
  first ticket to the first call and the second ticket to the second call, both redemptions
  of the token \<open>dup\<close> succeed, and the later one is not answered \<open>otp_already_used\<close>.
\<close>

theorem redeem_twice_counterexample:
  "post_otp_redeem (\<lambda>rs. 0) id ex_db_dup (Some ''dup'') 60000 = (Inr ex_dup_redeemed1, ex_db_dup1)
   \<and> post_otp_redeem (\<lambda>rs. 1) id ex_db_dup1 (Some ''dup'') 60001
       = (Inr ex_dup_redeemed2, ex_db_dup2)
   \<and> post_otp_redeem (\<lambda>rs. 1) id ex_db_dup1 (Some ''dup'') 60001
       \<noteq> (Inl (HttpError 410 ''otp_already_used'' None), ex_db_dup1)"
proof -
  have n: "nonempty (Some ''dup'') = Some ''dup''"
    by (simp add: nonempty_def)
  have s1: "select_otp_by_plain (\<lambda>rs. 0) ex_db_dup ''dup'' = Some ex_dup_ticket1"
    by (simp add: select_otp_by_plain_def ex_db_dup_def ex_dup_ticket1_def ex_dup_ticket2_def)
  have s2: "select_otp_by_plain (\<lambda>rs. 1) ex_db_dup1 ''dup'' = Some ex_dup_ticket2"
    by (simp add: select_otp_by_plain_def ex_db_dup1_def ex_dup_ticket1_def ex_dup_ticket2_def)
  have u1: "snd (update_otp_used_if_null ex_db_dup ''o1'' 60000) = ex_db_dup1"
    by (simp add: update_otp_used_if_null_def ex_db_dup_def ex_db_dup1_def ex_dup_ticket1_def
        ex_dup_ticket2_def)
  have u2: "snd (update_otp_used_if_null ex_db_dup1 ''o2'' 60001) = ex_db_dup2"
    by (simp add: update_otp_used_if_null_def ex_db_dup1_def ex_db_dup2_def ex_dup_ticket1_def
        ex_dup_ticket2_def)
  have f1: "otp_used_at ex_dup_ticket1 = None" "otp_expires_at ex_dup_ticket1 = Some 120008"
    "otp_id ex_dup_ticket1 = ''o1''"
    by (simp_all add: ex_dup_ticket1_def)
  have f2: "otp_used_at ex_dup_ticket2 = None" "otp_expires_at ex_dup_ticket2 = Some 120009"
    "otp_id ex_dup_ticket2 = ''o2''"
    by (simp_all add: ex_dup_ticket2_def)
  have a: "post_otp_redeem (\<lambda>rs. 0) id ex_db_dup (Some ''dup'') 60000 = (Inr ex_dup_redeemed1, ex_db_dup1)"
    unfolding redeem_result[OF n] s1
    by (simp add: f1 u1) (simp add: ex_dup_redeemed1_def ex_dup_ticket1_def)
  have b: "post_otp_redeem (\<lambda>rs. 1) id ex_db_dup1 (Some ''dup'') 60001
       = (Inr ex_dup_redeemed2, ex_db_dup2)"
    unfolding redeem_result[OF n] s2
    by (simp add: f2 u2) (simp add: ex_dup_redeemed2_def ex_dup_ticket2_def)
  show ?thesis using a b by simp
qed

subsection \<open>Approvals\<close>

lemma verify_nonempty:
  "verifyApprovalSignature cr txId signer sig = None \<Longrightarrow> txId \<noteq> [] \<and> signer \<noteq> [] \<and> sig \<noteq> []"
  by (auto simp: verifyApprovalSignature_def split: if_splits)

lemma select_push_update:
  assumes "select_push d rid pushTx = Some p"
    and "multisig_pushes d' = map f (multisig_pushes d)"
    and "\<And>r. mp_repo_id (f r) = mp_repo_id r \<and> mp_push_tx (f r) = mp_push_tx r"
  shows "select_push d' rid pushTx = Some (f p)"
  using assms unfolding select_push_def by (simp, intro find_map_fixes) auto

lemma approve_transaction_ok:
  assumes p: "select_push d (repo_id repo) txId = Some p"
    and fresh: "sigId \<notin> set (map ms_id (multisig_signatures d))"
    and new: "\<forall>s \<in> set (multisig_signatures d).
                 \<not> (ms_multisig_push_id s = mp_id p \<and> ms_signer s = signer)"
  shows "approve_transaction d repo txId signer sig sigId now =
     (let row = \<lparr> ms_id = sigId, ms_multisig_push_id = mp_id p, ms_signer = signer,
                   ms_signature_b64 = sig, ms_created_at = now \<rparr>;
          d1 = d\<lparr> multisig_signatures := multisig_signatures d @ [row] \<rparr>;
          cnt = count_signatures d (mp_id p) + 1
      in if cnt \<ge> mp_approvals_required p \<and> mp_status p \<noteq> ''approved''
         then Inr (\<lparr> ao_status = ''approved'', ao_approvalsCount = cnt,
                     ao_approvalsRequired = mp_approvals_required p \<rparr>,
                   update_push_approved d1 cnt (mp_id p) now)
         else Inr (\<lparr> ao_status = mp_status p, ao_approvalsCount = cnt,
                     ao_approvalsRequired = mp_approvals_required p \<rparr>,
                   update_push_count d1 cnt (mp_id p)))"
proof -
  let ?row = "\<lparr> ms_id = sigId, ms_multisig_push_id = mp_id p, ms_signer = signer,
                 ms_signature_b64 = sig, ms_created_at = now \<rparr>"
  have i: "insert_signature_translated d ?row
             = Inr (d\<lparr> multisig_signatures := multisig_signatures d @ [?row] \<rparr>)"
    using fresh new by (auto simp: insert_signature_translated_def insert_signature_def)
  have c: "count_signatures (d\<lparr> multisig_signatures := multisig_signatures d @ [?row] \<rparr>) (mp_id p)
             = count_signatures d (mp_id p) + 1"
    by (simp add: count_signatures_def)
  show ?thesis
    unfolding approve_transaction_def p option.case i sum.case Let_def c by simp
qed

lemma approve_transaction_duplicate:
  assumes p: "select_push d (repo_id repo) txId = Some p"
    and dup: "\<exists>s \<in> set (multisig_signatures d).
                 ms_multisig_push_id s = mp_id p \<and> ms_signer s = signer"
  shows "approve_transaction d repo txId signer sig sigId now
           = Inl (Error ''signature_already_submitted'')"
    and "\<exists>m. insert_signature d \<lparr> ms_id = sigId, ms_multisig_push_id = mp_id p, ms_signer = signer,
                 ms_signature_b64 = sig, ms_created_at = now \<rparr> = Inl (PgError ''23505'' m)"
    and "sigId \<notin> set (map ms_id (multisig_signatures d)) \<Longrightarrow>
         insert_signature d \<lparr> ms_id = sigId, ms_multisig_push_id = mp_id p, ms_signer = signer,
                 ms_signature_b64 = sig, ms_created_at = now \<rparr>
           = Inl (unique_violation ''multisig_signatures_multisig_push_id_signer_key'')"
proof -
  let ?row = "\<lparr> ms_id = sigId, ms_multisig_push_id = mp_id p, ms_signer = signer,
                 ms_signature_b64 = sig, ms_created_at = now \<rparr>"
  show m: "\<exists>m. insert_signature d ?row = Inl (PgError ''23505'' m)"
    using dup by (auto simp: insert_signature_def unique_violation_def)
  then have "insert_signature_translated d ?row = Inl (Error ''signature_already_submitted'')"
    by (auto simp: insert_signature_translated_def)
  then show "approve_transaction d repo txId signer sig sigId now
           = Inl (Error ''signature_already_submitted'')"
    by (simp add: approve_transaction_def p)
  show "sigId \<notin> set (map ms_id (multisig_signatures d)) \<Longrightarrow>
         insert_signature d ?row
           = Inl (unique_violation ''multisig_signatures_multisig_push_id_signer_key'')"
    using dup by (auto simp: insert_signature_def)
qed

lemma post_multisig_approve_reaches_transaction:
  assumes "nonempty (ab_txId body) = Some txId" "nonempty (ab_signer body) = Some signer"
    "nonempty (ab_signatureB64 body) = Some sig"
    "find_repo d (ab_repoId body) (ab_owner body) (ab_name body) = Some repo"
    "repo_is_multisig repo" "signer \<in> set (repo_signers repo)"
    "verifyApprovalSignature cr txId signer sig = None"
  shows "post_multisig_approve cr d body sigId now =
           (case approve_transaction d repo txId signer sig sigId now of
              Inl e \<Rightarrow> (Inl (HttpError 400 ''multisig_approval_failed'' (Some (exn_message e))), d)
            | Inr (ok, d') \<Rightarrow> (Inr ok, d'))"
  using assms by (simp add: post_multisig_approve_def)

lemma post_multisig_approve_Inr:
  assumes "post_multisig_approve cr d body sigId now = (Inr ok, d')"
  shows "\<exists>txId signer sig repo. nonempty (ab_txId body) = Some txId
          \<and> nonempty (ab_signer body) = Some signer \<and> nonempty (ab_signatureB64 body) = Some sig
          \<and> find_repo d (ab_repoId body) (ab_owner body) (ab_name body) = Some repo
          \<and> repo_is_multisig repo \<and> signer \<in> set (repo_signers repo)
          \<and> verifyApprovalSignature cr txId signer sig = None
          \<and> approve_transaction d repo txId signer sig sigId now = Inr (ok, d')"
  using assms
  by (auto simp: post_multisig_approve_def split: option.splits sum.splits if_splits)

lemma approve_transaction_Inr:
  assumes "approve_transaction d repo txId signer sig sigId now = Inr (ok, d')"
  shows "\<exists>p. select_push d (repo_id repo) txId = Some p
          \<and> sigId \<notin> set (map ms_id (multisig_signatures d))
          \<and> (\<forall>s \<in> set (multisig_signatures d).
                 \<not> (ms_multisig_push_id s = mp_id p \<and> ms_signer s = signer))"
  using assms
  by (auto simp: approve_transaction_def insert_signature_translated_def insert_signature_def
      split: option.splits sum.splits if_splits)

lemma approve_transaction_effect:
  assumes p: "select_push d (repo_id repo) txId = Some p"
    and fresh: "sigId \<notin> set (map ms_id (multisig_signatures d))"
    and new: "\<forall>s \<in> set (multisig_signatures d).
                 \<not> (ms_multisig_push_id s = mp_id p \<and> ms_signer s = signer)"
    and cnt: "cnt = count_signatures d (mp_id p) + 1"
    and flip: "flip \<longleftrightarrow> cnt \<ge> mp_approvals_required p \<and> mp_status p \<noteq> ''approved''"
  shows "\<exists>d'. approve_transaction d repo txId signer sig sigId now =
            Inr (\<lparr> ao_status = (if flip then ''approved'' else mp_status p),
                   ao_approvalsCount = cnt,
                   ao_approvalsRequired = mp_approvals_required p \<rparr>, d')
          \<and> repos d' = repos d
          \<and> multisig_signatures d' = multisig_signatures d
               @ [\<lparr> ms_id = sigId, ms_multisig_push_id = mp_id p, ms_signer = signer,
                    ms_signature_b64 = sig, ms_created_at = now \<rparr>]
          \<and> select_push d' (repo_id repo) txId
              = Some (p\<lparr> mp_status := (if flip then ''approved'' else mp_status p),
                         mp_approvals_count := cnt,
                         mp_approved_at := (if flip then Some now else mp_approved_at p) \<rparr>)"
proof (cases flip)
  case True
  let ?f = "\<lambda>r. if mp_id r = mp_id p
                 then r\<lparr> mp_status := ''approved'', mp_approvals_count := cnt,
                         mp_approved_at := Some now \<rparr>
                 else r"
  let ?d1 = "d\<lparr> multisig_signatures := multisig_signatures d
               @ [\<lparr> ms_id = sigId, ms_multisig_push_id = mp_id p, ms_signer = signer,
                    ms_signature_b64 = sig, ms_created_at = now \<rparr>] \<rparr>"
  let ?d' = "update_push_approved ?d1 cnt (mp_id p) now"
  have r: "approve_transaction d repo txId signer sig sigId now =
            Inr (\<lparr> ao_status = ''approved'', ao_approvalsCount = cnt,
                   ao_approvalsRequired = mp_approvals_required p \<rparr>, ?d')"
    using True flip cnt by (simp add: approve_transaction_ok[OF p fresh new] Let_def)
  have p1: "select_push ?d1 (repo_id repo) txId = Some p"
    using p by (simp add: select_push_def)
  have s: "select_push ?d' (repo_id repo) txId = Some (?f p)"
    by (rule select_push_update[OF p1]) (simp_all add: update_push_approved_def)
  show ?thesis
    using r s True by (intro exI[of _ ?d']) (simp add: update_push_approved_def)
next
  case False
  let ?f = "\<lambda>r. if mp_id r = mp_id p then r\<lparr> mp_approvals_count := cnt \<rparr> else r"
  let ?d1 = "d\<lparr> multisig_signatures := multisig_signatures d
               @ [\<lparr> ms_id = sigId, ms_multisig_push_id = mp_id p, ms_signer = signer,
                    ms_signature_b64 = sig, ms_created_at = now \<rparr>] \<rparr>"
  let ?d' = "update_push_count ?d1 cnt (mp_id p)"
  have r: "approve_transaction d repo txId signer sig sigId now =
            Inr (\<lparr> ao_status = mp_status p, ao_approvalsCount = cnt,
                   ao_approvalsRequired = mp_approvals_required p \<rparr>, ?d')"
    using False flip cnt
    by (auto simp add: approve_transaction_ok[OF p fresh new] Let_def)
  have p1: "select_push ?d1 (repo_id repo) txId = Some p"
    using p by (simp add: select_push_def)
  have s: "select_push ?d' (repo_id repo) txId = Some (?f p)"
    by (rule select_push_update[OF p1]) (simp_all add: update_push_count_def)
  show ?thesis
    using r s False by (intro exI[of _ ?d']) (simp add: update_push_count_def)
qed


lemma find_repo_cong: "repos d' = repos d \<Longrightarrow> find_repo d' a b c = find_repo d a b c"
  by (auto simp: find_repo_def select_repo_by_id_def getRepoByOwnerAndName_def
      split: option.splits prod.splits)

lemma approve_step:
  assumes body: "nonempty (ab_txId body) = Some txId" "nonempty (ab_signer body) = Some signer"
    "nonempty (ab_signatureB64 body) = Some sig"
    and repo: "find_repo d (ab_repoId body) (ab_owner body) (ab_name body) = Some repo"
    "repo_is_multisig repo" "signer \<in> set (repo_signers repo)"
    and valid: "verifyApprovalSignature cr txId signer sig = None"
    and p: "select_push d (repo_id repo) txId = Some p"
    and fresh: "sigId \<notin> set (map ms_id (multisig_signatures d))"
    and new: "\<forall>s \<in> set (multisig_signatures d).
                 \<not> (ms_multisig_push_id s = mp_id p \<and> ms_signer s = signer)"
    and cnt: "cnt = count_signatures d (mp_id p) + 1"
    and flip: "flip \<longleftrightarrow> cnt \<ge> mp_approvals_required p \<and> mp_status p \<noteq> ''approved''"
  shows "\<exists>d'. post_multisig_approve cr d body sigId now =
            (Inr \<lparr> ao_status = (if flip then ''approved'' else mp_status p),
                   ao_approvalsCount = cnt,
                   ao_approvalsRequired = mp_approvals_required p \<rparr>, d')
          \<and> repos d' = repos d
          \<and> multisig_signatures d' = multisig_signatures d
               @ [\<lparr> ms_id = sigId, ms_multisig_push_id = mp_id p, ms_signer = signer,
                    ms_signature_b64 = sig, ms_created_at = now \<rparr>]
          \<and> select_push d' (repo_id repo) txId
              = Some (p\<lparr> mp_status := (if flip then ''approved'' else mp_status p),
                         mp_approvals_count := cnt,
                         mp_approved_at := (if flip then Some now else mp_approved_at p) \<rparr>)"
proof -
  from approve_transaction_effect[OF p fresh new cnt flip, of sig now] obtain d' where
    t: "approve_transaction d repo txId signer sig sigId now =
            Inr (\<lparr> ao_status = (if flip then ''approved'' else mp_status p),
                   ao_approvalsCount = cnt,
                   ao_approvalsRequired = mp_approvals_required p \<rparr>, d')"
    and e: "repos d' = repos d"
       "multisig_signatures d' = multisig_signatures d
               @ [\<lparr> ms_id = sigId, ms_multisig_push_id = mp_id p, ms_signer = signer,
                    ms_signature_b64 = sig, ms_created_at = now \<rparr>]"
       "select_push d' (repo_id repo) txId
              = Some (p\<lparr> mp_status := (if flip then ''approved'' else mp_status p),
                         mp_approvals_count := cnt,
                         mp_approved_at := (if flip then Some now else mp_approved_at p) \<rparr>)"
    by blast
  have "post_multisig_approve cr d body sigId now =
            (Inr \<lparr> ao_status = (if flip then ''approved'' else mp_status p),
                   ao_approvalsCount = cnt,
                   ao_approvalsRequired = mp_approvals_required p \<rparr>, d')"
    unfolding post_multisig_approve_reaches_transaction[OF body repo valid] t by simp
  with e show ?thesis by blast
qed

text \<open>
  C6.  After an approval that succeeded, a further \<^verbatim>\<open>POST /multisig/approve\<close> from the same
  signer for the same push of the same repository, with any valid signature, is answered
  \<open>signature_already_submitted\<close> and leaves the database unchanged: the stored status and
  count are those the first call returned, and so is the number of signature rows.  The
  error is the store's: the signature insert raises SQLSTATE 23505, which the handler
  renames, and with a fresh row id it is the violation of the unique constraint on (request
  id, signer).
\<close>

theorem approve_resubmission:
  assumes first: "post_multisig_approve cr d body sigId now = (Inr ok, d1)"
    and same: "ab_repoId body2 = ab_repoId body" "ab_owner body2 = ab_owner body"
      "ab_name body2 = ab_name body"
      "nonempty (ab_txId body2) = Some txId" "nonempty (ab_txId body) = Some txId"
      "nonempty (ab_signer body2) = Some signer" "nonempty (ab_signer body) = Some signer"
    and sig2: "nonempty (ab_signatureB64 body2) = Some sig2"
      "verifyApprovalSignature cr txId signer sig2 = None"
  shows "post_multisig_approve cr d1 body2 sigId2 now2 =
           (Inl (HttpError 400 ''multisig_approval_failed'' (Some ''signature_already_submitted'')),
            d1)
       \<and> (\<exists>repo p. find_repo d1 (ab_repoId body2) (ab_owner body2) (ab_name body2) = Some repo
             \<and> select_push d1 (repo_id repo) txId = Some p
             \<and> mp_status p = ao_status ok \<and> mp_approvals_count p = ao_approvalsCount ok
             \<and> count_signatures d1 (mp_id p) = ao_approvalsCount ok
             \<and> (\<exists>m. insert_signature d1
                       \<lparr> ms_id = sigId2, ms_multisig_push_id = mp_id p, ms_signer = signer,
                         ms_signature_b64 = sig2, ms_created_at = now2 \<rparr>
                     = Inl (PgError ''23505'' m))
             \<and> (sigId2 \<notin> set (map ms_id (multisig_signatures d1)) \<longrightarrow>
                  insert_signature d1
                    \<lparr> ms_id = sigId2, ms_multisig_push_id = mp_id p, ms_signer = signer,
                      ms_signature_b64 = sig2, ms_created_at = now2 \<rparr>
                  = Inl (unique_violation ''multisig_signatures_multisig_push_id_signer_key'')))"
proof -
  from post_multisig_approve_Inr[OF first] same obtain sig repo where
    b: "nonempty (ab_signatureB64 body) = Some sig"
    and r: "find_repo d (ab_repoId body) (ab_owner body) (ab_name body) = Some repo"
       "repo_is_multisig repo" "signer \<in> set (repo_signers repo)"
    and v: "verifyApprovalSignature cr txId signer sig = None"
    and t: "approve_transaction d repo txId signer sig sigId now = Inr (ok, d1)"
    by auto
  from approve_transaction_Inr[OF t] obtain p where
    p: "select_push d (repo_id repo) txId = Some p"
    and fresh: "sigId \<notin> set (map ms_id (multisig_signatures d))"
    and new: "\<forall>s \<in> set (multisig_signatures d).
                 \<not> (ms_multisig_push_id s = mp_id p \<and> ms_signer s = signer)"
    by blast
  define cnt where "cnt = count_signatures d (mp_id p) + 1"
  define flip where "flip \<longleftrightarrow> cnt \<ge> mp_approvals_required p \<and> mp_status p \<noteq> ''approved''"
  let ?p1 = "p\<lparr> mp_status := (if flip then ''approved'' else mp_status p),
                mp_approvals_count := cnt,
                mp_approved_at := (if flip then Some now else mp_approved_at p) \<rparr>"
  from approve_transaction_effect[OF p fresh new cnt_def flip_def, of sig now] t
  have ok: "ok = \<lparr> ao_status = (if flip then ''approved'' else mp_status p),
                   ao_approvalsCount = cnt, ao_approvalsRequired = mp_approvals_required p \<rparr>"
    and e: "repos d1 = repos d"
       "multisig_signatures d1 = multisig_signatures d
               @ [\<lparr> ms_id = sigId, ms_multisig_push_id = mp_id p, ms_signer = signer,
                    ms_signature_b64 = sig, ms_created_at = now \<rparr>]"
       "select_push d1 (repo_id repo) txId = Some ?p1"
    by auto
  have r1: "find_repo d1 (ab_repoId body2) (ab_owner body2) (ab_name body2) = Some repo"
    using r(1) same(1-3) find_repo_cong[OF e(1)] by simp
  have dup: "\<exists>s \<in> set (multisig_signatures d1).
               ms_multisig_push_id s = mp_id ?p1 \<and> ms_signer s = signer"
    unfolding e(2) by simp
  have c1: "count_signatures d1 (mp_id ?p1) = cnt"
    unfolding cnt_def count_signatures_def e(2) by simp
  from approve_transaction_duplicate[OF e(3) dup, where sig=sig2 and sigId=sigId2 and now=now2]
  have a: "approve_transaction d1 repo txId signer sig2 sigId2 now2
             = Inl (Error ''signature_already_submitted'')"
    and i: "\<exists>m. insert_signature d1
                  \<lparr> ms_id = sigId2, ms_multisig_push_id = mp_id ?p1, ms_signer = signer,
                    ms_signature_b64 = sig2, ms_created_at = now2 \<rparr> = Inl (PgError ''23505'' m)"
    and u: "sigId2 \<notin> set (map ms_id (multisig_signatures d1)) \<longrightarrow>
              insert_signature d1
                \<lparr> ms_id = sigId2, ms_multisig_push_id = mp_id ?p1, ms_signer = signer,
                  ms_signature_b64 = sig2, ms_created_at = now2 \<rparr>
              = Inl (unique_violation ''multisig_signatures_multisig_push_id_signer_key'')"
    by blast+
  have res: "post_multisig_approve cr d1 body2 sigId2 now2 =
           (Inl (HttpError 400 ''multisig_approval_failed'' (Some ''signature_already_submitted'')),
            d1)"
    unfolding post_multisig_approve_reaches_transaction[OF same(4) same(6) sig2(1) r1 r(2,3) sig2(2)] a
    by simp
  have st: "mp_status ?p1 = ao_status ok" "mp_approvals_count ?p1 = ao_approvalsCount ok"
    "count_signatures d1 (mp_id ?p1) = ao_approvalsCount ok"
    using c1 by (simp_all add: ok)
  show ?thesis
    using res r1 e(3) st i u by blast
qed


lemma approve_run:
  assumes repo: "find_repo d repoId owner name = Some repo" "repo_is_multisig repo"
    and push: "select_push d (repo_id repo) txId = Some p" "mp_approvals_required p = k"
    and count: "count_signatures d (mp_id p) = c"
    and status: "mp_status p = (if k \<le> c then ''approved'' else ''pending'')"
    and new: "\<forall>s \<in> set (multisig_signatures d).
                ms_multisig_push_id s = mp_id p \<longrightarrow> ms_signer s \<notin> sub_signer ` set subs"
    and signers: "distinct (map sub_signer subs)"
      "\<forall>sub \<in> set subs. sub_signer sub \<in> set (repo_signers repo)
          \<and> verifyApprovalSignature cr txId (sub_signer sub) (sub_signature sub) = None"
    and ids: "distinct (map sub_id subs)"
      "\<forall>sub \<in> set subs. sub_id sub \<notin> set (map ms_id (multisig_signatures d))"
  shows "\<exists>p'. select_push (foldl serve d (map (approval cr repoId owner name txId) subs))
                 (repo_id repo) txId = Some p'
          \<and> mp_id p' = mp_id p
          \<and> mp_status p' = (if k \<le> c + int (length subs) then ''approved'' else ''pending'')
          \<and> count_signatures (foldl serve d (map (approval cr repoId owner name txId) subs))
                (mp_id p) = c + int (length subs)
          \<and> (subs \<noteq> [] \<longrightarrow> mp_approvals_count p' = c + int (length subs))
          \<and> (c + int (length subs) < k \<or> k \<le> c \<longrightarrow> mp_approved_at p' = mp_approved_at p)
          \<and> (c < k \<and> k \<le> c + int (length subs) \<longrightarrow> mp_approved_at p' \<noteq> None)"
  using assms
proof (induction subs arbitrary: d p c)
  case Nil
  then show ?case by auto
next
  case (Cons sub subs)
  let ?body = "\<lparr> ab_repoId = repoId, ab_owner = owner, ab_name = name, ab_txId = Some txId,
                  ab_signer = Some (sub_signer sub), ab_signatureB64 = Some (sub_signature sub) \<rparr>"
  have valid: "verifyApprovalSignature cr txId (sub_signer sub) (sub_signature sub) = None"
    and auth: "sub_signer sub \<in> set (repo_signers repo)"
    using Cons.prems(9) by simp_all
  from verify_nonempty[OF valid]
  have body: "nonempty (ab_txId ?body) = Some txId" "nonempty (ab_signer ?body) = Some (sub_signer sub)"
    "nonempty (ab_signatureB64 ?body) = Some (sub_signature sub)"
    by (simp_all add: nonempty_def)
  have fr: "find_repo d (ab_repoId ?body) (ab_owner ?body) (ab_name ?body) = Some repo"
    using Cons.prems(1) by simp
  have fresh: "sub_id sub \<notin> set (map ms_id (multisig_signatures d))"
    using Cons.prems(11) by simp
  have new: "\<forall>s \<in> set (multisig_signatures d).
                 \<not> (ms_multisig_push_id s = mp_id p \<and> ms_signer s = sub_signer sub)"
    using Cons.prems(7) by auto
  define cnt where "cnt = count_signatures d (mp_id p) + 1"
  define flip where "flip \<longleftrightarrow> cnt \<ge> mp_approvals_required p \<and> mp_status p \<noteq> ''approved''"
  define p1 where "p1 = p\<lparr> mp_status := (if flip then ''approved'' else mp_status p),
                mp_approvals_count := cnt,
                mp_approved_at := (if flip then Some (sub_time sub) else mp_approved_at p) \<rparr>"
  from approve_step[OF body fr Cons.prems(2) auth valid Cons.prems(3) fresh new cnt_def flip_def,
          of "sub_time sub"]
  obtain d1 where
    res: "post_multisig_approve cr d ?body (sub_id sub) (sub_time sub) =
            (Inr \<lparr> ao_status = (if flip then ''approved'' else mp_status p),
                   ao_approvalsCount = cnt,
                   ao_approvalsRequired = mp_approvals_required p \<rparr>, d1)"
    and e: "repos d1 = repos d"
       "multisig_signatures d1 = multisig_signatures d
               @ [\<lparr> ms_id = sub_id sub, ms_multisig_push_id = mp_id p, ms_signer = sub_signer sub,
                    ms_signature_b64 = sub_signature sub, ms_created_at = sub_time sub \<rparr>]"
       "select_push d1 (repo_id repo) txId = Some p1"
    unfolding p1_def by blast
  have d1: "serve d (approval cr repoId owner name txId sub) = d1"
    by (simp add: approval_def res)
  have cnt: "cnt = c + 1" using Cons.prems(5) by (simp add: cnt_def)
  have flip: "flip \<longleftrightarrow> c < k \<and> k \<le> c + 1"
    using Cons.prems(4,6) by (auto simp: flip_def cnt)
  have r1: "find_repo d1 repoId owner name = Some repo"
    using Cons.prems(1) find_repo_cong[OF e(1)] by simp
  have id1: "mp_id p1 = mp_id p" and k1: "mp_approvals_required p1 = k"
    using Cons.prems(4) by (simp_all add: p1_def)
  have c1: "count_signatures d1 (mp_id p1) = c + 1"
    using Cons.prems(5) by (simp add: count_signatures_def e(2) id1)
  have s1: "mp_status p1 = (if k \<le> c + 1 then ''approved'' else ''pending'')"
    using Cons.prems(6) flip by (auto simp: p1_def)
  have n1: "\<forall>s \<in> set (multisig_signatures d1).
                ms_multisig_push_id s = mp_id p1 \<longrightarrow> ms_signer s \<notin> sub_signer ` set subs"
    using Cons.prems(7,8) by (auto simp: e(2) id1)
  have g1: "distinct (map sub_signer subs)"
    "\<forall>sub \<in> set subs. sub_signer sub \<in> set (repo_signers repo)
          \<and> verifyApprovalSignature cr txId (sub_signer sub) (sub_signature sub) = None"
    using Cons.prems(8,9) by simp_all
  have i1: "distinct (map sub_id subs)"
    "\<forall>sub \<in> set subs. sub_id sub \<notin> set (map ms_id (multisig_signatures d1))"
    using Cons.prems(10,11) by (auto simp: e(2) image_iff)
  from Cons.IH[OF r1 Cons.prems(2) e(3) k1 c1 s1 n1 g1 i1]
  obtain p' where
    ih: "select_push (foldl serve d1 (map (approval cr repoId owner name txId) subs))
                 (repo_id repo) txId = Some p'"
       "mp_id p' = mp_id p1"
       "mp_status p' = (if k \<le> c + 1 + int (length subs) then ''approved'' else ''pending'')"
       "count_signatures (foldl serve d1 (map (approval cr repoId owner name txId) subs))
                (mp_id p1) = c + 1 + int (length subs)"
       "subs \<noteq> [] \<longrightarrow> mp_approvals_count p' = c + 1 + int (length subs)"
       "c + 1 + int (length subs) < k \<or> k \<le> c + 1 \<longrightarrow> mp_approved_at p' = mp_approved_at p1"
       "c + 1 < k \<and> k \<le> c + 1 + int (length subs) \<longrightarrow> mp_approved_at p' \<noteq> None"
    by blast
  have last: "subs = [] \<Longrightarrow> p' = p1"
    using ih(1) e(3) by simp
  have cntp: "mp_approvals_count p' = c + 1 + int (length subs)"
    using ih(5) last by (cases "subs = []") (simp_all add: p1_def cnt)
  have at_same: "c + 1 + int (length subs) < k \<or> k \<le> c \<longrightarrow> mp_approved_at p' = mp_approved_at p"
    using ih(6) flip by (auto simp: p1_def)
  have at_set: "c < k \<and> k \<le> c + 1 + int (length subs) \<longrightarrow> mp_approved_at p' \<noteq> None"
  proof (intro impI)
    assume a: "c < k \<and> k \<le> c + 1 + int (length subs)"
    show "mp_approved_at p' \<noteq> None"
    proof (cases "k \<le> c + 1")
      case True
      then have f: flip using a flip by simp
      then have "mp_approved_at p1 \<noteq> None" by (simp add: p1_def)
      moreover have "mp_approved_at p' = mp_approved_at p1"
        using ih(6) True by simp
      ultimately show ?thesis by simp
    next
      case False
      then show ?thesis using ih(7) a by simp
    qed
  qed
  show ?case
    using ih(1-4) cntp at_same at_set id1
    by (simp add: d1 add.assoc)
qed


text \<open>
  C5.  Take an approval request that is pending, requires \<open>k \<ge> 1\<close> approvals and has no
  signature row yet, and let distinct authorized signers submit one valid signature each, in
  any order (the row ids being fresh and distinct).  After \<open>m\<close> submissions the number of
  stored signature rows is \<open>m\<close>, the stored count (whatever it was at the start) is that
  number, and the status is \<open>approved\<close> with \<open>approved_at\<close> set when \<open>m \<ge> k\<close>, and still
  \<open>pending\<close> with \<open>approved_at\<close> untouched when \<open>m < k\<close>.
\<close>

theorem approvals_reach_quorum:
  assumes repo: "find_repo d repoId owner name = Some repo" "repo_is_multisig repo"
    and push: "select_push d (repo_id repo) txId = Some push" "mp_status push = ''pending''"
      "mp_approvals_required push = k" "1 \<le> k"
    and none: "\<forall>s \<in> set (multisig_signatures d). ms_multisig_push_id s \<noteq> mp_id push"
    and signers: "distinct (map sub_signer subs)"
      "\<forall>sub \<in> set subs. sub_signer sub \<in> set (repo_signers repo)
          \<and> verifyApprovalSignature cr txId (sub_signer sub) (sub_signature sub) = None"
    and ids: "distinct (map sub_id subs)"
      "\<forall>sub \<in> set subs. sub_id sub \<notin> set (map ms_id (multisig_signatures d))"
  shows "\<exists>push'. select_push (foldl serve d (map (approval cr repoId owner name txId) subs))
                    (repo_id repo) txId = Some push'
          \<and> mp_status push' = (if k \<le> int (length subs) then ''approved'' else ''pending'')
          \<and> count_signatures (foldl serve d (map (approval cr repoId owner name txId) subs))
                (mp_id push) = int (length subs)
          \<and> (subs \<noteq> [] \<longrightarrow> mp_approvals_count push' = int (length subs))
          \<and> (int (length subs) < k \<longrightarrow> mp_approved_at push' = mp_approved_at push)
          \<and> (k \<le> int (length subs) \<longrightarrow> mp_approved_at push' \<noteq> None)"
proof -
  have c: "count_signatures d (mp_id push) = 0"
    using none by (simp add: count_signatures_def filter_empty_conv)
  have s: "mp_status push = (if k \<le> 0 then ''approved'' else ''pending'')"
    using push(2,4) by simp
  have n: "\<forall>s \<in> set (multisig_signatures d).
             ms_multisig_push_id s = mp_id push \<longrightarrow> ms_signer s \<notin> sub_signer ` set subs"
    using none by simp
  from approve_run[OF repo push(1,3) c s n signers ids] push(4)
  show ?thesis by auto
qed

lemma ex_verify_sig:
  "verifyApprovalSignature ex_crypto ''push1'' ''A'' ''sigA'' = None"
  "verifyApprovalSignature ex_crypto ''push1'' ''B'' ''sigB'' = None"
  "verifyApprovalSignature ex_crypto ''push1'' ''C'' ''sigC'' = None"
  by (simp_all add: verifyApprovalSignature_def ex_crypto_def)

lemma ex_setup1_facts:
  "find_repo ex_db_setup1 (Some ''r1'') None None = Some ex_setup_repo"
  "repo_is_multisig ex_setup_repo" "repo_id ex_setup_repo = ''r1''"
  "repo_signers ex_setup_repo = [''A'', ''B'', ''C'']"
  "select_push ex_db_setup1 ''r1'' ''push1'' = Some (ex_push ''m1'' ''push1'' 11)"
  "mp_status (ex_push ''m1'' ''push1'' 11) = ''pending''"
  "mp_approvals_required (ex_push ''m1'' ''push1'' 11) = 2"
  "mp_id (ex_push ''m1'' ''push1'' 11) = ''m1''"
  "mp_approved_at (ex_push ''m1'' ''push1'' 11) = None"
  "multisig_signatures ex_db_setup1 = []"
  by (simp_all add: find_repo_def select_repo_by_id_def select_push_def nonempty_def
      ex_db_setup1_def ex_db_setup_def ex_db_empty_def ex_setup_repo_def ex_push_def)

theorem approvals_reach_quorum_witness:
  "find_repo ex_db_setup1 (Some ''r1'') None None = Some ex_setup_repo
   \<and> repo_is_multisig ex_setup_repo
   \<and> select_push ex_db_setup1 (repo_id ex_setup_repo) ''push1'' = Some (ex_push ''m1'' ''push1'' 11)
   \<and> mp_status (ex_push ''m1'' ''push1'' 11) = ''pending''
   \<and> mp_approvals_required (ex_push ''m1'' ''push1'' 11) = 2
   \<and> multisig_signatures ex_db_setup1 = []
   \<and> (\<exists>push'. select_push
          (foldl serve ex_db_setup1
             (map (approval ex_crypto (Some ''r1'') None None ''push1'') [ex_sub ''B'' ''s1'' 20]))
          (repo_id ex_setup_repo) ''push1'' = Some push'
        \<and> mp_status push' = ''pending'' \<and> mp_approvals_count push' = 1
        \<and> mp_approved_at push' = None)
   \<and> (\<exists>push'. select_push
          (foldl serve ex_db_setup1
             (map (approval ex_crypto (Some ''r1'') None None ''push1'')
                [ex_sub ''B'' ''s1'' 20, ex_sub ''A'' ''s2'' 21]))
          (repo_id ex_setup_repo) ''push1'' = Some push'
        \<and> mp_status push' = ''approved'' \<and> mp_approvals_count push' = 2
        \<and> mp_approved_at push' \<noteq> None)"
proof -
  note f = ex_setup1_facts
  have p: "select_push ex_db_setup1 (repo_id ex_setup_repo) ''push1''
             = Some (ex_push ''m1'' ''push1'' 11)"
    by (simp add: f)
  have none: "\<forall>s \<in> set (multisig_signatures ex_db_setup1).
                ms_multisig_push_id s \<noteq> mp_id (ex_push ''m1'' ''push1'' 11)"
    by (simp add: f)
  have one: "distinct (map sub_signer [ex_sub ''B'' ''s1'' 20])"
    "\<forall>sub \<in> set [ex_sub ''B'' ''s1'' 20]. sub_signer sub \<in> set (repo_signers ex_setup_repo)
        \<and> verifyApprovalSignature ex_crypto ''push1'' (sub_signer sub) (sub_signature sub) = None"
    "distinct (map sub_id [ex_sub ''B'' ''s1'' 20])"
    "\<forall>sub \<in> set [ex_sub ''B'' ''s1'' 20].
        sub_id sub \<notin> set (map ms_id (multisig_signatures ex_db_setup1))"
    by (simp_all add: ex_sub_def f ex_verify_sig)
  have two: "distinct (map sub_signer [ex_sub ''B'' ''s1'' 20, ex_sub ''A'' ''s2'' 21])"
    "\<forall>sub \<in> set [ex_sub ''B'' ''s1'' 20, ex_sub ''A'' ''s2'' 21].
        sub_signer sub \<in> set (repo_signers ex_setup_repo)
        \<and> verifyApprovalSignature ex_crypto ''push1'' (sub_signer sub) (sub_signature sub) = None"
    "distinct (map sub_id [ex_sub ''B'' ''s1'' 20, ex_sub ''A'' ''s2'' 21])"
    "\<forall>sub \<in> set [ex_sub ''B'' ''s1'' 20, ex_sub ''A'' ''s2'' 21].
        sub_id sub \<notin> set (map ms_id (multisig_signatures ex_db_setup1))"
    by (simp_all add: ex_sub_def f ex_verify_sig)
  have k: "(1::int) \<le> 2" by simp
  have r1: "\<exists>push'. select_push
          (foldl serve ex_db_setup1
             (map (approval ex_crypto (Some ''r1'') None None ''push1'') [ex_sub ''B'' ''s1'' 20]))
          (repo_id ex_setup_repo) ''push1'' = Some push'
        \<and> mp_status push' = ''pending'' \<and> mp_approvals_count push' = 1
        \<and> mp_approved_at push' = None"
    using approvals_reach_quorum[OF f(1,2) p f(6,7) k none one]
    by (auto simp: f)
  have r2: "\<exists>push'. select_push
          (foldl serve ex_db_setup1
             (map (approval ex_crypto (Some ''r1'') None None ''push1'')
                [ex_sub ''B'' ''s1'' 20, ex_sub ''A'' ''s2'' 21]))
          (repo_id ex_setup_repo) ''push1'' = Some push'
        \<and> mp_status push' = ''approved'' \<and> mp_approvals_count push' = 2
        \<and> mp_approved_at push' \<noteq> None"
    using approvals_reach_quorum[OF f(1,2) p f(6,7) k none two]
    by (auto simp: f)
  show ?thesis
    by (intro conjI) (fact f p r1 r2)+
qed


lemma ex_approve_body_facts:
  "ab_repoId (ex_approve_body ''A'') = Some ''r1''" "ab_owner (ex_approve_body ''A'') = None"
  "ab_name (ex_approve_body ''A'') = None"
  "nonempty (ab_txId (ex_approve_body ''A'')) = Some ''push1''"
  "nonempty (ab_signer (ex_approve_body ''A'')) = Some ''A''"
  "nonempty (ab_signatureB64 (ex_approve_body ''A'')) = Some ''sigA''"
  by (simp_all add: ex_approve_body_def nonempty_def)

lemma ex_first_approval:
  "post_multisig_approve ex_crypto ex_db_setup1 (ex_approve_body ''A'') ''s1'' 20
     = (Inr \<lparr> ao_status = ''pending'', ao_approvalsCount = 1, ao_approvalsRequired = 2 \<rparr>,
        ex_db_approved1)"
proof -
  note f = ex_setup1_facts
  have t: "approve_transaction ex_db_setup1 ex_setup_repo ''push1'' ''A'' ''sigA'' ''s1'' 20
             = Inr (\<lparr> ao_status = ''pending'', ao_approvalsCount = 1, ao_approvalsRequired = 2 \<rparr>,
                    ex_db_approved1)"
    by (simp add: approve_transaction_def f insert_signature_translated_def insert_signature_def
        count_signatures_def update_push_count_def Let_def ex_db_approved1_def)
       (simp add: ex_db_setup1_def ex_push_def)
  show ?thesis
    using post_multisig_approve_reaches_transaction[OF ex_approve_body_facts(4-6),
            of ex_db_setup1 ex_setup_repo ex_crypto "''s1''" 20]
    by (simp add: ex_approve_body_facts f ex_verify_sig t)
qed

theorem approve_resubmission_witness:
  "post_multisig_approve ex_crypto ex_db_setup1 (ex_approve_body ''A'') ''s1'' 20
     = (Inr \<lparr> ao_status = ''pending'', ao_approvalsCount = 1, ao_approvalsRequired = 2 \<rparr>,
        ex_db_approved1)
   \<and> nonempty (ab_txId (ex_approve_body ''A'')) = Some ''push1''
   \<and> nonempty (ab_signer (ex_approve_body ''A'')) = Some ''A''
   \<and> nonempty (ab_signatureB64 (ex_approve_body ''A'')) = Some ''sigA''
   \<and> verifyApprovalSignature ex_crypto ''push1'' ''A'' ''sigA'' = None
   \<and> post_multisig_approve ex_crypto ex_db_approved1 (ex_approve_body ''A'') ''s2'' 21
       = (Inl (HttpError 400 ''multisig_approval_failed'' (Some ''signature_already_submitted'')),
          ex_db_approved1)"
proof -
  note b = ex_approve_body_facts
  have same: "ab_repoId (ex_approve_body ''A'') = ab_repoId (ex_approve_body ''A'')"
    "ab_owner (ex_approve_body ''A'') = ab_owner (ex_approve_body ''A'')"
    "ab_name (ex_approve_body ''A'') = ab_name (ex_approve_body ''A'')"
    by simp_all
  from approve_resubmission[OF ex_first_approval same b(4) b(4) b(5) b(5) b(6) ex_verify_sig(1),
          of "''s2''" 21]
  have "post_multisig_approve ex_crypto ex_db_approved1 (ex_approve_body ''A'') ''s2'' 21
       = (Inl (HttpError 400 ''multisig_approval_failed'' (Some ''signature_already_submitted'')),
          ex_db_approved1)"
    by (rule conjunct1)
  then show ?thesis
    using ex_first_approval b(4-6) ex_verify_sig(1) by simp
qed


end
